(* ===== verification/Prelude.thy ===== *)
theory Prelude
  imports Main "HOL-Library.Word"
begin

text \<open>
  Shared vocabulary of the ELKS exec development: the machine types of the 16-bit
  target (\<open>int\<close>, \<open>size_t\<close>, \<open>seg_t\<close>, \<open>segext_t\<close> are 16 bits wide, \<open>long\<close> is 32
  bits), the error codes the loader returns, the kernel build configuration that
  selects the code paths of \<^verbatim>\<open>src/elks/fs/exec.c\<close>, the error-propagating
  composition used to follow the code's \<open>goto error\<close> exits, and the word lemmas
  the component proofs share.
\<close>

unbundle bit_operations_syntax

type_synonym u8 = "8 word"
type_synonym u16 = "16 word"
type_synonym u32 = "32 word"
type_synonym size_t = u16
type_synonym seg_t = u16
type_synonym segext_t = u16

named_theorems exec_defs "definitions of the loader model unfolded by component proofs"

subsection \<open>Error codes\<close>

text \<open>
  The negative status codes of the loader (\<open>-EINVAL\<close>, \<open>-ENOEXEC\<close>, \<dots>). The code
  returns \<open>-e\<close>; the model returns \<open>Inl e\<close>.
\<close>

datatype errno = EINVAL | ENOEXEC | EFBIG | E2BIG | ENOMEM

type_synonym 'a result = "errno + 'a"

subsection \<open>Build configuration\<close>

text \<open>
  The \<open>#ifdef\<close> switches of \<^verbatim>\<open>exec.c\<close> and the default heap and stack sizes of
  \<^verbatim>\<open>limits.h\<close>. Every theorem of the development is stated for an arbitrary
  configuration unless it names one.
\<close>

record config =
  CONFIG_EXEC_MMODEL :: bool
  CONFIG_EXEC_LOW_STACK :: bool
  CONFIG_EXEC_COMPRESS :: bool
  CONFIG_EXEC_OS2 :: bool
  INIT_HEAP :: u16
  INIT_STACK :: u16

text \<open>
  A representative configuration, used by the concrete examples: the medium memory
  model, no low stack, no compression, no OS/2 images, 4 KiB default heap and stack.
\<close>

definition elks_config :: config where
  "elks_config =
     \<lparr>CONFIG_EXEC_MMODEL = True, CONFIG_EXEC_LOW_STACK = False, CONFIG_EXEC_COMPRESS = False,
      CONFIG_EXEC_OS2 = False, INIT_HEAP = 4096, INIT_STACK = 4096\<rparr>"

subsection \<open>Error propagation\<close>

text \<open>
  \<open>bindE\<close> runs the rest of the code only when the step before it did not take an
  error exit; \<open>failE c e\<close> is the code's \<open>if (c) { retval = -e; goto error; }\<close>.
\<close>

definition bindE :: "'a result \<Rightarrow> ('a \<Rightarrow> 'b result) \<Rightarrow> 'b result" where
  "bindE m f = (case m of Inl e \<Rightarrow> Inl e | Inr a \<Rightarrow> f a)"

definition failE :: "bool \<Rightarrow> errno \<Rightarrow> unit result" where
  "failE c e = (if c then Inl e else Inr ())"

lemma bindE_Inl [simp]: "bindE (Inl e) f = Inl e"
  by (simp add: bindE_def)

lemma bindE_Inr [simp]: "bindE (Inr a) f = f a"
  by (simp add: bindE_def)

lemma failE_simps [simp]:
  "failE True e = Inl e"
  "failE False e = Inr ()"
  by (simp_all add: failE_def)

lemma bindE_failE [simp]:
  "bindE (failE c e) f = (if c then Inl e else f ())"
  by (simp add: failE_def)

lemma bindE_eq_Inr:
  "bindE m f = Inr b \<longleftrightarrow> (\<exists>a. m = Inr a \<and> f a = Inr b)"
  by (cases m) simp_all

lemma bindE_eq_Inl:
  "bindE m f = Inl e \<longleftrightarrow> m = Inl e \<or> (\<exists>a. m = Inr a \<and> f a = Inl e)"
  by (cases m) simp_all

subsection \<open>Words of the 16-bit target\<close>

lemma unat_u16_bound [simp]: "unat (x::u16) < 65536"
  using unsigned_less [of x, where 'a = nat] by simp

lemma unat_u32_bound [simp]: "unat (x::u32) < 4294967296"
  using unsigned_less [of x, where 'a = nat] by simp

lemma unat_u8_bound [simp]: "unat (x::u8) < 256"
  using unsigned_less [of x, where 'a = nat] by simp

lemma mask4_u16: "(15::u16) = mask 4"
  by (simp add: mask_eq_exp_minus_1)

text \<open>Clearing the low four bits rounds down to a paragraph boundary.\<close>

lemma unat_and_not_15:
  "unat ((x::u16) AND NOT 15) = unat x div 16 * 16"
proof -
  have eq: "x AND NOT 15 = push_bit 4 (drop_bit 4 x)"
    unfolding mask4_u16 by (rule bit_eqI) (auto simp: bit_simps)
  have "unat x div 16 * 16 \<le> unat x" by simp
  then have lt: "unat x div 16 * 16 < 65536"
    using unat_u16_bound [of x] by linarith
  have "unat (push_bit 4 (drop_bit 4 x)) = take_bit 16 (push_bit 4 (unat x div 16))"
    by (simp only: unsigned_push_bit_eq unat_drop_bit_eq drop_bit_eq_div)
      (simp add: unat_div_distrib)
  also have "\<dots> = unat x div 16 * 16"
    using lt by (simp add: push_bit_eq_mult take_bit_nat_eq_self)
  finally show ?thesis by (simp only: eq)
qed

lemma unat_ucast_u16_u32: "unat (ucast (b::u16) :: u32) = unat b"
proof -
  have "unat b < 4294967296" using unat_u16_bound [of b] by linarith
  then show ?thesis by (simp add: unsigned_ucast_eq take_bit_nat_eq_self)
qed

text \<open>Setting the top bit of a 16-bit value whose top bit is clear adds \<open>2 ^ 15\<close>.\<close>

lemma unat_or_bit15:
  fixes x :: u16
  assumes "unat x < 2 ^ 15"
  shows "unat (x OR push_bit 15 1) = unat x + 2 ^ 15"
proof -
  have "x + push_bit 15 1 = x OR push_bit 15 1"
  proof (rule disjunctive_add)
    fix n
    show "\<not> bit x n \<or> \<not> bit (push_bit 15 1 :: u16) n"
    proof (cases "n = 15")
      case True
      have "\<not> bit (unat x) 15" using assms by (simp add: bit_iff_odd)
      then show ?thesis using True by (simp add: bit_unsigned_iff)
    next
      case False
      have "\<not> bit (push_bit 15 1 :: u16) n"
        unfolding bit_push_bit_iff bit_1_iff using False by simp
      then show ?thesis by simp
    qed
  qed
  moreover have "unat x + unat (push_bit 15 1 :: u16) < 2 ^ 16" using assms by simp
  ultimately show ?thesis using unat_add_lem [of x "push_bit 15 1"] by simp
qed

text \<open>A sum of 16-bit words that does not carry is the sum of their values.\<close>

lemma unat_add_of_nat_nowrap:
  "unat (a::'a::len word) + n < 2 ^ LENGTH('a) \<Longrightarrow> unat (a + of_nat n) = unat a + n"
  by (simp add: unat_word_ariths unat_of_nat)

lemma unat_add_nowrap:
  "unat (a::'a::len word) + unat b < 2 ^ LENGTH('a) \<Longrightarrow> unat (a + b) = unat a + unat b"
  by (simp add: unat_add_lem)

lemma unat_add3_nowrap:
  assumes "unat (a::'a::len word) + unat b + unat c < 2 ^ LENGTH('a)"
  shows "unat (a + b + c) = unat a + unat b + unat c"
proof -
  have "unat (a + b) = unat a + unat b" using assms unat_add_lem [of a b] by simp
  then show ?thesis using assms unat_add_lem [of "a + b" c] by simp
qed

lemma unat_drop_bit4_u16: "unat (drop_bit 4 (x::u16)) = unat x div 16"
  by (simp add: drop_bit_eq_div unat_div_distrib)

end
