(* ===== verification/Arith.thy ===== *)
theory Arith
  imports Prelude
begin

text \<open>
  The two arithmetic macros at the top of \<^verbatim>\<open>exec.c\<close> (lines 52--67), in both of
  their compiled forms: \<open>add_overflow\<close> (GCC's \<open>__builtin_add_overflow\<close>, and the
  fallback macro for other compilers) and \<open>bytes_to_paras\<close> (the GCC inline assembly
  \<open>addw $15; rcrw\<close> followed by \<open>>> 3\<close>, and the fallback through
  \<open>unsigned long\<close>). The lemmas show that the two forms of each macro agree and
  what they compute.
\<close>

subsection \<open>Overflow-checked addition\<close>

text \<open>
  \<open>__builtin_add_overflow(a, b, &res)\<close> stores the wrapped sum in \<open>res\<close> and
  returns whether the mathematical sum does not fit the type of \<open>res\<close>. The second
  operand is given by its mathematical value (\<open>n\<close>), since the code also passes
  constants such as \<open>INIT_HEAP + INIT_STACK\<close>.
\<close>

definition add_overflow :: "'a::len word \<Rightarrow> nat \<Rightarrow> bool \<times> 'a word" where
  "add_overflow a n = (2 ^ LENGTH('a) \<le> unat a + n, a + of_nat n)"

text \<open>The fallback macro \<open>(*(res) = (a) + (b), *(res) < (b))\<close> for two words.\<close>

definition add_overflow_macro :: "'a::len word \<Rightarrow> 'a word \<Rightarrow> bool \<times> 'a word" where
  "add_overflow_macro a b = (let r = a + b in (r < b, r))"

text \<open>
  The code's pattern \<open>if (add_overflow(a, b, &a)) { retval = -e; goto error; }\<close>:
  fail with \<open>e\<close> on overflow, else continue with the sum.
\<close>

definition checked_add :: "errno \<Rightarrow> 'a::len word \<Rightarrow> nat \<Rightarrow> 'a word result" where
  "checked_add e a n = (case add_overflow a n of (True, _) \<Rightarrow> Inl e | (False, r) \<Rightarrow> Inr r)"

subsection \<open>Bytes to paragraphs\<close>

text \<open>
  GCC form: \<open>addw $15, %0\<close> sets the carry flag when the 16-bit addition overflows;
  \<open>rcrw %0\<close> rotates right through the carry, so the carry becomes bit 15 and the
  17-bit sum is halved; \<open>__w >> 3\<close> is the logical shift of the unsigned
  \<open>segext_t\<close>.
\<close>

definition bytes_to_paras :: "size_t \<Rightarrow> segext_t" where
  "bytes_to_paras bytes =
     (let s = bytes + 15;
          cf = (2 ^ 16 \<le> unat bytes + 15);
          w = drop_bit 1 s OR push_bit 15 (of_bool cf)
      in drop_bit 3 w)"

text \<open>Fallback form: \<open>(segext_t)(((unsigned long)(bytes) + 15) >> 4)\<close>.\<close>

definition bytes_to_paras_long :: "size_t \<Rightarrow> segext_t" where
  "bytes_to_paras_long bytes = ucast (drop_bit 4 (ucast bytes + 15 :: u32))"

subsection \<open>Properties\<close>

lemma add_overflow_False_unat:
  "add_overflow a n = (False, r) \<Longrightarrow> unat r = unat a + n"
  by (auto simp: add_overflow_def unat_add_of_nat_nowrap)

lemma checked_add_Inr:
  "checked_add e a n = Inr r \<longleftrightarrow> unat a + n < 2 ^ LENGTH('a) \<and> r = a + of_nat n"
  for a :: "'a::len word"
  by (auto simp: checked_add_def add_overflow_def split: bool.splits)

lemma checked_add_Inr_unat:
  "checked_add e a n = Inr r \<Longrightarrow> unat r = unat a + n"
  for a :: "'a::len word"
  by (auto simp: checked_add_Inr unat_add_of_nat_nowrap)

lemma checked_add_Inl:
  "checked_add e a n = Inl e' \<longleftrightarrow> 2 ^ LENGTH('a) \<le> unat a + n \<and> e' = e"
  for a :: "'a::len word"
  by (auto simp: checked_add_def add_overflow_def split: bool.splits)

lemma checked_add_u16:
  "checked_add e (a::u16) n =
     (if 65536 \<le> unat a + n then Inl e else Inr (a + of_nat n))"
  by (simp add: checked_add_def add_overflow_def)

lemma unat_checked_add_u16:
  "unat (a::u16) + n < 65536 \<Longrightarrow> unat (a + of_nat n) = unat a + n"
  using unat_add_of_nat_nowrap [of a n] by simp

lemma unat_bytes_to_paras_long:
  "unat (bytes_to_paras_long b) = (unat b + 15) div 16"
proof -
  have "unat b + 15 < 4294967296" using unat_u16_bound [of b] by linarith
  then have "unat (ucast b + 15 :: u32) = unat b + 15"
    by (simp add: unat_word_ariths unat_ucast_u16_u32)
  then have "unat (drop_bit 4 (ucast b + 15 :: u32)) = (unat b + 15) div 16"
    by (simp add: drop_bit_eq_div unat_div_distrib)
  moreover have "(unat b + 15) div 16 \<le> (65535 + 15) div 16"
    using unat_u16_bound [of b] by (intro div_le_mono) linarith
  then have "(unat b + 15) div 16 < 65536" by simp
  ultimately show ?thesis
    by (simp add: bytes_to_paras_long_def unsigned_ucast_eq take_bit_nat_eq_self)
qed

lemma unat_bytes_to_paras:
  "unat (bytes_to_paras b) = (unat b + 15) div 16"
proof -
  define s where "s = b + 15"
  have s: "unat s = (unat b + 15) mod 2 ^ 16"
    by (simp add: s_def unat_word_ariths)
  have d1: "unat (drop_bit 1 s) = unat s div 2"
    by (simp add: drop_bit_eq_div unat_div_distrib)
  have lt: "unat (drop_bit 1 s) < 2 ^ 15"
    using d1 unat_u16_bound [of s] by (simp add: div_less_iff_less_mult)
  show ?thesis
  proof (cases "2 ^ 16 \<le> unat b + 15")
    case True
    moreover have "unat b + 15 - 65536 < 65536"
      using unat_u16_bound [of b] by linarith
    ultimately have "unat s = unat b + 15 - 2 ^ 16"
      using s by (simp add: le_mod_geq)
    then have "unat (drop_bit 1 s OR push_bit 15 1) = (unat b + 15) div 2"
      using unat_or_bit15 [OF lt] d1 True by simp
    then show ?thesis using True
      by (simp add: bytes_to_paras_def s_def [symmetric] Let_def unat_div_distrib
          drop_bit_eq_div div_mult2_eq)
  next
    case False
    then have "unat s = unat b + 15" using s by simp
    then show ?thesis using False d1
      by (simp add: bytes_to_paras_def s_def [symmetric] Let_def unat_div_distrib
          drop_bit_eq_div div_mult2_eq)
  qed
qed

lemma bytes_to_paras_bound: "unat (bytes_to_paras b) \<le> 4096"
proof -
  have "unat b + 15 < 65536 + 16" using unat_u16_bound [of b] by linarith
  then show ?thesis by (simp add: unat_bytes_to_paras)
qed

subsection \<open>Properties of the macros\<close>

text \<open>
  C13. The inline-assembly \<open>bytes_to_paras\<close> (add with carry, rotate through the
  carry, shift) computes the same paragraph count as the \<open>unsigned long\<close> fallback
  on every 16-bit byte count, including those within 15 of \<open>0xFFFF\<close> where the
  16-bit addition carries; both equal the byte count rounded up to paragraphs.
\<close>

theorem bytes_to_paras_agree:
  "bytes_to_paras b = bytes_to_paras_long b \<and> unat (bytes_to_paras b) = (unat b + 15) div 16"
  by (simp add: word_unat_eq_iff unat_bytes_to_paras unat_bytes_to_paras_long)

text \<open>
  C14. The fallback \<open>add_overflow\<close> macro (compare the wrapped sum with the second
  operand) reports overflow exactly when \<open>__builtin_add_overflow\<close> does, and
  stores the same sum.
\<close>

theorem add_overflow_macro_eq:
  "add_overflow_macro a b = add_overflow a (unat b)"
proof -
  have "(a + b < b) \<longleftrightarrow> 2 ^ LENGTH('a) \<le> unat a + unat b"
  proof (cases "unat a + unat b < 2 ^ LENGTH('a)")
    case True
    then have "unat (a + b) = unat a + unat b" by (rule unat_add_nowrap)
    then show ?thesis using True by (simp add: word_less_nat_alt)
  next
    case False
    have "unat a + unat b - 2 ^ LENGTH('a) < 2 ^ LENGTH('a)"
      using unsigned_less [of a, where 'a = nat] unsigned_less [of b, where 'a = nat] by linarith
    then have "unat (a + b) = unat a + unat b - 2 ^ LENGTH('a)"
      using False by (simp add: unat_word_ariths le_mod_geq)
    moreover have "unat a + unat b - 2 ^ LENGTH('a) < unat b"
      using False unsigned_less [of a, where 'a = nat] by linarith
    ultimately show ?thesis using False by (simp add: word_less_nat_alt)
  qed
  then show ?thesis by (simp add: add_overflow_macro_def add_overflow_def Let_def)
qed

end
