(* ===== verification/Machine.thy ===== *)
theory Machine
  imports Prelude
begin

text \<open>
  The collaborators of the loader that live outside \<^verbatim>\<open>src/\<close>, modelled from their
  contracts: the 8086 far memory reached through \<open>peekb\<close>, \<open>pokeb\<close>, \<open>peekw\<close>,
  \<open>pokew\<close> (\<^verbatim>\<open>arch/segment.h\<close>), the little-endian layout of on-disk structures, and
  the backing file read sequentially by \<open>filp->f_op->read\<close>.

  Memory is one physical byte array of \<open>2 ^ 20\<close> bytes; a far address \<open>seg:off\<close> is
  the physical byte \<open>seg * 16 + off\<close> (modulo \<open>2 ^ 20\<close>), so segments overlap as on
  the 8086 and an aliasing claim can be stated. A word access at \<open>seg:off\<close> touches
  \<open>seg:off\<close> and \<open>seg:(off + 1)\<close>, the offset wrapping inside the segment.
\<close>

subsection \<open>Far memory\<close>

type_synonym addr = "20 word"
type_synonym memory = "addr \<Rightarrow> u8"

definition phys :: "seg_t \<Rightarrow> u16 \<Rightarrow> addr" where
  "phys seg off = push_bit 4 (ucast seg) + ucast off"

definition peekb :: "u16 \<Rightarrow> seg_t \<Rightarrow> memory \<Rightarrow> u8" where
  "peekb off seg m = m (phys seg off)"

definition pokeb :: "u16 \<Rightarrow> seg_t \<Rightarrow> u8 \<Rightarrow> memory \<Rightarrow> memory" where
  "pokeb off seg v m = m(phys seg off := v)"

subsection \<open>Byte order\<close>

definition le16 :: "u8 \<Rightarrow> u8 \<Rightarrow> u16" where
  "le16 lo hi = ucast lo OR push_bit 8 (ucast hi)"

definition le32 :: "u8 \<Rightarrow> u8 \<Rightarrow> u8 \<Rightarrow> u8 \<Rightarrow> u32" where
  "le32 b0 b1 b2 b3 =
     ucast b0 OR push_bit 8 (ucast b1) OR push_bit 16 (ucast b2) OR push_bit 24 (ucast b3)"

definition u16_bytes :: "u16 \<Rightarrow> u8 list" where
  "u16_bytes v = [ucast v, ucast (drop_bit 8 v)]"

definition u32_bytes :: "u32 \<Rightarrow> u8 list" where
  "u32_bytes v = [ucast v, ucast (drop_bit 8 v), ucast (drop_bit 16 v), ucast (drop_bit 24 v)]"

text \<open>
  A structure read into a buffer that was cleared first (\<open>memset\<close>) reads as zero
  past the bytes that arrived.
\<close>

definition byte_at :: "u8 list \<Rightarrow> nat \<Rightarrow> u8" where
  "byte_at bs i = (if i < length bs then bs ! i else 0)"

definition le16_at :: "u8 list \<Rightarrow> nat \<Rightarrow> u16" where
  "le16_at bs i = le16 (byte_at bs i) (byte_at bs (i + 1))"

definition le32_at :: "u8 list \<Rightarrow> nat \<Rightarrow> u32" where
  "le32_at bs i = le32 (byte_at bs i) (byte_at bs (i + 1)) (byte_at bs (i + 2)) (byte_at bs (i + 3))"

subsection \<open>Word access to far memory\<close>

definition peekw :: "u16 \<Rightarrow> seg_t \<Rightarrow> memory \<Rightarrow> u16" where
  "peekw off seg m = le16 (peekb off seg m) (peekb (off + 1) seg m)"

definition pokew :: "u16 \<Rightarrow> seg_t \<Rightarrow> u16 \<Rightarrow> memory \<Rightarrow> memory" where
  "pokew off seg v m = pokeb (off + 1) seg (ucast (drop_bit 8 v)) (pokeb off seg (ucast v) m)"

definition word_addrs :: "u16 \<Rightarrow> seg_t \<Rightarrow> addr set" where
  "word_addrs off seg = {phys seg off, phys seg (off + 1)}"

subsection \<open>The backing file\<close>

text \<open>
  An open file: its contents and the read position \<open>f_pos\<close>. A read of \<open>n\<close> bytes
  returns the bytes from the position on, fewer at the end of the file (a short read),
  and advances the position by the number returned. Seeking sets \<open>f_pos\<close>. Errors of
  the block layer below the file are not modelled: a read returns what the file holds.
\<close>

record file_s =
  f_data :: "u8 list"
  f_pos :: nat

definition file_read :: "nat \<Rightarrow> file_s \<Rightarrow> u8 list \<times> file_s" where
  "file_read n f =
     (let bs = take n (drop (f_pos f) (f_data f)) in (bs, f\<lparr>f_pos := f_pos f + length bs\<rparr>))"

definition file_avail :: "file_s \<Rightarrow> nat" where
  "file_avail f = length (f_data f) - f_pos f"

subsection \<open>Block transfers\<close>

text \<open>
  Bytes stored one after the other from \<open>seg:off\<close>, the offset wrapping inside the
  segment: a read from the file into far memory (\<open>filp->f_op->read\<close> with \<open>ds\<close>
  set to the target segment), \<open>fmemsetb\<close> and \<open>fmemcpyb\<close>.
\<close>

primrec pokebs :: "u16 \<Rightarrow> seg_t \<Rightarrow> u8 list \<Rightarrow> memory \<Rightarrow> memory" where
  "pokebs off seg [] m = m"
| "pokebs off seg (b # bs) m = pokebs (off + 1) seg bs (pokeb off seg b m)"

definition peekbs :: "u16 \<Rightarrow> seg_t \<Rightarrow> nat \<Rightarrow> memory \<Rightarrow> u8 list" where
  "peekbs off seg n m = map (\<lambda>i. peekb (off + of_nat i) seg m) [0..<n]"

definition file_read_far :: "nat \<Rightarrow> u16 \<Rightarrow> seg_t \<Rightarrow> file_s \<Rightarrow> memory \<Rightarrow> nat \<times> file_s \<times> memory" where
  "file_read_far n off seg f m = (let (bs, f') = file_read n f in (length bs, f', pokebs off seg bs m))"

definition fmemsetb :: "u16 \<Rightarrow> seg_t \<Rightarrow> u8 \<Rightarrow> nat \<Rightarrow> memory \<Rightarrow> memory" where
  "fmemsetb off seg v n m = pokebs off seg (replicate n v) m"

definition fmemcpyb :: "u16 \<Rightarrow> seg_t \<Rightarrow> u16 \<Rightarrow> seg_t \<Rightarrow> nat \<Rightarrow> memory \<Rightarrow> memory" where
  "fmemcpyb dst dseg src sseg n m = pokebs dst dseg (peekbs src sseg n m) m"

subsection \<open>Lemmas\<close>

lemma unat_ucast_u16_addr: "unat (ucast (x::u16) :: addr) = unat x"
proof -
  have "unat x < 1048576" using unat_u16_bound [of x] by linarith
  then show ?thesis by (simp add: unsigned_ucast_eq take_bit_nat_eq_self)
qed

lemma phys_same_seg_iff [simp]: "phys seg a = phys seg b \<longleftrightarrow> a = b"
proof
  assume "phys seg a = phys seg b"
  then have "(ucast a :: addr) = ucast b" by (simp add: phys_def)
  then have "unat a = unat b" by (metis unat_ucast_u16_addr)
  then show "a = b" by (simp add: word_unat_eq_iff)
qed simp

lemma le16_u16_bytes: "le16 (ucast v) (ucast (drop_bit 8 v)) = v"
  unfolding le16_def by (rule bit_eqI) (auto simp: bit_simps)

lemma le32_u32_bytes:
  "le32 (ucast v) (ucast (drop_bit 8 v)) (ucast (drop_bit 16 v)) (ucast (drop_bit 24 v)) = v"
  unfolding le32_def by (rule bit_eqI) (auto simp: bit_simps split: nat_diff_split)

lemma byte_at_append [simp]:
  "byte_at (xs @ ys) i = (if i < length xs then xs ! i else byte_at ys (i - length xs))"
  by (auto simp: byte_at_def nth_append)

lemma byte_at_Cons [simp]:
  "byte_at (x # xs) i = (if i = 0 then x else byte_at xs (i - 1))"
  by (auto simp: byte_at_def nth_Cons')

lemma le16_at_u16_bytes [simp]: "le16_at (u16_bytes v @ bs) 0 = v"
  by (simp add: le16_at_def u16_bytes_def le16_u16_bytes)

lemma le32_at_u32_bytes [simp]: "le32_at (u32_bytes v @ bs) 0 = v"
  by (simp add: le32_at_def u32_bytes_def le32_u32_bytes)

lemma le16_at_shift: "le16_at (xs @ ys) (length xs + i) = le16_at ys i"
  by (simp add: le16_at_def)

lemma le32_at_shift: "le32_at (xs @ ys) (length xs + i) = le32_at ys i"
  by (simp add: le32_at_def)

lemma length_u16_bytes [simp]: "length (u16_bytes v) = 2"
  by (simp add: u16_bytes_def)

lemma length_u32_bytes [simp]: "length (u32_bytes v) = 4"
  by (simp add: u32_bytes_def)

lemma peekb_pokeb_same [simp]: "peekb off seg (pokeb off seg v m) = v"
  by (simp add: peekb_def pokeb_def)

lemma peekw_pokew_same [simp]: "peekw off seg (pokew off seg v m) = v"
  by (simp add: peekw_def pokew_def peekb_def pokeb_def le16_u16_bytes)

lemma pokew_other [simp]: "a \<notin> word_addrs off seg \<Longrightarrow> pokew off seg v m a = m a"
  by (simp add: pokew_def pokeb_def word_addrs_def)

lemma peekw_cong:
  "(\<And>a. a \<in> word_addrs off seg \<Longrightarrow> m a = m' a) \<Longrightarrow> peekw off seg m = peekw off seg m'"
  by (simp add: peekw_def peekb_def word_addrs_def)

lemma peekw_pokew_other:
  "word_addrs off' seg' \<inter> word_addrs off seg = {} \<Longrightarrow>
     peekw off' seg' (pokew off seg v m) = peekw off' seg' m"
  by (rule peekw_cong) (metis disjoint_iff pokew_other)

lemma word_addrs_same_seg_disjoint:
  "off' \<noteq> off \<Longrightarrow> off' \<noteq> off + 1 \<Longrightarrow> off' + 1 \<noteq> off \<Longrightarrow>
     word_addrs off' seg \<inter> word_addrs off seg = {}"
  by (auto simp: word_addrs_def)

lemma file_read_length: "length (fst (file_read n f)) = min n (file_avail f)"
  by (simp add: file_read_def file_avail_def Let_def)

lemma file_read_pos:
  "f_pos (snd (file_read n f)) = f_pos f + min n (file_avail f)"
  by (simp add: file_read_def file_avail_def Let_def)

lemma file_read_data [simp]: "f_data (snd (file_read n f)) = f_data f"
  by (simp add: file_read_def Let_def)

lemma file_read_full:
  "n \<le> file_avail f \<Longrightarrow>
     file_read n f = (take n (drop (f_pos f) (f_data f)), f\<lparr>f_pos := f_pos f + n\<rparr>)"
  by (simp add: file_read_def file_avail_def Let_def)

lemma file_read_at:
  "f_data f = xs @ bs @ ys \<Longrightarrow> f_pos f = length xs \<Longrightarrow>
     file_read (length bs) f = (bs, f\<lparr>f_pos := length xs + length bs\<rparr>)"
  by (simp add: file_read_def Let_def)

end
