(* ===== verification/Header.thy ===== *)
theory Header
  imports Arith Machine
begin

text \<open>
  The executable headers and the first checks of \<open>sys_execve\<close>
  (\<^verbatim>\<open>src/elks/fs/exec.c\<close>, lines 375--394): reading the 32-byte primary header,
  recognising the OS/2 (\<open>MZ\<close>) signature when that format is configured, and
  rejecting a header whose type is not split-I/D or whose text size is zero.

  The structures themselves (\<open>struct minix_exec_hdr\<close>, \<open>struct elks_supl_hdr\<close>,
  \<^verbatim>\<open>linuxmt/minix.h\<close>) and their byte layout are outside \<^verbatim>\<open>src/\<close>; they are
  modelled with the field names, widths and offsets of that header. The encoders
  \<open>minix_hdr_bytes\<close> and \<open>supl_hdr_bytes\<close> write the same layout and serve the
  round-trip lemmas and the concrete test images.
\<close>

subsection \<open>On-disk structures\<close>

record minix_exec_hdr =
  type :: u32
  hlen :: u8
  reserved1 :: u8
  version :: u16
  tseg :: u32
  dseg :: u32
  bseg :: u32
  entry :: u32
  chmem :: u16
  minstack :: u16
  syms :: u32

record elks_supl_hdr =
  msh_trsize :: u32
  msh_drsize :: u32
  msh_tbase :: u32
  msh_dbase :: u32
  esh_ftseg :: u32
  esh_ftrsize :: u32
  esh_compr_tseg :: u16
  esh_compr_ftseg :: u16
  esh_compr_dseg :: u16
  esh_reserved :: u16

definition MINIX_SPLITID_AHISTORICAL :: u32 where
  "MINIX_SPLITID_AHISTORICAL = 0x04300301"

definition MINIX_SPLITID :: u32 where
  "MINIX_SPLITID = 0x04200301"

definition EXEC_MINIX_HDR_SIZE :: u8 where
  "EXEC_MINIX_HDR_SIZE = 32"

definition EXEC_RELOC_HDR_SIZE :: u8 where
  "EXEC_RELOC_HDR_SIZE = 48"

definition EXEC_FARTEXT_HDR_SIZE :: u8 where
  "EXEC_FARTEXT_HDR_SIZE = 64"

definition MZMAGIC :: u16 where
  "MZMAGIC = 0x5A4D"

definition decode_minix_hdr :: "u8 list \<Rightarrow> minix_exec_hdr" where
  "decode_minix_hdr bs =
     \<lparr>type = le32_at bs 0, hlen = byte_at bs 4, reserved1 = byte_at bs 5,
      version = le16_at bs 6, tseg = le32_at bs 8, dseg = le32_at bs 12,
      bseg = le32_at bs 16, entry = le32_at bs 20, chmem = le16_at bs 24,
      minstack = le16_at bs 26, syms = le32_at bs 28\<rparr>"

definition minix_hdr_bytes :: "minix_exec_hdr \<Rightarrow> u8 list" where
  "minix_hdr_bytes h =
     u32_bytes (type h) @ [hlen h, reserved1 h] @ u16_bytes (version h) @
     u32_bytes (tseg h) @ u32_bytes (dseg h) @ u32_bytes (bseg h) @ u32_bytes (entry h) @
     u16_bytes (chmem h) @ u16_bytes (minstack h) @ u32_bytes (syms h)"

definition decode_supl_hdr :: "u8 list \<Rightarrow> elks_supl_hdr" where
  "decode_supl_hdr bs =
     \<lparr>msh_trsize = le32_at bs 0, msh_drsize = le32_at bs 4, msh_tbase = le32_at bs 8,
      msh_dbase = le32_at bs 12, esh_ftseg = le32_at bs 16, esh_ftrsize = le32_at bs 20,
      esh_compr_tseg = le16_at bs 24, esh_compr_ftseg = le16_at bs 26,
      esh_compr_dseg = le16_at bs 28, esh_reserved = le16_at bs 30\<rparr>"

definition supl_hdr_bytes :: "elks_supl_hdr \<Rightarrow> u8 list" where
  "supl_hdr_bytes s =
     u32_bytes (msh_trsize s) @ u32_bytes (msh_drsize s) @ u32_bytes (msh_tbase s) @
     u32_bytes (msh_dbase s) @ u32_bytes (esh_ftseg s) @ u32_bytes (esh_ftrsize s) @
     u16_bytes (esh_compr_tseg s) @ u16_bytes (esh_compr_ftseg s) @
     u16_bytes (esh_compr_dseg s) @ u16_bytes (esh_reserved s)"

text \<open>\<open>memset(&esuph, 0, sizeof(esuph))\<close>: the supplement of a 32-byte header.\<close>

definition zero_supl :: elks_supl_hdr where
  "zero_supl = decode_supl_hdr []"

subsection \<open>Reading and checking the primary header\<close>

text \<open>
  The two formats behind the one entry point (spec, design notes): a Minix split-I/D
  image with its header, or an OS/2 image handed to \<open>execve_os2\<close>.
\<close>

datatype exec_format = Minix_image minix_exec_hdr | OS2_image

text \<open>
  Lines 376--394. A short read leaves \<open>retval\<close> at the (non-negative) byte count and
  the exit turns it into \<open>-ENOEXEC\<close>; so does a bad type or a zero text size.
  \<open>(size_t)mh.tseg\<close> keeps the low 16 bits of the 32-bit field.
\<close>

definition exec_read_hdr :: "config \<Rightarrow> file_s \<Rightarrow> (exec_format \<times> file_s) result" where
  "exec_read_hdr cfg f =
     (let (bs, f') = file_read 32 f in
      if length bs \<noteq> 32 then Inl ENOEXEC
      else if CONFIG_EXEC_OS2 cfg \<and> le16_at bs 0 = MZMAGIC then Inr (OS2_image, f')
      else
        let mh = decode_minix_hdr bs in
        if (type mh \<noteq> MINIX_SPLITID_AHISTORICAL \<and> type mh \<noteq> MINIX_SPLITID) \<or>
           (ucast (tseg mh) :: size_t) = 0
        then Inl ENOEXEC
        else Inr (Minix_image mh, f'))"

subsection \<open>Example image\<close>

text \<open>
  The image of the spec's scenario (section 8): text 100 bytes, data 50, BSS 30,
  version 1, default heap and stack; the file holds its header and the read position
  is past it.
\<close>

definition example_hdr :: minix_exec_hdr where
  "example_hdr =
     \<lparr>type = MINIX_SPLITID, hlen = 32, reserved1 = 0, version = 1, tseg = 100, dseg = 50,
      bseg = 30, entry = 0, chmem = 0, minstack = 0, syms = 0\<rparr>"

definition example_file :: file_s where
  "example_file = \<lparr>f_data = minix_hdr_bytes example_hdr, f_pos = 32\<rparr>"

subsection \<open>Lemmas\<close>

lemma length_minix_hdr_bytes [simp]: "length (minix_hdr_bytes h) = 32"
  by (simp add: minix_hdr_bytes_def)

lemma length_supl_hdr_bytes [simp]: "length (supl_hdr_bytes s) = 32"
  by (simp add: supl_hdr_bytes_def)

lemma decode_minix_hdr_bytes_append:
  "decode_minix_hdr (minix_hdr_bytes h @ bs) = h"
  by (simp add: decode_minix_hdr_def minix_hdr_bytes_def le32_at_def le16_at_def
      u32_bytes_def u16_bytes_def le32_u32_bytes le16_u16_bytes)

lemma decode_supl_hdr_bytes_append:
  "decode_supl_hdr (supl_hdr_bytes s @ bs) = s"
  by (simp add: decode_supl_hdr_def supl_hdr_bytes_def le32_at_def le16_at_def
      u32_bytes_def u16_bytes_def le32_u32_bytes le16_u16_bytes)

lemma decode_minix_hdr_bytes [simp]: "decode_minix_hdr (minix_hdr_bytes h) = h"
  using decode_minix_hdr_bytes_append [of h "[]"] by simp

lemma decode_supl_hdr_bytes [simp]: "decode_supl_hdr (supl_hdr_bytes s) = s"
  using decode_supl_hdr_bytes_append [of s "[]"] by simp

lemma minix_hdr_not_MZ:
  "type h = MINIX_SPLITID_AHISTORICAL \<or> type h = MINIX_SPLITID \<Longrightarrow>
     le16_at (minix_hdr_bytes h) 0 \<noteq> MZMAGIC"
  by (auto simp: minix_hdr_bytes_def u32_bytes_def le16_at_def MZMAGIC_def
      MINIX_SPLITID_AHISTORICAL_def MINIX_SPLITID_def le16_def)

lemma example_read_hdr:
  "exec_read_hdr cfg \<lparr>f_data = minix_hdr_bytes example_hdr, f_pos = 0\<rparr> =
     Inr (Minix_image example_hdr, example_file)"
proof -
  have "le16_at (minix_hdr_bytes example_hdr) 0 \<noteq> MZMAGIC"
    by (rule minix_hdr_not_MZ) (simp add: example_hdr_def)
  then show ?thesis
    by (simp add: exec_read_hdr_def file_read_def Let_def example_file_def)
      (simp add: example_hdr_def)
qed

subsection \<open>Properties of the header check\<close>

text \<open>
  C15. Round trip: a file whose next 32 bytes encode a split-I/D header with a
  non-zero (low 16 bits of the) text size is accepted, whatever the configuration,
  the header read back is the one encoded, and the file position moves past it.
\<close>

theorem exec_read_hdr_roundtrip:
  assumes "type h = MINIX_SPLITID_AHISTORICAL \<or> type h = MINIX_SPLITID"
    and "(ucast (tseg h) :: size_t) \<noteq> 0"
  shows "exec_read_hdr cfg \<lparr>f_data = xs @ minix_hdr_bytes h @ ys, f_pos = length xs\<rparr> =
           Inr (Minix_image h, \<lparr>f_data = xs @ minix_hdr_bytes h @ ys, f_pos = length xs + 32\<rparr>)"
  using assms minix_hdr_not_MZ [OF assms(1)]
  by (simp add: exec_read_hdr_def file_read_def Let_def decode_minix_hdr_bytes_append)

theorem exec_read_hdr_roundtrip_witness:
  "exec_read_hdr elks_config \<lparr>f_data = minix_hdr_bytes example_hdr, f_pos = 0\<rparr> =
     Inr (Minix_image example_hdr, \<lparr>f_data = minix_hdr_bytes example_hdr, f_pos = 32\<rparr>)"
proof -
  have t: "type example_hdr = MINIX_SPLITID_AHISTORICAL \<or> type example_hdr = MINIX_SPLITID"
    by (simp add: example_hdr_def)
  have s: "(ucast (tseg example_hdr) :: size_t) \<noteq> 0" by (simp add: example_hdr_def)
  show ?thesis using exec_read_hdr_roundtrip [OF t s, of elks_config "[]" "[]"] by simp
qed

text \<open>
  C16. Every image \<open>exec_read_hdr\<close> accepts as a Minix image is split-I/D (either
  magic) with a non-zero 16-bit text size, and exactly the 32 header bytes have been
  consumed from the file.
\<close>

theorem exec_read_hdr_accepted:
  "exec_read_hdr cfg f = Inr (Minix_image mh, f') \<Longrightarrow>
     (type mh = MINIX_SPLITID_AHISTORICAL \<or> type mh = MINIX_SPLITID) \<and>
     (ucast (tseg mh) :: size_t) \<noteq> 0 \<and> f_pos f' = f_pos f + 32"
  by (auto simp: exec_read_hdr_def file_read_def Let_def split: if_splits prod.splits)

theorem exec_read_hdr_accepted_witness:
  "(type example_hdr = MINIX_SPLITID_AHISTORICAL \<or> type example_hdr = MINIX_SPLITID) \<and>
   (ucast (tseg example_hdr) :: size_t) \<noteq> 0 \<and> f_pos example_file = 0 + 32"
  using exec_read_hdr_accepted [OF example_read_hdr [of elks_config]] by simp

end
