(* ===== verification/Layout.thy ===== *)
theory Layout
  imports Header
begin

text \<open>
  The layout planner of \<open>sys_execve\<close> (\<^verbatim>\<open>src/elks/fs/exec.c\<close>, lines 408--542):
  the minimum data length \<open>dseg + bseg\<close>, the header-length switch that reads the
  supplementary header and checks its relocation bases, the two sizing policies
  selected by \<open>mh.version\<close>, and the rounding of the data segment to a paragraph.
  Every sum is a 16-bit \<open>size_t\<close> sum checked by \<open>add_overflow\<close>.

  The code keeps a pending status in \<open>retval\<close> across these steps: after the
  header read it holds the byte count 32 (turned into \<open>-ENOEXEC\<close> at the exit);
  the supplementary-header branch sets it to \<open>-EINVAL\<close>. An unknown version jumps
  to the exit without setting it, so its error depends on the header length; the
  model carries the pending status as \<open>retval\<close>.
\<close>

subsection \<open>The plan\<close>

record load_plan =
  lp_esuph :: elks_supl_hdr
  lp_base_data :: seg_t
  lp_min_len :: size_t
  lp_len :: size_t
  lp_stack :: size_t

subsection \<open>Operations\<close>

text \<open>Lines 408--412: \<open>min_len = (size_t)mh.dseg\<close>, plus \<open>(size_t)mh.bseg\<close>.\<close>

definition exec_min_len :: "minix_exec_hdr \<Rightarrow> size_t result" where
  "exec_min_len mh = checked_add EINVAL (ucast (dseg mh)) (unat (ucast (bseg mh) :: size_t))"

text \<open>
  Lines 414--461, the switch on \<open>mh.hlen\<close>. Returns the supplementary header (zero
  for a 32-byte header), \<open>base_data\<close>, the updated \<open>min_len\<close>, the pending
  \<open>retval\<close> and the file after the read. \<open>base_data\<close> is the 16-bit \<open>seg_t\<close>
  and keeps the low half of \<open>msh_dbase\<close>.
\<close>

definition exec_supl ::
  "config \<Rightarrow> minix_exec_hdr \<Rightarrow> size_t \<Rightarrow> file_s \<Rightarrow>
     (elks_supl_hdr \<times> seg_t \<times> size_t \<times> errno \<times> file_s) result" where
  "exec_supl cfg mh min_len f =
     (if hlen mh = EXEC_MINIX_HDR_SIZE then Inr (zero_supl, 0, min_len, ENOEXEC, f)
      else if CONFIG_EXEC_MMODEL cfg \<and>
              (hlen mh = EXEC_RELOC_HDR_SIZE \<or> hlen mh = EXEC_FARTEXT_HDR_SIZE) then
        (let n = unat (hlen mh) - unat EXEC_MINIX_HDR_SIZE;
             (bs, f') = file_read n f;
             esuph = decode_supl_hdr bs
         in if length bs \<noteq> n then Inl ENOEXEC
            else if \<not> CONFIG_EXEC_COMPRESS cfg \<and>
                    (esh_compr_tseg esuph \<noteq> 0 \<or> esh_compr_ftseg esuph \<noteq> 0 \<or>
                     esh_compr_dseg esuph \<noteq> 0) then Inl ENOEXEC
            else if msh_tbase esuph \<noteq> 0 then Inl EINVAL
            else
              (let base_data = (ucast (msh_dbase esuph) :: seg_t) in
               if CONFIG_EXEC_LOW_STACK cfg then
                 (if base_data AND 0xF \<noteq> 0 then Inl EINVAL
                  else bindE (checked_add EINVAL min_len (unat base_data))
                         (\<lambda>min_len. Inr (esuph, base_data, min_len, EINVAL, f')))
               else if base_data \<noteq> 0 then Inl EINVAL
               else Inr (esuph, base_data, min_len, EINVAL, f')))
      else Inl ENOEXEC)"

text \<open>
  The conditions and defaults of the version switch: the stack lies below the data
  (\<open>#ifdef CONFIG_EXEC_LOW_STACK\<close>, \<open>if (!base_data)\<close>), \<open>stack = mh.minstack?
  mh.minstack: INIT_STACK\<close> (line 476) and \<open>heap = mh.chmem? mh.chmem: INIT_HEAP\<close>
  (line 486).
\<close>

definition stack_below_data :: "config \<Rightarrow> seg_t \<Rightarrow> bool" where
  "stack_below_data cfg base_data \<longleftrightarrow> CONFIG_EXEC_LOW_STACK cfg \<and> base_data \<noteq> 0"

definition stack_req :: "config \<Rightarrow> minix_exec_hdr \<Rightarrow> size_t" where
  "stack_req cfg mh = (if minstack mh \<noteq> 0 then minstack mh else INIT_STACK cfg)"

definition heap_req :: "config \<Rightarrow> minix_exec_hdr \<Rightarrow> size_t" where
  "heap_req cfg mh = (if chmem mh \<noteq> 0 then chmem mh else INIT_HEAP cfg)"

text \<open>
  Lines 467--534, the switch on \<open>mh.version\<close>: returns \<open>len\<close> and \<open>stack\<close> (which
  becomes \<open>t_minstack\<close>). Version 1 adds the stack (\<open>-EFBIG\<close> on overflow) and
  the argument block (\<open>-E2BIG\<close>) unless the stack lies below the data, then the
  heap (\<open>-EFBIG\<close>); a heap of \<open>0xFFF0\<close> or more asks for the largest segment.
  Version 0 takes \<open>chmem\<close> as the whole length, or defaults.
\<close>

definition exec_chmem ::
  "config \<Rightarrow> minix_exec_hdr \<Rightarrow> seg_t \<Rightarrow> size_t \<Rightarrow> size_t \<Rightarrow> errno \<Rightarrow>
     (size_t \<times> size_t) result" where
  "exec_chmem cfg mh base_data min_len slen retval =
     (if version mh = 1 then
        bindE
          (if stack_below_data cfg base_data then Inr (min_len, 0)
           else
             (let stack = stack_req cfg mh in
              bindE (checked_add EFBIG min_len (unat stack)) (\<lambda>len.
              bindE (checked_add E2BIG len (unat slen)) (\<lambda>len. Inr (len, stack)))))
          (\<lambda>(len, stack).
             let heap = heap_req cfg mh in
             if 0xFFF0 \<le> heap then Inr (if len < 0xFFF0 then 0xFFF0 else len, stack)
             else bindE (checked_add EFBIG len (unat heap)) (\<lambda>len. Inr (len, stack)))
      else if version mh = 0 then
        (let len = chmem mh in
         if len \<noteq> 0 then
           (if len \<le> min_len then Inl EINVAL
            else if len - min_len < slen then Inl E2BIG
            else Inr (len, 0))
         else
           bindE
             (if stack_below_data cfg base_data
              then checked_add EFBIG min_len (unat (INIT_HEAP cfg))
              else checked_add EFBIG min_len (unat (INIT_HEAP cfg) + unat (INIT_STACK cfg)))
             (\<lambda>len. bindE (checked_add E2BIG len (unat slen))
                     (\<lambda>len. Inr (len, INIT_STACK cfg))))
      else Inl retval)"

text \<open>Lines 538--542: round up to a paragraph, the carry blamed on the arguments.\<close>

definition exec_round :: "size_t \<Rightarrow> size_t result" where
  "exec_round len = bindE (checked_add E2BIG len 15) (\<lambda>len. Inr (len AND NOT 15))"

text \<open>Lines 467--542 together: the sizing policy and the rounding.\<close>

definition exec_size ::
  "config \<Rightarrow> minix_exec_hdr \<Rightarrow> seg_t \<Rightarrow> size_t \<Rightarrow> size_t \<Rightarrow> errno \<Rightarrow>
     (size_t \<times> size_t) result" where
  "exec_size cfg mh base_data min_len slen retval =
     bindE (exec_chmem cfg mh base_data min_len slen retval)
       (\<lambda>(len, stack). bindE (exec_round len) (\<lambda>len. Inr (len, stack)))"

text \<open>Lines 408--542: the whole planner, from the parsed header to the plan.\<close>

definition exec_layout ::
  "config \<Rightarrow> minix_exec_hdr \<Rightarrow> size_t \<Rightarrow> file_s \<Rightarrow> (load_plan \<times> file_s) result" where
  "exec_layout cfg mh slen f =
     bindE (exec_min_len mh) (\<lambda>min_len.
     bindE (exec_supl cfg mh min_len f) (\<lambda>(esuph, base_data, min_len, retval, f).
     bindE (exec_size cfg mh base_data min_len slen retval) (\<lambda>(len, stack).
       Inr (\<lparr>lp_esuph = esuph, lp_base_data = base_data, lp_min_len = min_len,
             lp_len = len, lp_stack = stack\<rparr>, f))))"

subsection \<open>Specification in unbounded arithmetic\<close>

text \<open>
  What the planner promises (spec, section 4.2): the data-segment length of each
  sizing policy computed with unbounded naturals, and its rounding up to a paragraph.
  The lemmas below show that the 16-bit code either computes exactly this value or
  fails; it never returns a wrapped sum.
\<close>

definition para_round :: "nat \<Rightarrow> nat" where
  "para_round n = (n + 15) div 16 * 16"

definition planned_len :: "config \<Rightarrow> minix_exec_hdr \<Rightarrow> seg_t \<Rightarrow> nat \<Rightarrow> nat \<Rightarrow> nat" where
  "planned_len cfg mh base_data min_len slen =
     (if version mh = 1 then
        (let l = (if stack_below_data cfg base_data then min_len
                  else min_len + unat (stack_req cfg mh) + slen) in
         if 0xFFF0 \<le> heap_req cfg mh then max l 0xFFF0 else l + unat (heap_req cfg mh))
      else if chmem mh \<noteq> 0 then unat (chmem mh)
      else min_len + unat (INIT_HEAP cfg) +
             (if stack_below_data cfg base_data then 0 else unat (INIT_STACK cfg)) + slen)"

text \<open>The definitions a concrete run of the planner unfolds.\<close>

lemmas layout_eval = exec_layout_def exec_min_len_def exec_supl_def exec_size_def exec_chmem_def
  exec_round_def checked_add_def add_overflow_def stack_below_data_def stack_req_def heap_req_def
  EXEC_MINIX_HDR_SIZE_def EXEC_RELOC_HDR_SIZE_def EXEC_FARTEXT_HDR_SIZE_def

subsection \<open>Lemmas\<close>

lemma para_round_ge: "n \<le> para_round n"
  by (simp add: para_round_def)

lemma para_round_mod: "para_round n mod 16 = 0"
  by (simp add: para_round_def)

lemma unat_of_nat_para_round:
  "n + 15 < 65536 \<Longrightarrow> unat (word_of_nat (para_round n) :: u16) = para_round n"
proof -
  assume "n + 15 < 65536"
  moreover have "para_round n \<le> n + 15" by (simp add: para_round_def)
  ultimately have "para_round n < 2 ^ LENGTH(16)" by simp
  then show ?thesis by (simp only: unat_of_nat mod_less)
qed

lemma checked_add_Inr_u16:
  "checked_add e (a::u16) n = Inr r \<Longrightarrow> unat r = unat a + n \<and> unat a + n < 65536"
  using checked_add_Inr [of e a n r] checked_add_Inr_unat [of e a n r] by simp

lemma exec_round_eq:
  "exec_round len =
     (if 65536 \<le> unat len + 15 then Inl E2BIG else Inr (word_of_nat (para_round (unat len))))"
proof (cases "65536 \<le> unat len + 15")
  case True
  then show ?thesis by (simp add: exec_round_def checked_add_u16)
next
  case False
  then have "unat (len + 15) = unat len + 15"
    using unat_checked_add_u16 [of len 15] by simp
  then have "unat ((len + 15) AND NOT 15) = para_round (unat len)"
    using unat_and_not_15 [of "len + 15"] by (simp only: para_round_def)
  then have "(len + 15) AND NOT 15 = word_of_nat (para_round (unat len))"
    by (metis of_nat_unat ucast_id)
  with False show ?thesis by (simp add: exec_round_def checked_add_u16)
qed

lemma exec_min_len_Inr:
  "exec_min_len mh = Inr ml \<Longrightarrow>
     unat ml = unat (ucast (dseg mh) :: size_t) + unat (ucast (bseg mh) :: size_t)"
  by (simp add: exec_min_len_def checked_add_Inr_unat)

lemma exec_supl_Inr:
  assumes "exec_supl cfg mh ml f = Inr (es, bd, ml', rv, f')"
  shows "unat ml' = unat ml + unat bd \<and> (\<not> CONFIG_EXEC_LOW_STACK cfg \<longrightarrow> bd = 0) \<and>
         (rv = ENOEXEC \<longleftrightarrow> hlen mh = EXEC_MINIX_HDR_SIZE) \<and>
         (hlen mh = EXEC_MINIX_HDR_SIZE \<longrightarrow> bd = 0 \<and> f' = f)"
  using assms
  by (auto simp: exec_supl_def Let_def bindE_eq_Inr EXEC_MINIX_HDR_SIZE_def
      EXEC_RELOC_HDR_SIZE_def EXEC_FARTEXT_HDR_SIZE_def split: if_splits prod.splits
      dest!: checked_add_Inr_u16)

lemma exec_supl_retval:
  "exec_supl cfg mh ml f = Inr (es, bd, ml', rv, f') \<Longrightarrow>
     rv = (if hlen mh = EXEC_MINIX_HDR_SIZE then ENOEXEC else EINVAL)"
  by (auto simp: exec_supl_def Let_def bindE_eq_Inr split: if_splits prod.splits)

lemma exec_chmem_Inr:
  assumes "exec_chmem cfg mh bd ml sl rv = Inr (len, st)"
  shows "unat len = planned_len cfg mh bd (unat ml) (unat sl) \<and> unat ml \<le> unat len \<and>
         (version mh = 0 \<or> version mh = 1)"
  using assms
  by (auto simp: exec_chmem_def planned_len_def stack_below_data_def stack_req_def heap_req_def
      Let_def not_less word_less_nat_alt word_le_nat_alt bindE_eq_Inr split: if_splits
      dest!: checked_add_Inr_u16)

lemma exec_size_Inr:
  assumes "exec_size cfg mh bd ml sl rv = Inr (len, st)"
  shows "unat len = para_round (planned_len cfg mh bd (unat ml) (unat sl)) \<and>
         planned_len cfg mh bd (unat ml) (unat sl) + 15 < 65536 \<and> unat ml \<le> unat len"
  using assms exec_chmem_Inr [of cfg mh bd ml sl rv]
  by (auto simp: exec_size_def exec_round_eq bindE_eq_Inr unat_of_nat_para_round split: if_splits;
      meson le_trans para_round_ge)

lemma exec_layout_Inr:
  assumes "exec_layout cfg mh sl f = Inr (p, f')"
  obtains ml rv where "exec_min_len mh = Inr ml"
    and "exec_supl cfg mh ml f = Inr (lp_esuph p, lp_base_data p, lp_min_len p, rv, f')"
    and "exec_size cfg mh (lp_base_data p) (lp_min_len p) sl rv = Inr (lp_len p, lp_stack p)"
  using assms
  by (auto simp: exec_layout_def bindE_eq_Inr split: prod.splits)

lemma exec_layout_chmem_too_small_Inl:
  assumes "version mh = 0" and "chmem mh \<noteq> 0" and "hlen mh = EXEC_MINIX_HDR_SIZE"
    and "unat (chmem mh) \<le> unat (ucast (dseg mh) :: size_t) + unat (ucast (bseg mh) :: size_t)"
  shows "exec_layout cfg mh slen f = Inl EINVAL"
proof (cases "exec_min_len mh")
  case (Inl e)
  then have "exec_min_len mh = Inl EINVAL"
    by (auto simp: exec_min_len_def checked_add_Inl)
  then show ?thesis by (simp add: exec_layout_def)
next
  case (Inr ml)
  have "unat (chmem mh) \<le> unat ml" using exec_min_len_Inr [OF Inr] assms(4) by simp
  then have "chmem mh \<le> ml" by (simp add: word_le_nat_alt)
  then show ?thesis using Inr assms(1-3)
    by (simp add: exec_layout_def exec_supl_def exec_size_def exec_chmem_def)
qed

section \<open>Properties of the planner\<close>

text \<open>C1: The planned data segment length is a whole number of paragraphs and is at least the minimum length data + BSS (+ the stack below the data), the minimum itself computed without wrap-around.\<close>

theorem exec_layout_paragraph_bounds:
  assumes "exec_layout cfg mh slen f = Inr (p, f')"
  shows "unat (lp_len p) mod 16 = 0 \<and>
         unat (lp_min_len p) =
           unat (ucast (dseg mh) :: size_t) + unat (ucast (bseg mh) :: size_t) + unat (lp_base_data p) \<and>
         unat (lp_min_len p) \<le> unat (lp_len p)"
proof -
  obtain ml rv where ml: "exec_min_len mh = Inr ml"
    and su: "exec_supl cfg mh ml f = Inr (lp_esuph p, lp_base_data p, lp_min_len p, rv, f')"
    and sz: "exec_size cfg mh (lp_base_data p) (lp_min_len p) slen rv = Inr (lp_len p, lp_stack p)"
    using assms by (rule exec_layout_Inr)
  show ?thesis
    using exec_min_len_Inr [OF ml] exec_supl_Inr [OF su] exec_size_Inr [OF sz] para_round_mod
    by simp
qed

theorem exec_layout_paragraph_bounds_witness:
  "exec_layout elks_config example_hdr 20 example_file =
     Inr (\<lparr>lp_esuph = zero_supl, lp_base_data = 0, lp_min_len = 80, lp_len = 8304, lp_stack = 4096\<rparr>,
          example_file) \<and>
   unat (8304::size_t) mod 16 = 0 \<and> unat (80::size_t) \<le> unat (8304::size_t)"
proof -
  have h: "exec_layout elks_config example_hdr 20 example_file =
     Inr (\<lparr>lp_esuph = zero_supl, lp_base_data = 0, lp_min_len = 80, lp_len = 8304, lp_stack = 4096\<rparr>,
          example_file)"
    by (simp add: layout_eval example_hdr_def elks_config_def)
  show ?thesis using exec_layout_paragraph_bounds [OF h] h by simp
qed

text \<open>C2: When the sizing policy and the rounding succeed, the 16-bit length equals the paragraph rounding of the length the policy asks for in unbounded arithmetic: the code never returns a wrapped sum.\<close>

theorem exec_size_exact:
  "exec_size cfg mh bd ml sl rv = Inr (len, st) \<Longrightarrow>
     unat len = para_round (planned_len cfg mh bd (unat ml) (unat sl))"
  using exec_size_Inr by blast

theorem exec_size_exact_witness:
  "exec_size elks_config example_hdr 0 80 20 ENOEXEC = Inr (8304, 4096) \<and>
   unat (8304::size_t) = para_round (planned_len elks_config example_hdr 0 (unat (80::size_t)) (unat (20::size_t)))"
proof -
  have h: "exec_size elks_config example_hdr 0 80 20 ENOEXEC = Inr (8304, 4096)"
    by (simp add: layout_eval example_hdr_def elks_config_def)
  show ?thesis using exec_size_exact [OF h] h by simp
qed



text \<open>C7: A legacy (version 0) header whose chmem does not exceed data + BSS is rejected with EINVAL.\<close>

theorem exec_layout_legacy_chmem_too_small:
  assumes "version mh = 0" and "chmem mh \<noteq> 0" and "hlen mh = EXEC_MINIX_HDR_SIZE"
    and "unat (chmem mh) \<le> unat (ucast (dseg mh) :: size_t) + unat (ucast (bseg mh) :: size_t)"
  shows "exec_layout cfg mh slen f = Inl EINVAL"
  using assms by (rule exec_layout_chmem_too_small_Inl)

theorem exec_layout_legacy_chmem_too_small_witness:
  "exec_layout elks_config (example_hdr\<lparr>version := 0, chmem := 60\<rparr>) 20 example_file = Inl EINVAL"
  by (rule exec_layout_legacy_chmem_too_small) (simp_all add: example_hdr_def EXEC_MINIX_HDR_SIZE_def)

text \<open>With version 1, no chmem and no minstack, the plan takes the default stack and heap and the data segment is data + BSS + stack + arguments + heap rounded to a paragraph.\<close>

theorem exec_layout_defaults_v1:
  assumes "hlen mh = EXEC_MINIX_HDR_SIZE" and "version mh = 1" and "chmem mh = 0"
    and "minstack mh = 0" and "unat (INIT_HEAP cfg) < 0xFFF0"
    and "unat (ucast (dseg mh) :: size_t) + unat (ucast (bseg mh) :: size_t) + unat (INIT_STACK cfg) +
           unat slen + unat (INIT_HEAP cfg) + 15 < 65536"
  shows "exec_layout cfg mh slen f =
    Inr (\<lparr>lp_esuph = zero_supl, lp_base_data = 0,
          lp_min_len = ucast (dseg mh) + ucast (bseg mh),
          lp_len = word_of_nat (para_round (unat (ucast (dseg mh) :: size_t) +
                     unat (ucast (bseg mh) :: size_t) + unat (INIT_STACK cfg) + unat slen +
                     unat (INIT_HEAP cfg))),
          lp_stack = INIT_STACK cfg\<rparr>, f)"
proof -
  let ?d = "ucast (dseg mh) :: size_t" and ?b = "ucast (bseg mh) :: size_t"
  let ?total = "unat ?d + unat ?b + unat (INIT_STACK cfg) + unat slen + unat (INIT_HEAP cfg)"
  have ml: "exec_min_len mh = Inr (?d + ?b)"
    using assms(6) by (simp add: exec_min_len_def checked_add_u16)
  have su: "exec_supl cfg mh (?d + ?b) f = Inr (zero_supl, 0, ?d + ?b, ENOEXEC, f)"
    using assms(1) by (simp add: exec_supl_def)
  have u1: "unat (?d + ?b) = unat ?d + unat ?b" using assms(6) by (simp add: unat_add_nowrap)
  have u2: "unat (?d + ?b + INIT_STACK cfg) = unat ?d + unat ?b + unat (INIT_STACK cfg)"
    using assms(6) u1 by (simp add: unat_add_nowrap)
  have u3: "unat (?d + ?b + INIT_STACK cfg + slen) =
            unat ?d + unat ?b + unat (INIT_STACK cfg) + unat slen"
    using assms(6) u2 by (simp add: unat_add_nowrap)
  have u4: "unat (?d + ?b + INIT_STACK cfg + slen + INIT_HEAP cfg) = ?total"
    using assms(6) u3 by (simp add: unat_add_nowrap)
  have heap: "\<not> 0xFFF0 \<le> INIT_HEAP cfg" using assms(5) by (simp add: word_le_nat_alt)
  have ch: "exec_chmem cfg mh 0 (?d + ?b) slen ENOEXEC =
            Inr (?d + ?b + INIT_STACK cfg + slen + INIT_HEAP cfg, INIT_STACK cfg)"
    using assms(2-4,6) u1 u2 u3 heap
    by (simp add: exec_chmem_def stack_below_data_def stack_req_def heap_req_def checked_add_u16 Let_def)
  have rd: "exec_round (?d + ?b + INIT_STACK cfg + slen + INIT_HEAP cfg) = Inr (word_of_nat (para_round ?total))"
    using assms(6) u4 by (simp add: exec_round_eq)
  show ?thesis using ml su ch rd by (simp add: exec_layout_def exec_size_def)
qed

theorem exec_layout_defaults_v1_witness:
  "exec_layout elks_config example_hdr 20 example_file =
     Inr (\<lparr>lp_esuph = zero_supl, lp_base_data = 0, lp_min_len = 80, lp_len = 8304, lp_stack = 4096\<rparr>,
          example_file)"
proof -
  have "exec_layout elks_config example_hdr 20 example_file =
    Inr (\<lparr>lp_esuph = zero_supl, lp_base_data = 0,
          lp_min_len = ucast (dseg example_hdr) + ucast (bseg example_hdr),
          lp_len = word_of_nat (para_round (unat (ucast (dseg example_hdr) :: size_t) +
                     unat (ucast (bseg example_hdr) :: size_t) + unat (INIT_STACK elks_config) +
                     unat (20::size_t) + unat (INIT_HEAP elks_config))),
          lp_stack = INIT_STACK elks_config\<rparr>, example_file)"
    by (rule exec_layout_defaults_v1)
      (simp_all add: example_hdr_def elks_config_def EXEC_MINIX_HDR_SIZE_def)
  then show ?thesis by (simp add: example_hdr_def elks_config_def para_round_def)
qed

text \<open>C9: A heap request of 0xFFF0 or more gives the largest data segment, 0xFFF0 bytes, whenever data, stack and arguments fit below it.\<close>

theorem exec_size_max_heap:
  assumes "version mh = 1" and "\<not> stack_below_data cfg bd" and "0xFFF0 \<le> heap_req cfg mh"
    and "unat ml + unat (stack_req cfg mh) + unat sl \<le> 0xFFF0"
  shows "exec_size cfg mh bd ml sl rv = Inr (0xFFF0, stack_req cfg mh)"
proof -
  have a: "unat (ml + stack_req cfg mh) = unat ml + unat (stack_req cfg mh)"
    using assms(4) by (simp add: unat_add_nowrap)
  have c: "unat (ml + stack_req cfg mh + sl) = unat ml + unat (stack_req cfg mh) + unat sl"
    using assms(4) a by (simp add: unat_add_nowrap)
  have "exec_chmem cfg mh bd ml sl rv = Inr (0xFFF0, stack_req cfg mh)"
    using assms a c by (auto simp: exec_chmem_def checked_add_u16 Let_def word_less_nat_alt
        word_le_nat_alt word_unat_eq_iff)
  then show ?thesis by (simp add: exec_size_def exec_round_def checked_add_u16)
qed

theorem exec_size_max_heap_witness:
  "exec_size elks_config (example_hdr\<lparr>chmem := 0xFFFF\<rparr>) 0 80 20 ENOEXEC = Inr (0xFFF0, 4096)"
proof -
  have "exec_size elks_config (example_hdr\<lparr>chmem := 0xFFFF\<rparr>) 0 80 20 ENOEXEC =
        Inr (0xFFF0, stack_req elks_config (example_hdr\<lparr>chmem := 0xFFFF\<rparr>))"
    by (rule exec_size_max_heap)
      (simp_all add: example_hdr_def elks_config_def stack_below_data_def heap_req_def stack_req_def)
  then show ?thesis by (simp add: stack_req_def example_hdr_def elks_config_def)
qed

text \<open>C10: An unknown header version fails with ENOEXEC for a 32-byte header but with EINVAL for the longer headers, since the code does not set the status on this exit.\<close>

theorem exec_layout_unknown_version:
  assumes "version mh \<noteq> 0" and "version mh \<noteq> 1"
    and "exec_min_len mh = Inr ml" and "exec_supl cfg mh ml f = Inr (es, bd, ml', rv, f')"
  shows "exec_layout cfg mh slen f = Inl (if hlen mh = EXEC_MINIX_HDR_SIZE then ENOEXEC else EINVAL)"
  using assms exec_supl_retval [OF assms(4)]
  by (simp add: exec_layout_def exec_size_def exec_chmem_def)

theorem exec_layout_unknown_version_witness:
  "exec_layout elks_config (example_hdr\<lparr>hlen := 48, version := 2\<rparr>) 20
     \<lparr>f_data = minix_hdr_bytes (example_hdr\<lparr>hlen := 48, version := 2\<rparr>) @ replicate 16 0, f_pos = 32\<rparr>
   = Inl EINVAL"
proof -
  let ?h = "example_hdr\<lparr>hlen := 48, version := 2\<rparr>"
  let ?f = "\<lparr>f_data = minix_hdr_bytes ?h @ replicate 16 0, f_pos = 32\<rparr>"
  have ml: "exec_min_len ?h = Inr 80" by (simp add: layout_eval example_hdr_def)
  have su: "exec_supl elks_config ?h 80 ?f =
      Inr (decode_supl_hdr (replicate 16 0), 0, 80, EINVAL, ?f\<lparr>f_pos := 48\<rparr>)"
    by (simp add: layout_eval example_hdr_def elks_config_def file_read_def
        decode_supl_hdr_def le32_at_def le16_at_def byte_at_def le32_def le16_def)
  have "exec_layout elks_config ?h 20 ?f = Inl (if hlen ?h = EXEC_MINIX_HDR_SIZE then ENOEXEC else EINVAL)"
    by (rule exec_layout_unknown_version [OF _ _ ml su]) (simp_all add: example_hdr_def)
  then show ?thesis by (simp add: EXEC_MINIX_HDR_SIZE_def)
qed


end
