(* ===== verification/Reloc.thy ===== *)
theory Reloc
  imports Header
begin

text \<open>
  The relocation engine of the medium memory model, \<open>relocate\<close> in
  \<^verbatim>\<open>src/elks/fs/exec.c\<close> (lines 77--126). It reads \<open>rsize\<close> bytes of 8-byte
  \<open>struct minix_reloc\<close> records from the file and, for each, writes the resolved
  segment value into the word at \<open>place_base:r_vaddr\<close>. Only segment-word records
  (\<open>R_SEGWORD\<close>) naming the text, far text or data segment are accepted; any other
  record, a short read, or a length that is not a multiple of 8 fails with
  \<open>-EINVAL\<close>.

  The record layout and the constants \<open>R_SEGWORD\<close>, \<open>S_TEXT\<close>, \<open>S_DATA\<close>,
  \<open>S_FTEXT\<close> are those of \<^verbatim>\<open>linuxmt/minix.h\<close>. The save and restore of the
  caller's \<open>ds\<close> around the reads are not modelled: the model's reads do not go
  through a data segment register, and both exits restore it.

  The lemmas give the streaming loop an abstract meaning: \<open>relocate\<close> succeeds
  exactly when the next \<open>rsize\<close> bytes of the file are whole, valid records, and its
  memory is then the list semantics \<open>apply_relocs\<close> of those records.
\<close>

subsection \<open>Records\<close>

record minix_reloc =
  r_vaddr :: u32
  r_symndx :: u16
  r_type :: u16

definition R_SEGWORD :: u16 where "R_SEGWORD = 80"
definition S_TEXT :: u16 where "S_TEXT = 0xFFFE"
definition S_DATA :: u16 where "S_DATA = 0xFFFD"
definition S_FTEXT :: u16 where "S_FTEXT = 0xFFFB"

definition decode_reloc :: "u8 list \<Rightarrow> minix_reloc" where
  "decode_reloc bs = \<lparr>r_vaddr = le32_at bs 0, r_symndx = le16_at bs 4, r_type = le16_at bs 6\<rparr>"

definition reloc_bytes :: "minix_reloc \<Rightarrow> u8 list" where
  "reloc_bytes r = u32_bytes (r_vaddr r) @ u16_bytes (r_symndx r) @ u16_bytes (r_type r)"

subsection \<open>One record\<close>

text \<open>
  Lines 94--106: the value a record writes, or \<open>None\<close> for the \<open>goto error\<close>
  branches. The far-text segment follows the text: its base is the code base plus
  the text size in paragraphs (\<open>tseg_size\<close> is the parameter \<open>tseg\<close>, the caller passes \<open>mh.tseg\<close>).
\<close>

definition reloc_value :: "seg_t \<Rightarrow> seg_t \<Rightarrow> size_t \<Rightarrow> minix_reloc \<Rightarrow> u16 option" where
  "reloc_value code_base data_base tseg_size r =
     (if r_type r = R_SEGWORD then
        (if r_symndx r = S_TEXT then Some code_base
         else if r_symndx r = S_FTEXT then Some (code_base + bytes_to_paras tseg_size)
         else if r_symndx r = S_DATA then Some data_base
         else None)
      else None)"

subsection \<open>The loop\<close>

text \<open>
  Lines 90--117: \<open>while (rsize >= sizeof(struct minix_reloc))\<close>, one record per
  iteration, \<open>rsize\<close> an \<open>unsigned long\<close>. The target offset is the low half of
  \<open>r_vaddr\<close> (\<open>(word_t)reloc.r_vaddr\<close>).
\<close>

function relocate_loop ::
  "seg_t \<Rightarrow> u32 \<Rightarrow> seg_t \<Rightarrow> seg_t \<Rightarrow> size_t \<Rightarrow> file_s \<Rightarrow> memory \<Rightarrow>
     (file_s \<times> memory) result" where
  "relocate_loop place_base rsize code_base data_base tseg_size f m =
     (if rsize < 8 then Inr (f, m)
      else
        (let (bs, f') = file_read 8 f in
         if length bs \<noteq> 8 then Inl EINVAL
         else
           (let r = decode_reloc bs in
            case reloc_value code_base data_base tseg_size r of
              None \<Rightarrow> Inl EINVAL
            | Some val \<Rightarrow>
                relocate_loop place_base (rsize - 8) code_base data_base tseg_size f'
                  (pokew (ucast (r_vaddr r)) place_base val m))))"
  by pat_completeness auto
termination
  by (relation "measure (\<lambda>(_, rsize, _). unat rsize)")
    (auto simp: not_less word_le_nat_alt unat_sub)

text \<open>
  Line 85: \<open>if ((int)rsize % sizeof(struct minix_reloc)) return -EINVAL;\<close>. The
  cast keeps the low 16 bits; the remainder by the unsigned \<open>sizeof\<close> is taken on
  them as unsigned.
\<close>

definition relocate ::
  "seg_t \<Rightarrow> u32 \<Rightarrow> seg_t \<Rightarrow> seg_t \<Rightarrow> size_t \<Rightarrow> file_s \<Rightarrow> memory \<Rightarrow>
     (file_s \<times> memory) result" where
  "relocate place_base rsize code_base data_base tseg_size f m =
     (if (ucast rsize :: u16) mod 8 \<noteq> 0 then Inl EINVAL
      else relocate_loop place_base rsize code_base data_base tseg_size f m)"

subsection \<open>Abstract semantics of a relocation stream\<close>

text \<open>
  The stream as a list of records, and the fixups it denotes applied one after the
  other; \<open>None\<close> if some record is not accepted.
\<close>

function reloc_records :: "u8 list \<Rightarrow> minix_reloc list" where
  "reloc_records bs =
     (if length bs < 8 then [] else decode_reloc (take 8 bs) # reloc_records (drop 8 bs))"
  by pat_completeness auto
termination
  by (relation "measure length") auto

fun apply_relocs ::
  "seg_t \<Rightarrow> seg_t \<Rightarrow> seg_t \<Rightarrow> size_t \<Rightarrow> minix_reloc list \<Rightarrow> memory \<Rightarrow> memory option" where
  "apply_relocs place_base code_base data_base tseg_size [] m = Some m"
| "apply_relocs place_base code_base data_base tseg_size (r # rs) m =
     (case reloc_value code_base data_base tseg_size r of
        None \<Rightarrow> None
      | Some val \<Rightarrow>
          apply_relocs place_base code_base data_base tseg_size rs
            (pokew (ucast (r_vaddr r)) place_base val m))"

text \<open>
  The two bytes a record patches, and the condition that no two records of a stream
  patch overlapping words (the linker emits at most one fixup per word).
\<close>

definition reloc_target :: "seg_t \<Rightarrow> minix_reloc \<Rightarrow> addr set" where
  "reloc_target place_base r = word_addrs (ucast (r_vaddr r)) place_base"

fun relocs_disjoint :: "seg_t \<Rightarrow> minix_reloc list \<Rightarrow> bool" where
  "relocs_disjoint place_base [] = True"
| "relocs_disjoint place_base (r # rs) =
     ((\<forall>r' \<in> set rs. reloc_target place_base r' \<inter> reloc_target place_base r = {}) \<and>
      relocs_disjoint place_base rs)"

text \<open>
  A two-record stream: the data segment into the word at offset 6, the text segment
  into the word at offset 10.
\<close>

definition ex_relocs :: "minix_reloc list" where
  "ex_relocs = [\<lparr>r_vaddr = 6, r_symndx = S_DATA, r_type = R_SEGWORD\<rparr>,
                \<lparr>r_vaddr = 10, r_symndx = S_TEXT, r_type = R_SEGWORD\<rparr>]"

definition ex_reloc_file :: file_s where
  "ex_reloc_file = \<lparr>f_data = concat (map reloc_bytes ex_relocs), f_pos = 0\<rparr>"

subsection \<open>Lemmas\<close>

declare reloc_records.simps [simp del] relocate_loop.simps [simp del]

lemma reloc_records_take_Suc:
  "8 \<le> n \<Longrightarrow> n \<le> length bs \<Longrightarrow>
     reloc_records (take n bs) = decode_reloc (take 8 bs) # reloc_records (take (n - 8) (drop 8 bs))"
  by (subst reloc_records.simps) (simp add: take_take drop_take min_def)

lemma reloc_records_short: "length bs < 8 \<Longrightarrow> reloc_records bs = []"
  by (simp add: reloc_records.simps)

lemma unat_minus_8: "\<not> (rsize::u32) < 8 \<Longrightarrow> unat (rsize - 8) = unat rsize - 8"
  by (simp add: not_less word_le_nat_alt unat_sub)

lemma relocate_loop_eq:
  "relocate_loop pb rsize cb db ts f m =
     (let n = unat rsize div 8 * 8 in
      if file_avail f < n then Inl EINVAL
      else case apply_relocs pb cb db ts (reloc_records (take n (drop (f_pos f) (f_data f)))) m of
             None \<Rightarrow> Inl EINVAL
           | Some m' \<Rightarrow> Inr (f\<lparr>f_pos := f_pos f + n\<rparr>, m'))"
proof (induction pb rsize cb db ts f m rule: relocate_loop.induct)
  case (1 pb rsize cb db ts f m)
  show ?case
  proof (cases "rsize < 8")
    case True
    then have "unat rsize < 8" by (simp add: word_less_nat_alt)
    then have "unat rsize div 8 = 0" by simp
    with True show ?thesis
      by (simp add: relocate_loop.simps [of pb rsize] reloc_records_short)
  next
    case False
    define n where "n = unat rsize div 8 * 8"
    have r8: "unat (rsize - 8) = unat rsize - 8" using False by (rule unat_minus_8)
    have ge: "8 \<le> unat rsize" using False by (simp add: not_less word_le_nat_alt)
    then have n8: "8 \<le> n" by (simp add: n_def)
    have nm: "unat (rsize - 8) div 8 * 8 = n - 8"
    proof -
      obtain y where y: "unat rsize = y + 8" using ge le_Suc_ex by (metis add.commute)
      then show ?thesis using r8 by (simp add: n_def div_add_self2)
    qed
    show ?thesis
    proof (cases "file_avail f < 8")
      case True
      with False n8 show ?thesis
        by (simp add: relocate_loop.simps [of pb rsize] file_read_def file_avail_def Let_def n_def [symmetric])
    next
      case False': False
      let ?bs = "take 8 (drop (f_pos f) (f_data f))"
      let ?f' = "f\<lparr>f_pos := f_pos f + 8\<rparr>"
      have rd: "file_read 8 f = (?bs, ?f')" using False' by (simp add: file_read_full)
      have len: "length ?bs = 8" using False' by (simp add: file_avail_def)
      have split: "n \<le> file_avail f \<Longrightarrow>
          reloc_records (take n (drop (f_pos f) (f_data f))) =
          decode_reloc ?bs # reloc_records (take (n - 8) (drop (f_pos f + 8) (f_data f)))"
        using n8 by (simp add: reloc_records_take_Suc file_avail_def add.commute)
      show ?thesis
      proof (cases "reloc_value cb db ts (decode_reloc ?bs)")
        case None
        then show ?thesis
          using False len split
          by (simp add: relocate_loop.simps [of pb rsize] rd Let_def n_def [symmetric])
      next
        case (Some v)
        have IH: "relocate_loop pb (rsize - 8) cb db ts ?f' (pokew (ucast (r_vaddr (decode_reloc ?bs))) pb v m) =
          (let n' = unat (rsize - 8) div 8 * 8 in
           if file_avail ?f' < n' then Inl EINVAL
           else case apply_relocs pb cb db ts (reloc_records (take n' (drop (f_pos ?f') (f_data ?f'))))
                       (pokew (ucast (r_vaddr (decode_reloc ?bs))) pb v m) of
                  None \<Rightarrow> Inl EINVAL
                | Some m' \<Rightarrow> Inr (?f'\<lparr>f_pos := f_pos ?f' + n'\<rparr>, m'))"
          using "1.IH" [OF False rd [symmetric]] len Some by simp
        let ?m1 = "pokew (ucast (r_vaddr (decode_reloc ?bs))) pb v m"
        have step: "relocate_loop pb rsize cb db ts f m = relocate_loop pb (rsize - 8) cb db ts ?f' ?m1"
          using False len Some by (simp add: relocate_loop.simps [of pb rsize] rd)
        have av: "file_avail ?f' = file_avail f - 8" by (simp add: file_avail_def)
        show ?thesis
        proof (cases "file_avail f < n")
          case True
          then have "file_avail ?f' < n - 8" using av False' n8 by simp
          then show ?thesis using step IH True by (simp add: Let_def n_def [symmetric] nm)
        next
          case False
          then have "\<not> file_avail ?f' < n - 8" using av False' n8 by simp
          moreover have "f_pos f + 8 + (n - 8) = f_pos f + n" using n8 by simp
          ultimately show ?thesis using step IH False split Some
            by (simp add: Let_def n_def [symmetric] nm split: option.splits)
        qed
      qed
    qed
  qed
qed

lemma length_reloc_bytes [simp]: "length (reloc_bytes r) = 8"
  by (simp add: reloc_bytes_def)

lemma decode_reloc_bytes [simp]: "decode_reloc (reloc_bytes r @ bs) = r"
  by (simp add: decode_reloc_def reloc_bytes_def le32_at_def le16_at_def
      u32_bytes_def u16_bytes_def le32_u32_bytes le16_u16_bytes)

lemma decode_reloc_bytes' [simp]: "decode_reloc (reloc_bytes r) = r"
  using decode_reloc_bytes [of r "[]"] by simp

lemma reloc_records_concat:
  "reloc_records (concat (map reloc_bytes rs) @ bs) = rs @ reloc_records bs"
proof (induction rs)
  case Nil
  then show ?case by simp
next
  case (Cons r rs)
  have "reloc_records (reloc_bytes r @ concat (map reloc_bytes rs) @ bs) =
        decode_reloc (reloc_bytes r @ concat (map reloc_bytes rs) @ bs) #
        reloc_records (concat (map reloc_bytes rs) @ bs)"
    by (subst reloc_records.simps) simp
  then show ?case using Cons.IH by simp
qed

lemma ucast_mod8_u16:
  "((ucast (rsize::u32) :: u16) mod 8 \<noteq> 0) \<longleftrightarrow> unat rsize mod 8 \<noteq> 0"
proof -
  have "unat ((ucast rsize :: u16) mod 8) = unat rsize mod 65536 mod 8"
    by (simp add: unat_mod unsigned_ucast_eq take_bit_eq_mod)
  also have "\<dots> = unat rsize mod 8" by (simp add: mod_mod_cancel)
  finally have eq: "unat ((ucast rsize :: u16) mod 8) = unat rsize mod 8" .
  show ?thesis
    using eq unat_0_iff [of "(ucast rsize :: u16) mod 8"] by argo
qed

lemma relocate_eq:
  "relocate pb rsize cb db ts f m =
     (if unat rsize mod 8 \<noteq> 0 \<or> file_avail f < unat rsize then Inl EINVAL
      else case apply_relocs pb cb db ts (reloc_records (take (unat rsize) (drop (f_pos f) (f_data f)))) m of
             None \<Rightarrow> Inl EINVAL
           | Some m' \<Rightarrow> Inr (f\<lparr>f_pos := f_pos f + unat rsize\<rparr>, m'))"
proof (cases "unat rsize mod 8 = 0")
  case True
  then have "unat rsize div 8 * 8 = unat rsize" by (metis div_mult_mod_eq add_0_right)
  with True show ?thesis by (simp add: relocate_def ucast_mod8_u16 relocate_loop_eq Let_def)
qed (simp add: relocate_def ucast_mod8_u16)


lemma apply_relocs_frame:
  "apply_relocs pb cb db ts rs m = Some m' \<Longrightarrow> a \<notin> (\<Union>r \<in> set rs. reloc_target pb r) \<Longrightarrow>
     m' a = m a"
proof (induction rs arbitrary: m)
  case Nil
  then show ?case by simp
next
  case (Cons r rs)
  then obtain v where v: "reloc_value cb db ts r = Some v"
    and rest: "apply_relocs pb cb db ts rs (pokew (ucast (r_vaddr r)) pb v m) = Some m'"
    by (auto split: option.splits)
  have "m' a = pokew (ucast (r_vaddr r)) pb v m a" using Cons.IH [OF rest] Cons.prems(2) by simp
  also have "\<dots> = m a" using Cons.prems(2) by (simp add: reloc_target_def)
  finally show ?case .
qed

lemma apply_relocs_target:
  "apply_relocs pb cb db ts rs m = Some m' \<Longrightarrow> relocs_disjoint pb rs \<Longrightarrow> r \<in> set rs \<Longrightarrow>
     \<exists>v. reloc_value cb db ts r = Some v \<and> peekw (ucast (r_vaddr r)) pb m' = v"
proof (induction rs arbitrary: m)
  case Nil
  then show ?case by simp
next
  case (Cons r0 rs)
  then obtain v where v: "reloc_value cb db ts r0 = Some v"
    and rest: "apply_relocs pb cb db ts rs (pokew (ucast (r_vaddr r0)) pb v m) = Some m'"
    by (auto split: option.splits)
  show ?case
  proof (cases "r \<in> set rs")
    case True
    then show ?thesis using Cons.IH [OF rest] Cons.prems(2) by simp
  next
    case False
    then have r0: "r = r0" using Cons.prems(3) by simp
    have "peekw (ucast (r_vaddr r0)) pb m' = peekw (ucast (r_vaddr r0)) pb (pokew (ucast (r_vaddr r0)) pb v m)"
    proof (rule peekw_cong)
      fix a assume "a \<in> word_addrs (ucast (r_vaddr r0)) pb"
      then have "a \<notin> (\<Union>r' \<in> set rs. reloc_target pb r')"
        using Cons.prems(2) by (auto simp: reloc_target_def)
      then show "m' a = pokew (ucast (r_vaddr r0)) pb v m a" by (rule apply_relocs_frame [OF rest])
    qed
    then show ?thesis using v r0 by simp
  qed
qed

lemma ex_reloc_records:
  "reloc_records (take (unat (16::u32)) (drop (f_pos ex_reloc_file) (f_data ex_reloc_file))) = ex_relocs"
proof -
  have "length (concat (map reloc_bytes ex_relocs)) = 16" by (simp add: ex_relocs_def)
  then show ?thesis
    using reloc_records_concat [of ex_relocs "[]"] reloc_records_short [of "[]"]
    by (simp add: ex_reloc_file_def)
qed

lemma ex_relocate:
  "relocate 0x2000 16 0x1000 0x3000 0 ex_reloc_file m =
     Inr (ex_reloc_file\<lparr>f_pos := 16\<rparr>, pokew 10 0x2000 0x1000 (pokew 6 0x2000 0x3000 m))"
proof -
  have "file_avail ex_reloc_file = 16" by (simp add: ex_reloc_file_def file_avail_def ex_relocs_def)
  then show ?thesis using ex_reloc_records
    by (simp add: relocate_eq ex_relocs_def reloc_value_def S_DATA_def S_TEXT_def S_FTEXT_def
        R_SEGWORD_def ex_reloc_file_def)
qed

subsection \<open>Properties of the relocation engine\<close>

text \<open>
  C4. Refinement of the streaming loop: \<open>relocate\<close> succeeds exactly when \<open>rsize\<close> is
  a multiple of 8, the file holds \<open>rsize\<close> more bytes, and every record of those
  bytes is accepted; the file position then advances by \<open>rsize\<close> and the memory is
  the records' fixups applied in file order.
\<close>

theorem relocate_success_iff:
  "relocate pb rsize cb db ts f m = Inr (f', m') \<longleftrightarrow>
     unat rsize mod 8 = 0 \<and> unat rsize \<le> file_avail f \<and> f' = f\<lparr>f_pos := f_pos f + unat rsize\<rparr> \<and>
     apply_relocs pb cb db ts (reloc_records (take (unat rsize) (drop (f_pos f) (f_data f)))) m = Some m'"
  by (auto simp: relocate_eq split: option.splits)

text \<open>
  C5. A data-segment record at the read position makes \<open>relocate\<close> of one record
  succeed and store the data segment base into the word at \<open>place_base:r_vaddr\<close>.
\<close>

theorem relocate_data_fixup:
  assumes "f_data f = xs @ reloc_bytes \<lparr>r_vaddr = k, r_symndx = S_DATA, r_type = R_SEGWORD\<rparr> @ ys"
    and "f_pos f = length xs"
  shows "\<exists>m'. relocate pb 8 cb db ts f m = Inr (f\<lparr>f_pos := f_pos f + 8\<rparr>, m') \<and>
              peekw (ucast k) pb m' = db"
proof -
  let ?r = "\<lparr>r_vaddr = k, r_symndx = S_DATA, r_type = R_SEGWORD\<rparr>"
  have tk: "take 8 (drop (f_pos f) (f_data f)) = reloc_bytes ?r" using assms by simp
  have rr: "reloc_records (reloc_bytes ?r) = [?r]"
    using reloc_records_concat [of "[?r]" "[]"] reloc_records_short [of "[]"] by simp
  have v: "reloc_value cb db ts ?r = Some db"
    by (simp add: reloc_value_def S_DATA_def S_TEXT_def S_FTEXT_def)
  have av: "8 \<le> file_avail f" using assms by (simp add: file_avail_def)
  show ?thesis using tk rr v av by (simp add: relocate_eq)
qed

theorem relocate_data_fixup_witness:
  "\<exists>m'. relocate 0x2000 8 0x1000 0x3000 0
          \<lparr>f_data = reloc_bytes \<lparr>r_vaddr = 6, r_symndx = S_DATA, r_type = R_SEGWORD\<rparr>, f_pos = 0\<rparr>
          (\<lambda>_. 0xAA) =
        Inr (\<lparr>f_data = reloc_bytes \<lparr>r_vaddr = 6, r_symndx = S_DATA, r_type = R_SEGWORD\<rparr>, f_pos = 8\<rparr>, m') \<and>
        peekw 6 0x2000 m' = 0x3000"
  using relocate_data_fixup [where xs = "[]" and ys = "[]" and k = 6 and pb = "0x2000" and cb = "0x1000"
      and db = "0x3000" and ts = 0 and m = "\<lambda>_. 0xAA"
      and f = "\<lparr>f_data = reloc_bytes \<lparr>r_vaddr = 6, r_symndx = S_DATA, r_type = R_SEGWORD\<rparr>, f_pos = 0\<rparr>"]
  by simp

text \<open>
  C6. After a successful \<open>relocate\<close> whose records patch pairwise disjoint words,
  the word named by every record holds the segment value that record resolves to:
  no later fixup overwrites an earlier one.
\<close>

theorem relocate_targets_hold:
  assumes "relocate pb rsize cb db ts f m = Inr (f', m')"
    and "relocs_disjoint pb (reloc_records (take (unat rsize) (drop (f_pos f) (f_data f))))"
    and "r \<in> set (reloc_records (take (unat rsize) (drop (f_pos f) (f_data f))))"
  shows "\<exists>v. reloc_value cb db ts r = Some v \<and> peekw (ucast (r_vaddr r)) pb m' = v"
  using assms apply_relocs_target by (auto simp: relocate_eq split: if_splits option.splits)

theorem relocate_targets_hold_witness:
  "peekw 6 0x2000 (pokew 10 0x2000 0x1000 (pokew 6 0x2000 0x3000 (\<lambda>_. 0))) = 0x3000"
proof -
  have "\<exists>v. reloc_value 0x1000 0x3000 0 (hd ex_relocs) = Some v \<and>
          peekw (ucast (r_vaddr (hd ex_relocs))) 0x2000
            (pokew 10 0x2000 0x1000 (pokew 6 0x2000 0x3000 (\<lambda>_. 0))) = v"
    by (rule relocate_targets_hold [OF ex_relocate, unfolded ex_reloc_records])
      (simp_all add: ex_relocs_def reloc_target_def word_addrs_def)
  then show ?thesis
    by (simp add: ex_relocs_def reloc_value_def S_DATA_def S_TEXT_def S_FTEXT_def R_SEGWORD_def)
qed

text \<open>
  C11. Frame: a successful \<open>relocate\<close> changes no byte of memory outside the words its
  records name.
\<close>

theorem relocate_frame:
  assumes "relocate pb rsize cb db ts f m = Inr (f', m')"
    and "a \<notin> (\<Union>r \<in> set (reloc_records (take (unat rsize) (drop (f_pos f) (f_data f)))). reloc_target pb r)"
  shows "m' a = m a"
  using assms apply_relocs_frame by (auto simp: relocate_eq split: if_splits option.splits)

theorem relocate_frame_witness:
  "pokew 10 0x2000 0x1000 (pokew 6 0x2000 0x3000 (\<lambda>_. 0x55)) (phys 0x2000 0) = 0x55"
  using relocate_frame [OF ex_relocate, unfolded ex_reloc_records, of "phys 0x2000 0"]
  by (simp add: ex_relocs_def reloc_target_def word_addrs_def)


end
