(* ===== verification/Kernel.thy ===== *)
theory Kernel
  imports Machine "HOL-Library.AList"
begin

text \<open>
  The kernel state the loader reads and changes, as far as \<^verbatim>\<open>exec.c\<close> touches it.
  These are collaborators outside \<^verbatim>\<open>src/\<close> (\<^verbatim>\<open>linuxmt/mm.h\<close>, \<^verbatim>\<open>linuxmt/sched.h\<close>,
  \<^verbatim>\<open>linuxmt/fs.h\<close> and the allocator \<^verbatim>\<open>arch/i86/mm/malloc.c\<close>), modelled at the
  interface the spec gives them (section 6): a segment table with reference counts,
  \<open>seg_alloc\<close>, \<open>seg_get\<close> and \<open>seg_put\<close>; the task table with the fields the loader
  reads or writes; inodes with their mode, owner and reference count.

  The segment table is an association list from handles to \<open>segment_s\<close>; a handle
  plays the role of the \<open>segment_s *\<close> pointer. The allocator hands out paragraphs
  from a bump pointer below a limit, which is enough for the loader's contract:
  allocation may fail with no change, succeeds with a fresh handle of reference
  count 1, and \<open>seg_put\<close> of the last reference removes the segment.
\<close>

subsection \<open>Segments and the allocator\<close>

datatype segflag = SEG_FLAG_CSEG | SEG_FLAG_DSEG

record segment_s =
  base :: seg_t
  seg_size :: segext_t
  flags :: segflag
  ref_count :: nat

type_synonym seg_id = nat

record mm_state =
  mm_segs :: "(seg_id \<times> segment_s) list"
  mm_next :: seg_id
  mm_free :: nat
  mm_top :: nat

text \<open>\<open>seg_alloc(paras, flags)\<close>: \<open>None\<close> is the \<open>NULL\<close> return.\<close>

definition seg_alloc :: "segext_t \<Rightarrow> segflag \<Rightarrow> mm_state \<Rightarrow> (seg_id \<times> mm_state) option" where
  "seg_alloc paras fl mm =
     (if mm_free mm + unat paras \<le> mm_top mm then
        Some (mm_next mm,
              mm\<lparr>mm_segs := AList.update (mm_next mm)
                              \<lparr>base = of_nat (mm_free mm), seg_size = paras, flags = fl, ref_count = 1\<rparr>
                              (mm_segs mm),
                 mm_next := Suc (mm_next mm), mm_free := mm_free mm + unat paras\<rparr>)
      else None)"

definition seg_get :: "seg_id \<Rightarrow> mm_state \<Rightarrow> mm_state" where
  "seg_get h mm =
     (case map_of (mm_segs mm) h of
        None \<Rightarrow> mm
      | Some s \<Rightarrow> mm\<lparr>mm_segs := AList.update h (s\<lparr>ref_count := Suc (ref_count s)\<rparr>) (mm_segs mm)\<rparr>)"

definition seg_put :: "seg_id \<Rightarrow> mm_state \<Rightarrow> mm_state" where
  "seg_put h mm =
     (case map_of (mm_segs mm) h of
        None \<Rightarrow> mm
      | Some s \<Rightarrow>
          if ref_count s \<le> 1 then mm\<lparr>mm_segs := AList.delete h (mm_segs mm)\<rparr>
          else mm\<lparr>mm_segs := AList.update h (s\<lparr>ref_count := ref_count s - 1\<rparr>) (mm_segs mm)\<rparr>)"

text \<open>The base paragraph of a live segment (\<open>seg->base\<close>).\<close>

definition seg_base :: "mm_state \<Rightarrow> seg_id \<Rightarrow> seg_t" where
  "seg_base mm h = (case map_of (mm_segs mm) h of Some s \<Rightarrow> base s | None \<Rightarrow> 0)"

text \<open>
  Well-formed segment table: keys are distinct and below the next handle, every
  live segment holds a reference, and the allocation pointer stays in the 16-bit
  paragraph space.
\<close>

definition mm_ok :: "mm_state \<Rightarrow> bool" where
  "mm_ok mm \<longleftrightarrow>
     distinct (map fst (mm_segs mm)) \<and>
     list_all (\<lambda>(h, s). h < mm_next mm \<and> 0 < ref_count s) (mm_segs mm) \<and>
     mm_top mm \<le> 65536"

subsection \<open>Inodes and tasks\<close>

type_synonym inode_id = nat

record inode_s =
  i_mode :: u16
  i_uid :: u16
  i_gid :: u16
  i_count :: nat

definition S_ISUID :: u16 where "S_ISUID = 0x800"
definition S_ISGID :: u16 where "S_ISGID = 0x400"

definition TASK_STOPPED :: nat where "TASK_STOPPED = 4"

definition NSIG :: nat where "NSIG = 32"
definition NR_OPEN :: nat where "NR_OPEN = 20"

datatype sigdisp = SIGDISP_DFL | SIGDISP_IGN | SIGDISP_CUSTOM

text \<open>
  The fields of \<open>struct task_struct\<close> the loader uses. \<open>t_open\<close> is the set of
  open descriptors, \<open>close_on_exec\<close> the \<open>fd_set\<close> of those to close.
\<close>

record task_s =
  t_state :: nat
  t_inode :: "inode_id option"
  mm_seg_code :: "seg_id option"
  mm_seg_data :: "seg_id option"
  t_regs_ds :: seg_t
  t_regs_ss :: seg_t
  t_regs_es :: seg_t
  t_regs_sp :: u16
  t_xregs_cs :: seg_t
  t_xregs_ip :: u16
  t_begstack :: u16
  t_endseg :: u16
  t_enddata :: u16
  t_endbrk :: u16
  t_minstack :: u16
  sig_action :: "sigdisp list"
  sig_handler :: u16
  t_open :: "nat list"
  close_on_exec :: "nat list"
  euid :: u16
  egid :: u16

record kstate =
  ks_mm :: mm_state
  ks_mem :: memory
  ks_tasks :: "task_s list"
  ks_cur :: nat
  ks_inodes :: "inode_id \<Rightarrow> inode_s"

definition current :: "kstate \<Rightarrow> task_s" where
  "current st = ks_tasks st ! ks_cur st"

definition set_current :: "task_s \<Rightarrow> kstate \<Rightarrow> kstate" where
  "set_current t st = st\<lparr>ks_tasks := (ks_tasks st)[ks_cur st := t]\<rparr>"

text \<open>\<open>iput(inode)\<close>: drop one reference.\<close>

definition iput :: "inode_id \<Rightarrow> kstate \<Rightarrow> kstate" where
  "iput i st = st\<lparr>ks_inodes := (ks_inodes st)(i := (ks_inodes st i)\<lparr>i_count := i_count (ks_inodes st i) - 1\<rparr>)\<rparr>"

subsection \<open>Lemmas\<close>

lemma list_all_update:
  "list_all P al \<Longrightarrow> P (k, v) \<Longrightarrow> list_all P (AList.update k v al)"
  by (induction al) auto

lemma list_all_delete: "list_all P al \<Longrightarrow> list_all P (AList.delete k al)"
  by (induction al) auto

lemma seg_alloc_Some:
  "seg_alloc paras fl mm = Some (h, mm') \<Longrightarrow>
     h = mm_next mm \<and> mm_free mm + unat paras \<le> mm_top mm \<and>
     mm_segs mm' = AList.update h \<lparr>base = of_nat (mm_free mm), seg_size = paras, flags = fl, ref_count = 1\<rparr>
                     (mm_segs mm) \<and>
     mm_next mm' = Suc (mm_next mm) \<and> mm_top mm' = mm_top mm"
  by (auto simp: seg_alloc_def split: if_splits)

lemma mm_ok_fresh: "mm_ok mm \<Longrightarrow> mm_next mm \<notin> fst ` set (mm_segs mm)"
  by (auto simp: mm_ok_def list_all_iff)

lemma mm_ok_map_of_fresh: "mm_ok mm \<Longrightarrow> map_of (mm_segs mm) (mm_next mm) = None"
  using mm_ok_fresh by (simp add: map_of_eq_None_iff)

text \<open>Releasing a freshly allocated segment gives back the table as it was.\<close>

lemma seg_put_seg_alloc:
  "mm_ok mm \<Longrightarrow> seg_alloc paras fl mm = Some (h, mm') \<Longrightarrow> mm_segs (seg_put h mm') = mm_segs mm"
  by (auto simp: seg_alloc_def seg_put_def update_conv' delete_update_same mm_ok_fresh split: if_splits)

text \<open>Dropping the reference just taken gives back the table as it was.\<close>

lemma seg_put_seg_get:
  "mm_ok mm \<Longrightarrow> mm_segs (seg_put h (seg_get h mm)) = mm_segs mm"
proof (cases "map_of (mm_segs mm) h")
  case (Some s)
  assume ok: "mm_ok mm"
  have "0 < ref_count s"
    using ok Some by (auto simp: mm_ok_def list_all_iff dest: map_of_SomeD)
  then show ?thesis
    using Some by (simp add: seg_get_def seg_put_def update_conv' update_triv)
qed (simp add: seg_get_def seg_put_def)

lemma seg_alloc_mm_ok:
  assumes "mm_ok mm" and "seg_alloc paras fl mm = Some (h, mm')"
  shows "mm_ok mm'"
proof -
  have "list_all (\<lambda>(h', s). h' < Suc (mm_next mm) \<and> 0 < ref_count s) (mm_segs mm)"
    using assms(1) by (auto simp: mm_ok_def list_all_iff)
  then show ?thesis
    using assms by (auto simp: seg_alloc_def mm_ok_def distinct_update intro!: list_all_update
        split: if_splits)
qed

lemma seg_put_cong: "mm_segs mm = mm_segs mm' \<Longrightarrow> mm_segs (seg_put h mm) = mm_segs (seg_put h mm')"
  by (simp add: seg_put_def split: option.splits)

lemma seg_put_keys: "fst ` set (mm_segs (seg_put h mm)) \<subseteq> fst ` set (mm_segs mm)"
proof (cases "map_of (mm_segs mm) h")
  case (Some s)
  then have "h \<in> fst ` set (mm_segs mm)" using map_of_SomeD [OF Some] by force
  then show ?thesis using Some dom_delete_subset [of h "mm_segs mm"]
    by (auto simp: seg_put_def dom_update)
qed (simp add: seg_put_def)

lemma seg_get_mm_ok: "mm_ok mm \<Longrightarrow> mm_ok (seg_get h mm)"
proof (cases "map_of (mm_segs mm) h")
  case (Some s)
  assume ok: "mm_ok mm"
  have "h < mm_next mm"
    using ok Some by (auto simp: mm_ok_def list_all_iff dest: map_of_SomeD)
  then show ?thesis
    using ok Some by (auto simp: seg_get_def mm_ok_def distinct_update intro!: list_all_update)
qed (simp add: seg_get_def)

lemma seg_put_mm_ok: "mm_ok mm \<Longrightarrow> mm_ok (seg_put h mm)"
proof (cases "map_of (mm_segs mm) h")
  case (Some s)
  assume ok: "mm_ok mm"
  have "h < mm_next mm" using ok Some by (auto simp: mm_ok_def list_all_iff dest: map_of_SomeD)
  then show ?thesis using ok Some
    by (auto simp: seg_put_def mm_ok_def distinct_update distinct_delete intro!: list_all_update list_all_delete)
qed (simp add: seg_put_def)

end
