(* ===== verification/Loader.thy ===== *)
theory Loader
  imports Layout Reloc Kernel
begin

text \<open>
  The segment loader of \<open>sys_execve\<close> (\<^verbatim>\<open>src/elks/fs/exec.c\<close>): the search for a
  resident copy of the text (lines 396--406), the allocation and reading of the code
  segment or the reuse of a resident one (545--610), the allocation and reading of
  the data segment (602--637), and the three relocation streams (639--662).

  Every step is a function of the kernel state that either continues with a value
  and a new state or takes an error exit with its error code and the state at the
  exit. The cleanup code at the labels \<open>error_exec5\<close> (\<open>seg_put(seg_data)\<close>) and
  \<open>error_exec4\<close> (\<open>seg_put(seg_code)\<close>) is \<open>catchK\<close> around the steps that jump
  there, so the nesting of the \<open>catchK\<close>s is the order of the labels. The code's
  \<open>current->t_regs.ds\<close>, set to the segment being read and restored at
  \<open>error_exec3\<close>, only names the target of the reads; the model passes the segment to
  the reads instead.

  \<open>decompress\<close> (compressed executables, \<open>CONFIG_EXEC_COMPRESS\<close>) lives outside
  \<^verbatim>\<open>src/\<close>; it is a parameter \<open>dc\<close> of the loader: \<open>dc seg orig compr m\<close> expands the
  \<open>compr\<close> bytes at \<open>seg:0\<close> and returns the expanded size and the memory.
  \<open>relocate\<close> is the model of \<open>Reloc\<close>; on its error exit the model keeps the memory
  as it was before the call, while the code keeps the words patched so far (they lie
  in the segments the exit releases when the records stay inside them).
\<close>

subsection \<open>Steps with error exits\<close>

type_synonym 'a kres = "(errno \<times> kstate) + ('a \<times> kstate)"

type_synonym decompress_fn = "seg_t \<Rightarrow> size_t \<Rightarrow> size_t \<Rightarrow> memory \<Rightarrow> size_t \<times> memory"

definition returnK :: "'a \<Rightarrow> kstate \<Rightarrow> 'a kres" where
  "returnK a st = Inr (a, st)"

definition failK :: "errno \<Rightarrow> kstate \<Rightarrow> 'a kres" where
  "failK e st = Inl (e, st)"

definition bindK :: "(kstate \<Rightarrow> 'a kres) \<Rightarrow> ('a \<Rightarrow> kstate \<Rightarrow> 'b kres) \<Rightarrow> kstate \<Rightarrow> 'b kres" where
  "bindK m f st = (case m st of Inl x \<Rightarrow> Inl x | Inr (a, st') \<Rightarrow> f a st')"

text \<open>Run \<open>h\<close> on the state of an error exit of \<open>m\<close>: the code under a cleanup label.\<close>

definition catchK :: "(kstate \<Rightarrow> kstate) \<Rightarrow> (kstate \<Rightarrow> 'a kres) \<Rightarrow> kstate \<Rightarrow> 'a kres" where
  "catchK h m st = (case m st of Inl (e, st') \<Rightarrow> Inl (e, h st') | Inr r \<Rightarrow> Inr r)"

definition seg_put_k :: "seg_id \<Rightarrow> kstate \<Rightarrow> kstate" where
  "seg_put_k h st = st\<lparr>ks_mm := seg_put h (ks_mm st)\<rparr>"

text \<open>
  \<open>seg = seg_alloc(paras, fl); if (!seg) goto ...\<close> with \<open>retval = -ENOMEM\<close>; the
  new segment and its \<open>seg->base\<close>.
\<close>

definition seg_alloc_k :: "segext_t \<Rightarrow> segflag \<Rightarrow> kstate \<Rightarrow> (seg_id \<times> seg_t) kres" where
  "seg_alloc_k paras fl st =
     (case seg_alloc paras fl (ks_mm st) of
        None \<Rightarrow> failK ENOMEM st
      | Some (h, mm) \<Rightarrow> returnK (h, seg_base mm h) (st\<lparr>ks_mm := mm\<rparr>))"

text \<open>
  \<open>retval = filp->f_op->read(inode, filp, off, bytes); if (retval != bytes) goto ...\<close>
  into \<open>seg:off\<close>; a short read leaves a non-negative \<open>retval\<close>, reported as
  \<open>-ENOEXEC\<close>.
\<close>

definition read_far_k :: "size_t \<Rightarrow> u16 \<Rightarrow> seg_t \<Rightarrow> file_s \<Rightarrow> kstate \<Rightarrow> file_s kres" where
  "read_far_k bytes off seg f st =
     (let (n, f', m) = file_read_far (unat bytes) off seg f (ks_mem st) in
      if n \<noteq> unat bytes then failK ENOEXEC (st\<lparr>ks_mem := m\<rparr>) else returnK f' (st\<lparr>ks_mem := m\<rparr>))"

text \<open>\<open>if (decompress(0, seg, orig, bytes, 16) != orig) goto ...\<close>.\<close>

definition decompress_k :: "decompress_fn \<Rightarrow> seg_t \<Rightarrow> size_t \<Rightarrow> size_t \<Rightarrow> kstate \<Rightarrow> unit kres" where
  "decompress_k dc seg orig bytes st =
     (let (r, m) = dc seg orig bytes (ks_mem st) in
      if r \<noteq> orig then failK ENOEXEC (st\<lparr>ks_mem := m\<rparr>) else returnK () (st\<lparr>ks_mem := m\<rparr>))"

definition relocate_k ::
  "seg_t \<Rightarrow> u32 \<Rightarrow> seg_t \<Rightarrow> seg_t \<Rightarrow> size_t \<Rightarrow> file_s \<Rightarrow> kstate \<Rightarrow> file_s kres" where
  "relocate_k pb rsize cb db ts f st =
     (case relocate pb rsize cb db ts f (ks_mem st) of
        Inl e \<Rightarrow> failK e st
      | Inr (f', m) \<Rightarrow> returnK f' (st\<lparr>ks_mem := m\<rparr>))"

subsection \<open>Reuse of a resident text\<close>

text \<open>
  Lines 396--406: the first task of the table, in table order, that is not a zombie
  or unused (\<open>state <= TASK_STOPPED\<close>) and runs the same inode; its code segment,
  if it has one.
\<close>

definition exec_find_code :: "inode_id \<Rightarrow> task_s list \<Rightarrow> seg_id option" where
  "exec_find_code ino tasks =
     (case find (\<lambda>t. t_state t \<le> TASK_STOPPED \<and> t_inode t = Some ino) tasks of
        None \<Rightarrow> None
      | Some t \<Rightarrow> mm_seg_code t)"

subsection \<open>The code segment\<close>

text \<open>
  Lines 549--561: the bytes to read for the text and the paragraphs to allocate for
  text and far text.
\<close>

definition exec_code_size :: "config \<Rightarrow> minix_exec_hdr \<Rightarrow> elks_supl_hdr \<Rightarrow> segext_t \<times> size_t" where
  "exec_code_size cfg mh esuph =
     (let bytes = (ucast (tseg mh) :: size_t);
          paras = bytes_to_paras bytes;
          compr = CONFIG_EXEC_COMPRESS cfg \<and> (esh_compr_tseg esuph \<noteq> 0 \<or> esh_compr_ftseg esuph \<noteq> 0);
          bytes = (if compr \<and> esh_compr_tseg esuph \<noteq> 0 then esh_compr_tseg esuph else bytes);
          paras = (if compr then paras + 1 else paras);
          paras = (if CONFIG_EXEC_MMODEL cfg then paras + bytes_to_paras (ucast (esh_ftseg esuph)) else paras)
      in (paras, bytes))"

text \<open>Lines 579--599: the far text, read right after the text paragraphs.\<close>

definition exec_read_ftext ::
  "config \<Rightarrow> decompress_fn \<Rightarrow> minix_exec_hdr \<Rightarrow> elks_supl_hdr \<Rightarrow> seg_t \<Rightarrow> file_s \<Rightarrow> kstate \<Rightarrow>
     file_s kres" where
  "exec_read_ftext cfg dc mh esuph cbase f =
     (let bytes = (ucast (esh_ftseg esuph) :: size_t);
          compr = CONFIG_EXEC_COMPRESS cfg \<and> esh_compr_ftseg esuph \<noteq> 0;
          fbase = cbase + bytes_to_paras (ucast (tseg mh))
      in if bytes = 0 then returnK f
         else
           bindK (read_far_k (if compr then esh_compr_ftseg esuph else bytes) 0 fbase f) (\<lambda>f.
           bindK (if compr then decompress_k dc fbase bytes (esh_compr_ftseg esuph) else returnK ())
             (\<lambda>_. returnK f)))"

text \<open>Lines 566--599: the text, then (medium model) the far text.\<close>

definition exec_read_code ::
  "config \<Rightarrow> decompress_fn \<Rightarrow> minix_exec_hdr \<Rightarrow> elks_supl_hdr \<Rightarrow> seg_t \<Rightarrow> size_t \<Rightarrow> file_s \<Rightarrow>
     kstate \<Rightarrow> file_s kres" where
  "exec_read_code cfg dc mh esuph cbase bytes f =
     bindK (read_far_k bytes 0 cbase f) (\<lambda>f.
     bindK (if CONFIG_EXEC_COMPRESS cfg \<and> esh_compr_tseg esuph \<noteq> 0
            then decompress_k dc cbase (ucast (tseg mh)) bytes else returnK ()) (\<lambda>_.
     if CONFIG_EXEC_MMODEL cfg then exec_read_ftext cfg dc mh esuph cbase f else returnK f))"

text \<open>
  Lines 548--610: a fresh code segment, read and checked, or a new reference to the
  resident one with the file position moved past the text (and far text). The flag
  is \<open>need_reloc_code\<close>.
\<close>

definition exec_get_code ::
  "config \<Rightarrow> decompress_fn \<Rightarrow> minix_exec_hdr \<Rightarrow> elks_supl_hdr \<Rightarrow> seg_id option \<Rightarrow> file_s \<Rightarrow>
     kstate \<Rightarrow> (seg_id \<times> seg_t \<times> bool \<times> file_s) kres" where
  "exec_get_code cfg dc mh esuph reuse f st =
     (case reuse of
        None \<Rightarrow>
          (let (paras, bytes) = exec_code_size cfg mh esuph in
           bindK (seg_alloc_k paras SEG_FLAG_CSEG) (\<lambda>(seg_code, cbase).
             catchK (seg_put_k seg_code)
               (bindK (exec_read_code cfg dc mh esuph cbase bytes f)
                  (\<lambda>f. returnK (seg_code, cbase, True, f)))) st)
      | Some seg_code \<Rightarrow>
          returnK (seg_code, seg_base (ks_mm st) seg_code, False,
                   if CONFIG_EXEC_MMODEL cfg then
                     f\<lparr>f_pos := f_pos f
                        + unat (if esh_compr_tseg esuph \<noteq> 0 then esh_compr_tseg esuph else ucast (tseg mh))
                        + unat (if esh_compr_ftseg esuph \<noteq> 0 then esh_compr_ftseg esuph
                                else ucast (esh_ftseg esuph))\<rparr>
                   else f\<lparr>f_pos := f_pos f + unat (ucast (tseg mh) :: size_t)\<rparr>)
            (st\<lparr>ks_mm := seg_get seg_code (ks_mm st)\<rparr>))"

subsection \<open>The data segment\<close>

text \<open>
  Lines 615--637: the initialized data, read at offset \<open>base_data\<close> of the data
  segment (above the stack when the stack lies below the data).
\<close>

definition exec_read_data ::
  "config \<Rightarrow> decompress_fn \<Rightarrow> minix_exec_hdr \<Rightarrow> elks_supl_hdr \<Rightarrow> seg_t \<Rightarrow> seg_t \<Rightarrow> file_s \<Rightarrow>
     kstate \<Rightarrow> file_s kres" where
  "exec_read_data cfg dc mh esuph base_data dbase f =
     (let compr = CONFIG_EXEC_COMPRESS cfg \<and> esh_compr_dseg esuph \<noteq> 0;
          bytes = (if compr then esh_compr_dseg esuph else ucast (dseg mh))
      in bindK (read_far_k bytes base_data dbase f) (\<lambda>f.
         bindK (if compr then decompress_k dc dbase (ucast (dseg mh)) bytes else returnK ())
           (\<lambda>_. returnK f)))"

subsection \<open>Relocations\<close>

text \<open>
  Lines 639--662: text and far-text relocations when the text was loaded here, or
  the file position moved past them when it is shared; then the data relocations.
  \<open>relocate\<close> takes \<open>mh.tseg\<close> as a \<open>size_t\<close>.
\<close>

definition exec_relocate_all ::
  "config \<Rightarrow> minix_exec_hdr \<Rightarrow> elks_supl_hdr \<Rightarrow> bool \<Rightarrow> seg_t \<Rightarrow> seg_t \<Rightarrow> file_s \<Rightarrow> kstate \<Rightarrow>
     file_s kres" where
  "exec_relocate_all cfg mh esuph need_reloc_code cb db f =
     (if \<not> CONFIG_EXEC_MMODEL cfg then returnK f
      else
        (let ts = (ucast (tseg mh) :: size_t)
         in bindK
              (if need_reloc_code then
                 bindK (relocate_k cb (msh_trsize esuph) cb db ts f)
                   (\<lambda>f. relocate_k (cb + bytes_to_paras ts) (esh_ftrsize esuph) cb db ts f)
               else returnK (f\<lparr>f_pos := f_pos f + unat (msh_trsize esuph) + unat (esh_ftrsize esuph)\<rparr>))
              (\<lambda>f. relocate_k db (msh_drsize esuph) cb db ts f)))"

subsection \<open>The loader\<close>

text \<open>
  Lines 545--662 in order, with the cleanup labels: after the code segment is held,
  every exit releases it (\<open>error_exec4\<close>); after the data segment is allocated, every
  exit releases the data segment first (\<open>error_exec5\<close>). The data segment has
  \<open>len >> 4\<close> paragraphs. The result is the code and data segments and the file.
\<close>

definition exec_load ::
  "config \<Rightarrow> decompress_fn \<Rightarrow> minix_exec_hdr \<Rightarrow> load_plan \<Rightarrow> seg_id option \<Rightarrow> file_s \<Rightarrow> kstate \<Rightarrow>
     (seg_id \<times> seg_id \<times> file_s) kres" where
  "exec_load cfg dc mh p reuse f =
     bindK (exec_get_code cfg dc mh (lp_esuph p) reuse f) (\<lambda>(seg_code, cb, need_reloc_code, f).
       catchK (seg_put_k seg_code)
         (bindK (seg_alloc_k (drop_bit 4 (lp_len p)) SEG_FLAG_DSEG) (\<lambda>(seg_data, db).
            catchK (seg_put_k seg_data)
              (bindK (exec_read_data cfg dc mh (lp_esuph p) (lp_base_data p) db f) (\<lambda>f.
               bindK (exec_relocate_all cfg mh (lp_esuph p) need_reloc_code cb db f) (\<lambda>f.
               returnK (seg_code, seg_data, f)))))))"

subsection \<open>What a step may change\<close>

text \<open>
  \<open>keeps R m\<close>: every exit of \<open>m\<close>, normal or error, relates the state before to the
  state after by \<open>R\<close>. The reads, decompression and relocation only write memory
  (\<open>only_mem\<close>). \<open>rolled_back\<close> is what an error exit of the loader must leave: the
  segment table as it was, and the tasks and inodes untouched.
\<close>

definition keeps :: "(kstate \<Rightarrow> kstate \<Rightarrow> bool) \<Rightarrow> (kstate \<Rightarrow> 'a kres) \<Rightarrow> bool" where
  "keeps R m \<longleftrightarrow> (\<forall>st. case m st of Inl (e, st') \<Rightarrow> R st st' | Inr (a, st') \<Rightarrow> R st st')"

definition only_mem :: "kstate \<Rightarrow> kstate \<Rightarrow> bool" where
  "only_mem st st' \<longleftrightarrow> st' = st\<lparr>ks_mem := ks_mem st'\<rparr>"

definition rolled_back :: "kstate \<Rightarrow> kstate \<Rightarrow> bool" where
  "rolled_back st st' \<longleftrightarrow>
     mm_segs (ks_mm st') = mm_segs (ks_mm st) \<and> ks_tasks st' = ks_tasks st \<and>
     ks_cur st' = ks_cur st \<and> ks_inodes st' = ks_inodes st"

text \<open>
  \<open>mm_pres\<close>: the step keeps the segment table well formed (\<open>mm_ok\<close>). Every step
  of the loader, the allocations and releases included, has it.
\<close>

definition mm_pres :: "kstate \<Rightarrow> kstate \<Rightarrow> bool" where
  "mm_pres st st' \<longleftrightarrow> (mm_ok (ks_mm st) \<longrightarrow> mm_ok (ks_mm st'))"

subsection \<open>A small machine\<close>

text \<open>
  A kernel with one task running inode 7 from a code segment (handle 0) and a data
  segment (handle 1), free memory from paragraph \<open>0x160\<close>, and a 4-byte text, 4-byte
  data image loaded with a 0x2010-byte data segment.
\<close>

definition ex_task :: task_s where
  "ex_task = \<lparr>t_state = 0, t_inode = Some 7, mm_seg_code = Some 0, mm_seg_data = Some 1,
     t_regs_ds = 0x60, t_regs_ss = 0x60, t_regs_es = 0x60, t_regs_sp = 0xFF0, t_xregs_cs = 0x50,
     t_xregs_ip = 0, t_begstack = 0xFF0, t_endseg = 0x1000, t_enddata = 0x800, t_endbrk = 0x800,
     t_minstack = 0x100, sig_action = replicate NSIG SIGDISP_DFL, sig_handler = 0,
     t_open = [0, 1, 2], close_on_exec = [], euid = 0, egid = 0\<rparr>"

definition ex_mm :: mm_state where
  "ex_mm = \<lparr>mm_segs = [(0, \<lparr>base = 0x50, seg_size = 0x10, flags = SEG_FLAG_CSEG, ref_count = 1\<rparr>),
                       (1, \<lparr>base = 0x60, seg_size = 0x100, flags = SEG_FLAG_DSEG, ref_count = 1\<rparr>)],
            mm_next = 2, mm_free = 0x160, mm_top = 0x9000\<rparr>"

definition ex_st :: kstate where
  "ex_st = \<lparr>ks_mm = ex_mm, ks_mem = (\<lambda>_. 0), ks_tasks = [ex_task], ks_cur = 0,
            ks_inodes = (\<lambda>_. \<lparr>i_mode = 0, i_uid = 0, i_gid = 0, i_count = 1\<rparr>)\<rparr>"

definition ex_load_hdr :: minix_exec_hdr where
  "ex_load_hdr = example_hdr\<lparr>tseg := 4, dseg := 4, bseg := 0\<rparr>"

definition ex_plan :: load_plan where
  "ex_plan = \<lparr>lp_esuph = zero_supl, lp_base_data = 0, lp_min_len = 4, lp_len = 0x2010, lp_stack = 0x1000\<rparr>"

definition ex_dc :: decompress_fn where
  "ex_dc seg orig bytes m = (orig, m)"

named_theorems keeps_intros "closure rules for keeps"

subsection \<open>Lemmas\<close>

lemma only_mem_refl [simp]: "only_mem st st"
  by (simp add: only_mem_def)

lemma only_mem_upd [simp]: "only_mem st (st\<lparr>ks_mem := m\<rparr>)"
  by (simp add: only_mem_def)

lemma only_mem_trans: "only_mem a b \<Longrightarrow> only_mem b c \<Longrightarrow> only_mem a c"
  unfolding only_mem_def by (metis kstate.update_convs(2) kstate.surjective)

lemma only_mem_D: "only_mem st st' \<Longrightarrow>
    ks_mm st' = ks_mm st \<and> ks_tasks st' = ks_tasks st \<and> ks_cur st' = ks_cur st \<and> ks_inodes st' = ks_inodes st"
  unfolding only_mem_def by (metis kstate.select_convs(1,3,4,5) kstate.surjective kstate.update_convs(2))

lemma keepsD_Inl: "keeps R m \<Longrightarrow> m st = Inl (e, st') \<Longrightarrow> R st st'"
  unfolding keeps_def by (metis (mono_tags, lifting) case_prod_conv sum.simps(5))

lemma keepsD_Inr: "keeps R m \<Longrightarrow> m st = Inr (a, st') \<Longrightarrow> R st st'"
  unfolding keeps_def by (metis (mono_tags, lifting) case_prod_conv sum.simps(6))

lemma keepsI:
  "(\<And>st e st'. m st = Inl (e, st') \<Longrightarrow> R st st') \<Longrightarrow> (\<And>st a st'. m st = Inr (a, st') \<Longrightarrow> R st st') \<Longrightarrow>
     keeps R m"
  unfolding keeps_def by (auto split: sum.splits)

lemma keeps_returnK [keeps_intros]: "keeps only_mem (returnK a)"
  by (rule keepsI) (auto simp: returnK_def)

lemma keeps_failK [keeps_intros]: "keeps only_mem (failK e)"
  by (rule keepsI) (auto simp: failK_def)

lemma keeps_bindK [keeps_intros]:
  "keeps only_mem m \<Longrightarrow> (\<And>a. keeps only_mem (f a)) \<Longrightarrow> keeps only_mem (bindK m f)"
  by (rule keepsI) (auto simp: bindK_def split: sum.splits
      intro: only_mem_trans dest: keepsD_Inl keepsD_Inr)

lemma keeps_if [keeps_intros]:
  "keeps R a \<Longrightarrow> keeps R b \<Longrightarrow> keeps R (if c then a else b)"
  by simp

lemma keeps_read_far_k [keeps_intros]: "keeps only_mem (read_far_k bytes off seg f)"
  by (rule keepsI) (auto simp: read_far_k_def returnK_def failK_def split: prod.splits if_splits)

lemma keeps_decompress_k [keeps_intros]: "keeps only_mem (decompress_k dc seg orig bytes)"
  by (rule keepsI) (auto simp: decompress_k_def returnK_def failK_def split: prod.splits if_splits)

lemma keeps_relocate_k [keeps_intros]: "keeps only_mem (relocate_k pb rsize cb db ts f)"
  by (rule keepsI) (auto simp: relocate_k_def returnK_def failK_def split: prod.splits sum.splits)

lemma keeps_exec_read_ftext [keeps_intros]: "keeps only_mem (exec_read_ftext cfg dc mh esuph cbase f)"
  unfolding exec_read_ftext_def Let_def by (rule keeps_intros)+

lemma keeps_exec_read_code [keeps_intros]: "keeps only_mem (exec_read_code cfg dc mh esuph cbase bytes f)"
  unfolding exec_read_code_def by (rule keeps_intros)+

lemma keeps_exec_read_data [keeps_intros]: "keeps only_mem (exec_read_data cfg dc mh esuph bd dbase f)"
  unfolding exec_read_data_def Let_def by (rule keeps_intros)+

lemma keeps_exec_relocate_all [keeps_intros]:
  "keeps only_mem (exec_relocate_all cfg mh esuph need cb db f)"
  unfolding exec_relocate_all_def Let_def by (rule keeps_intros)+

lemma rolled_back_trans: "rolled_back a b \<Longrightarrow> rolled_back b c \<Longrightarrow> rolled_back a c"
  by (simp add: rolled_back_def)

lemma rolled_back_seg_put: "rolled_back a b \<Longrightarrow> rolled_back (seg_put_k h a) (seg_put_k h b)"
  unfolding rolled_back_def seg_put_k_def using seg_put_cong [of "ks_mm b" "ks_mm a" h] by simp

text \<open>An allocation whose later steps only write memory, with its release on their error exits.\<close>

lemma alloc_rollback:
  assumes ok: "mm_ok (ks_mm s)"
    and run: "bindK (seg_alloc_k n fl) (\<lambda>(h, b). catchK (seg_put_k h) (M h b)) s = Inl (e, s')"
    and M: "\<And>h b. keeps only_mem (M h b)"
  shows "rolled_back s s'"
proof (cases "seg_alloc n fl (ks_mm s)")
  case None
  then show ?thesis using run by (simp add: bindK_def seg_alloc_k_def failK_def rolled_back_def)
next
  case (Some r)
  obtain h mm where r: "r = (h, mm)" by fastforce
  let ?s1 = "s\<lparr>ks_mm := mm\<rparr>"
  obtain s2 where s2: "M h (seg_base mm h) ?s1 = Inl (e, s2)" and s': "s' = seg_put_k h s2"
    using run Some r by (auto simp: bindK_def seg_alloc_k_def returnK_def catchK_def split: sum.splits)
  have "only_mem ?s1 s2" using keepsD_Inl [OF M s2] .
  then have "ks_mm s2 = mm" and "ks_tasks s2 = ks_tasks s" and "ks_cur s2 = ks_cur s"
    and "ks_inodes s2 = ks_inodes s"
    by (auto dest: only_mem_D)
  moreover have "mm_segs (seg_put h mm) = mm_segs (ks_mm s)"
    using seg_put_seg_alloc [OF ok] Some r by simp
  ultimately show ?thesis using s' by (simp add: seg_put_k_def rolled_back_def)
qed

lemma exec_get_code_Inl:
  assumes ok: "mm_ok (ks_mm st)" and run: "exec_get_code cfg dc mh es reuse f st = Inl (e, st')"
  shows "rolled_back st st'"
proof (cases reuse)
  case None
  obtain paras bytes where cs: "exec_code_size cfg mh es = (paras, bytes)" by fastforce
  have "bindK (seg_alloc_k paras SEG_FLAG_CSEG)
          (\<lambda>(h, b). catchK (seg_put_k h)
             (bindK (exec_read_code cfg dc mh es b bytes f) (\<lambda>f. returnK (h, b, True, f)))) st =
        Inl (e, st')"
    using run None cs by (simp add: exec_get_code_def)
  then show ?thesis by (rule alloc_rollback [OF ok]) (rule keeps_intros)+
next
  case (Some h)
  then show ?thesis using run by (simp add: exec_get_code_def returnK_def)
qed

lemma exec_get_code_Inr:
  assumes ok: "mm_ok (ks_mm st)"
    and run: "exec_get_code cfg dc mh es reuse f st = Inr ((sc, cb, need, f'), st')"
  shows "mm_ok (ks_mm st') \<and> rolled_back st (seg_put_k sc st')"
proof (cases reuse)
  case None
  obtain paras bytes where cs: "exec_code_size cfg mh es = (paras, bytes)" by fastforce
  obtain mm where al: "seg_alloc paras SEG_FLAG_CSEG (ks_mm st) = Some (sc, mm)"
    and rd: "exec_read_code cfg dc mh es (seg_base mm sc) bytes f (st\<lparr>ks_mm := mm\<rparr>) = Inr (f', st')"
    using run None cs
    by (auto simp: exec_get_code_def bindK_def seg_alloc_k_def failK_def returnK_def catchK_def
        split: option.splits sum.splits prod.splits)
  have "only_mem (st\<lparr>ks_mm := mm\<rparr>) st'" by (rule keepsD_Inr [OF keeps_exec_read_code rd])
  then have st': "ks_mm st' = mm \<and> ks_tasks st' = ks_tasks st \<and> ks_cur st' = ks_cur st \<and>
      ks_inodes st' = ks_inodes st"
    by (auto dest: only_mem_D)
  then show ?thesis
    using seg_alloc_mm_ok [OF ok al] seg_put_seg_alloc [OF ok al]
    by (simp add: rolled_back_def seg_put_k_def)
next
  case (Some h)
  then have "sc = h" and "st' = st\<lparr>ks_mm := seg_get h (ks_mm st)\<rparr>"
    using run by (auto simp: exec_get_code_def returnK_def)
  then show ?thesis
    using seg_get_mm_ok [OF ok] seg_put_seg_get [OF ok]
    by (simp add: rolled_back_def seg_put_k_def)
qed

lemma exec_get_code_reuse:
  "\<exists>f1. exec_get_code cfg dc mh es (Some h) f st =
          Inr ((h, seg_base (ks_mm st) h, False, f1), st\<lparr>ks_mm := seg_get h (ks_mm st)\<rparr>)"
  by (simp add: exec_get_code_def returnK_def)

text \<open>The definitions a concrete run of the loader unfolds.\<close>

lemmas loader_eval = exec_load_def exec_get_code_def exec_code_size_def bindK_def catchK_def
  seg_alloc_k_def seg_alloc_def exec_read_code_def read_far_k_def file_read_far_def file_read_def
  returnK_def failK_def exec_read_ftext_def exec_read_data_def exec_relocate_all_def relocate_k_def
  relocate_def relocate_loop.simps zero_supl_def decode_supl_hdr_def le32_at_def le16_at_def
  byte_at_def le32_def le16_def Let_def bytes_to_paras_def seg_put_k_def

lemma ex_mm_ok: "mm_ok (ks_mm ex_st)"
  by (simp add: mm_ok_def ex_st_def ex_mm_def)

lemma ex_load_short:
  "\<exists>st'. exec_load elks_config ex_dc ex_load_hdr ex_plan None
     \<lparr>f_data = [1, 2, 3, 4, 5, 6], f_pos = 0\<rparr> ex_st = Inl (ENOEXEC, st')"
  by (simp add: loader_eval ex_load_hdr_def example_hdr_def ex_st_def ex_mm_def ex_plan_def elks_config_def)

lemma ex_load_ok:
  "\<exists>st'. exec_load elks_config ex_dc ex_load_hdr ex_plan None
     \<lparr>f_data = [1, 2, 3, 4, 5, 6, 7, 8], f_pos = 0\<rparr> ex_st =
       Inr ((2, 3, \<lparr>f_data = [1, 2, 3, 4, 5, 6, 7, 8], f_pos = 8\<rparr>), st')"
  by (simp add: loader_eval ex_load_hdr_def example_hdr_def ex_st_def ex_mm_def ex_plan_def elks_config_def)

lemma exec_load_rolls_back:
  assumes ok: "mm_ok (ks_mm st)" and run: "exec_load cfg dc mh p reuse f st = Inl (e, st')"
  shows "rolled_back st st'"
proof (cases "exec_get_code cfg dc mh (lp_esuph p) reuse f st")
  case (Inl x)
  then show ?thesis using run exec_get_code_Inl [OF ok] by (auto simp: exec_load_def bindK_def)
next
  case (Inr y)
  then obtain sc cb need f1 s1 where
    gc: "exec_get_code cfg dc mh (lp_esuph p) reuse f st = Inr ((sc, cb, need, f1), s1)"
    by (metis prod.collapse)
  note g = exec_get_code_Inr [OF ok gc]
  obtain s2 where rest: "bindK (seg_alloc_k (drop_bit 4 (lp_len p)) SEG_FLAG_DSEG)
        (\<lambda>(h, b). catchK (seg_put_k h)
          (bindK (exec_read_data cfg dc mh (lp_esuph p) (lp_base_data p) b f1) (\<lambda>f.
           bindK (exec_relocate_all cfg mh (lp_esuph p) need cb b f) (\<lambda>f. returnK (sc, h, f))))) s1 =
        Inl (e, s2)" and st': "st' = seg_put_k sc s2"
    using run gc by (auto simp: exec_load_def bindK_def catchK_def split: sum.splits)
  have "rolled_back s1 s2"
    by (rule alloc_rollback [OF conjunct1 [OF g] rest]) (rule keeps_intros)+
  then have "rolled_back (seg_put_k sc s1) st'" unfolding st' by (rule rolled_back_seg_put)
  with conjunct2 [OF g] show ?thesis by (rule rolled_back_trans)
qed

lemma exec_load_Inr:
  assumes ok: "mm_ok (ks_mm st)" and run: "exec_load cfg dc mh p reuse f st = Inr ((sc, sd, f'), st')"
  shows "mm_ok (ks_mm st') \<and> sd \<notin> fst ` set (mm_segs (ks_mm st)) \<and>
         (\<exists>b. map_of (mm_segs (ks_mm st')) sd =
                Some \<lparr>base = b, seg_size = drop_bit 4 (lp_len p), flags = SEG_FLAG_DSEG, ref_count = 1\<rparr>) \<and>
         mm_segs (seg_put sc (seg_put sd (ks_mm st'))) = mm_segs (ks_mm st) \<and>
         ks_tasks st' = ks_tasks st \<and> ks_cur st' = ks_cur st \<and> ks_inodes st' = ks_inodes st"
proof -
  obtain cb need f1 s1 where
    gc: "exec_get_code cfg dc mh (lp_esuph p) reuse f st = Inr ((sc, cb, need, f1), s1)"
    using run by (auto simp: exec_load_def bindK_def catchK_def returnK_def split: sum.splits prod.splits)
  note g = exec_get_code_Inr [OF ok gc]
  obtain mm2 where al: "seg_alloc (drop_bit 4 (lp_len p)) SEG_FLAG_DSEG (ks_mm s1) = Some (sd, mm2)"
    and inner: "bindK (exec_read_data cfg dc mh (lp_esuph p) (lp_base_data p) (seg_base mm2 sd) f1) (\<lambda>f.
           bindK (exec_relocate_all cfg mh (lp_esuph p) need cb (seg_base mm2 sd) f) (\<lambda>f. returnK (sc, sd, f)))
           (s1\<lparr>ks_mm := mm2\<rparr>) = Inr ((sc, sd, f'), st')"
    using run gc
    by (auto simp: exec_load_def bindK_def catchK_def seg_alloc_k_def failK_def returnK_def
        split: sum.splits prod.splits option.splits)
  have K: "keeps only_mem (bindK (exec_read_data cfg dc mh (lp_esuph p) (lp_base_data p) (seg_base mm2 sd) f1)
      (\<lambda>f. bindK (exec_relocate_all cfg mh (lp_esuph p) need cb (seg_base mm2 sd) f) (\<lambda>f. returnK (sc, sd, f))))"
    by (rule keeps_intros)+
  have "only_mem (s1\<lparr>ks_mm := mm2\<rparr>) st'" by (rule keepsD_Inr [OF K inner])
  then have st': "ks_mm st' = mm2 \<and> ks_tasks st' = ks_tasks s1 \<and> ks_cur st' = ks_cur s1 \<and>
      ks_inodes st' = ks_inodes s1"
    by (auto dest: only_mem_D)
  have ok1: "mm_ok (ks_mm s1)" using g by simp
  have sd: "sd = mm_next (ks_mm s1)" using seg_alloc_Some [OF al] by simp
  have restored1: "mm_segs (seg_put sc (ks_mm s1)) = mm_segs (ks_mm st)"
    using g by (simp add: rolled_back_def seg_put_k_def)
  have fresh: "sd \<notin> fst ` set (mm_segs (ks_mm st))"
    using seg_put_keys [of sc "ks_mm s1"] restored1 mm_ok_fresh [OF ok1] sd by auto
  have put: "mm_segs (seg_put sd mm2) = mm_segs (ks_mm s1)" by (rule seg_put_seg_alloc [OF ok1 al])
  have restore: "mm_segs (seg_put sc (seg_put sd mm2)) = mm_segs (ks_mm st)"
    using seg_put_cong [OF put, of sc] restored1 by simp
  have dm: "map_of (mm_segs mm2) sd =
      Some \<lparr>base = of_nat (mm_free (ks_mm s1)), seg_size = drop_bit 4 (lp_len p), flags = SEG_FLAG_DSEG,
            ref_count = 1\<rparr>"
    using seg_alloc_Some [OF al] by (simp add: update_conv')
  show ?thesis
    using st' g seg_alloc_mm_ok [OF ok1 al] fresh dm restore
    by (auto simp: rolled_back_def seg_put_k_def)
qed

subsection \<open>The segment table stays well formed\<close>

lemma mm_pres_trans: "mm_pres a b \<Longrightarrow> mm_pres b c \<Longrightarrow> mm_pres a c"
  by (simp add: mm_pres_def)

lemma keeps_pres_only_mem:
  assumes K: "keeps only_mem m" shows "keeps mm_pres m"
proof (rule keepsI)
  show "m st = Inl (e, st') \<Longrightarrow> mm_pres st st'" for st e st'
    using only_mem_D [OF keepsD_Inl [OF K]] by (simp add: mm_pres_def)
  show "m st = Inr (a, st') \<Longrightarrow> mm_pres st st'" for st a st'
    using only_mem_D [OF keepsD_Inr [OF K]] by (simp add: mm_pres_def)
qed

lemma keeps_pres_bindK:
  assumes M: "keeps mm_pres m" and F: "\<And>a. keeps mm_pres (f a)"
  shows "keeps mm_pres (bindK m f)"
proof (rule keepsI)
  show "bindK m f st = Inl (e, st') \<Longrightarrow> mm_pres st st'" for st e st'
  proof (cases "m st")
    case (Inr r)
    obtain a s1 where r: "m st = Inr (a, s1)" using Inr by (cases r) auto
    assume "bindK m f st = Inl (e, st')"
    then have "f a s1 = Inl (e, st')" using r by (simp add: bindK_def)
    then show ?thesis using keepsD_Inr [OF M r] keepsD_Inl [OF F] by (blast intro: mm_pres_trans)
  qed (auto simp: bindK_def intro: keepsD_Inl [OF M])
  show "bindK m f st = Inr (b, st') \<Longrightarrow> mm_pres st st'" for st b st'
  proof (cases "m st")
    case (Inr r)
    obtain a s1 where r: "m st = Inr (a, s1)" using Inr by (cases r) auto
    assume "bindK m f st = Inr (b, st')"
    then have "f a s1 = Inr (b, st')" using r by (simp add: bindK_def)
    then show ?thesis using keepsD_Inr [OF M r] keepsD_Inr [OF F] by (blast intro: mm_pres_trans)
  qed (auto simp: bindK_def)
qed

lemma keeps_pres_catchK:
  assumes M: "keeps mm_pres m" shows "keeps mm_pres (catchK (seg_put_k h) m)"
proof (rule keepsI)
  show "catchK (seg_put_k h) m st = Inl (e, st') \<Longrightarrow> mm_pres st st'" for st e st'
    using keepsD_Inl [OF M]
    by (auto simp: catchK_def mm_pres_def seg_put_k_def seg_put_mm_ok split: sum.splits)
  show "catchK (seg_put_k h) m st = Inr (a, st') \<Longrightarrow> mm_pres st st'" for st a st'
    using keepsD_Inr [OF M] by (auto simp: catchK_def split: sum.splits)
qed

lemma keeps_pres_seg_alloc_k: "keeps mm_pres (seg_alloc_k n fl)"
  by (rule keepsI) (auto simp: seg_alloc_k_def failK_def returnK_def mm_pres_def
      split: option.splits intro: seg_alloc_mm_ok)

lemma keeps_case_prod: "(\<And>a b. keeps R (g a b)) \<Longrightarrow> keeps R (case x of (a, b) \<Rightarrow> g a b)"
  by (cases x) simp

lemmas mm_pres_intros = keeps_pres_bindK keeps_pres_catchK keeps_pres_seg_alloc_k keeps_case_prod

lemma keeps_pres_exec_get_code: "keeps mm_pres (exec_get_code cfg dc mh es reuse f)"
proof (rule keepsI)
  have K: "\<And>paras bytes. keeps mm_pres (bindK (seg_alloc_k paras SEG_FLAG_CSEG) (\<lambda>(seg_code, cbase).
             catchK (seg_put_k seg_code)
               (bindK (exec_read_code cfg dc mh es cbase bytes f)
                  (\<lambda>f. returnK (seg_code, cbase, True, f)))))"
    by (rule mm_pres_intros keeps_pres_only_mem keeps_intros)+
  have G: "\<And>st. mm_pres st (st\<lparr>ks_mm := seg_get h (ks_mm st)\<rparr>)" for h
    by (simp add: mm_pres_def seg_get_mm_ok)
  show "exec_get_code cfg dc mh es reuse f st = Inl (e, st') \<Longrightarrow> mm_pres st st'" for st e st'
    using K by (auto simp: exec_get_code_def returnK_def split: option.splits prod.splits dest: keepsD_Inl)
  show "exec_get_code cfg dc mh es reuse f st = Inr (a, st') \<Longrightarrow> mm_pres st st'" for st a st'
    using K G by (auto simp: exec_get_code_def returnK_def split: option.splits prod.splits dest: keepsD_Inr)
qed

lemma keeps_pres_exec_load: "keeps mm_pres (exec_load cfg dc mh p reuse f)"
  unfolding exec_load_def
  by (rule mm_pres_intros keeps_pres_exec_get_code keeps_pres_only_mem keeps_intros)+

subsection \<open>Properties of the loader\<close>

text \<open>
  C18. Atomicity of a failed load: whatever step of the loader fails (allocation,
  short read, decompression, relocation), the exit leaves the segment table exactly
  as it was (every segment allocated is released, a reference taken on a resident
  text is dropped) and the tasks and inodes unchanged.
\<close>

theorem exec_load_rollback:
  assumes ok: "mm_ok (ks_mm st)" and run: "exec_load cfg dc mh p reuse f st = Inl (e, st')"
  shows "rolled_back st st'"
  using exec_load_rolls_back [OF ok run] .

text \<open>
  The spec's scenario: the code segment is freshly allocated and read, then the data
  read comes up short; the load fails with \<open>ENOEXEC\<close> and both segments are gone.
\<close>

theorem exec_load_rollback_witness:
  "\<exists>st'. exec_load elks_config ex_dc ex_load_hdr ex_plan None
          \<lparr>f_data = [1, 2, 3, 4, 5, 6], f_pos = 0\<rparr> ex_st = Inl (ENOEXEC, st') \<and>
        rolled_back ex_st st'"
proof -
  obtain st' where r: "exec_load elks_config ex_dc ex_load_hdr ex_plan None
      \<lparr>f_data = [1, 2, 3, 4, 5, 6], f_pos = 0\<rparr> ex_st = Inl (ENOEXEC, st')"
    using ex_load_short by blast
  show ?thesis using exec_load_rollback [OF ex_mm_ok r] r by blast
qed

text \<open>
  C19. A successful load holds exactly one new segment, the data segment: it is
  fresh, has \<open>len >> 4\<close> paragraphs, the data flag and one reference; releasing it
  and the code segment's reference gives back the segment table as it was. Tasks and
  inodes are not touched before the commit.
\<close>

theorem exec_load_success:
  assumes ok: "mm_ok (ks_mm st)" and run: "exec_load cfg dc mh p reuse f st = Inr ((sc, sd, f'), st')"
  shows "mm_ok (ks_mm st') \<and> sd \<notin> fst ` set (mm_segs (ks_mm st)) \<and>
         (\<exists>b. map_of (mm_segs (ks_mm st')) sd =
                Some \<lparr>base = b, seg_size = drop_bit 4 (lp_len p), flags = SEG_FLAG_DSEG, ref_count = 1\<rparr>) \<and>
         mm_segs (seg_put sc (seg_put sd (ks_mm st'))) = mm_segs (ks_mm st) \<and>
         ks_tasks st' = ks_tasks st \<and> ks_cur st' = ks_cur st \<and> ks_inodes st' = ks_inodes st"
  using exec_load_Inr [OF ok run] .

theorem exec_load_success_witness:
  "\<exists>st'. exec_load elks_config ex_dc ex_load_hdr ex_plan None
          \<lparr>f_data = [1, 2, 3, 4, 5, 6, 7, 8], f_pos = 0\<rparr> ex_st =
            Inr ((2, 3, \<lparr>f_data = [1, 2, 3, 4, 5, 6, 7, 8], f_pos = 8\<rparr>), st') \<and>
        mm_segs (seg_put 2 (seg_put 3 (ks_mm st'))) = mm_segs (ks_mm ex_st) \<and>
        ks_tasks st' = ks_tasks ex_st"
proof -
  obtain st' where r: "exec_load elks_config ex_dc ex_load_hdr ex_plan None
      \<lparr>f_data = [1, 2, 3, 4, 5, 6, 7, 8], f_pos = 0\<rparr> ex_st =
        Inr ((2, 3, \<lparr>f_data = [1, 2, 3, 4, 5, 6, 7, 8], f_pos = 8\<rparr>), st')"
    using ex_load_ok by blast
  show ?thesis using exec_load_success [OF ex_mm_ok r] r by blast
qed

text \<open>
  C20. Reuse of a resident text: when the task-table search finds a live code
  segment, the load shares it instead of loading a copy, and the segment holds one
  more reference afterwards (two processes running the image share one code segment
  with reference count 2).
\<close>

theorem exec_load_reuse_shares:
  assumes ok: "mm_ok (ks_mm st)" and live: "map_of (mm_segs (ks_mm st)) h = Some s"
    and run: "exec_load cfg dc mh p (Some h) f st = Inr ((sc, sd, f'), st')"
  shows "sc = h \<and> map_of (mm_segs (ks_mm st')) h = Some (s\<lparr>ref_count := Suc (ref_count s)\<rparr>)"
proof -
  let ?s1 = "st\<lparr>ks_mm := seg_get h (ks_mm st)\<rparr>"
  obtain f1 where gc: "exec_get_code cfg dc mh (lp_esuph p) (Some h) f st =
      Inr ((h, seg_base (ks_mm st) h, False, f1), ?s1)"
    using exec_get_code_reuse by blast
  have sc: "sc = h"
    using run gc by (auto simp: exec_load_def bindK_def catchK_def returnK_def split: sum.splits prod.splits)
  obtain mm2 where al: "seg_alloc (drop_bit 4 (lp_len p)) SEG_FLAG_DSEG (seg_get h (ks_mm st)) = Some (sd, mm2)"
    and inner: "bindK (exec_read_data cfg dc mh (lp_esuph p) (lp_base_data p) (seg_base mm2 sd) f1)
           (\<lambda>f. bindK (exec_relocate_all cfg mh (lp_esuph p) False (seg_base (ks_mm st) h) (seg_base mm2 sd) f)
              (\<lambda>f. returnK (h, sd, f))) (?s1\<lparr>ks_mm := mm2\<rparr>) = Inr ((sc, sd, f'), st')"
    using run gc
    by (auto simp: exec_load_def bindK_def catchK_def seg_alloc_k_def failK_def returnK_def
        split: sum.splits prod.splits option.splits)
  have K: "keeps only_mem (bindK (exec_read_data cfg dc mh (lp_esuph p) (lp_base_data p) (seg_base mm2 sd) f1)
           (\<lambda>f. bindK (exec_relocate_all cfg mh (lp_esuph p) False (seg_base (ks_mm st) h) (seg_base mm2 sd) f)
              (\<lambda>f. returnK (h, sd, f))))"
    by (rule keeps_intros)+
  have "ks_mm st' = mm2" using only_mem_D [OF keepsD_Inr [OF K inner]] by simp
  moreover have "sd \<noteq> h"
  proof -
    have "sd = mm_next (seg_get h (ks_mm st))" using seg_alloc_Some [OF al] by simp
    also have "\<dots> = mm_next (ks_mm st)" by (simp add: seg_get_def split: option.splits)
    finally show ?thesis using mm_ok_fresh [OF ok] map_of_SomeD [OF live] by force
  qed
  moreover have "map_of (mm_segs (seg_get h (ks_mm st))) h = Some (s\<lparr>ref_count := Suc (ref_count s)\<rparr>)"
    using live by (simp add: seg_get_def update_conv')
  ultimately show ?thesis
    using sc seg_alloc_Some [OF al] by (simp add: update_conv')
qed

text \<open>
  In the small machine, the task running inode 7 is found by the search, and a
  second load of the image shares its code segment (handle 0), whose reference count
  goes from 1 to 2.
\<close>

theorem exec_load_reuse_shares_witness:
  "exec_find_code 7 (ks_tasks ex_st) = Some 0 \<and>
   (\<exists>st'. exec_load elks_config ex_dc ex_load_hdr ex_plan (Some 0)
            \<lparr>f_data = [1, 2, 3, 4, 5, 6, 7, 8], f_pos = 0\<rparr> ex_st =
              Inr ((0, 2, \<lparr>f_data = [1, 2, 3, 4, 5, 6, 7, 8], f_pos = 8\<rparr>), st') \<and>
          map_of (mm_segs (ks_mm st')) 0 =
            Some \<lparr>base = 0x50, seg_size = 0x10, flags = SEG_FLAG_CSEG, ref_count = 2\<rparr>)"
proof -
  have fc: "exec_find_code 7 (ks_tasks ex_st) = Some 0"
    by (simp add: exec_find_code_def ex_st_def ex_task_def TASK_STOPPED_def)
  have live: "map_of (mm_segs (ks_mm ex_st)) 0 =
      Some \<lparr>base = 0x50, seg_size = 0x10, flags = SEG_FLAG_CSEG, ref_count = 1\<rparr>"
    by (simp add: ex_st_def ex_mm_def)
  obtain st' where r: "exec_load elks_config ex_dc ex_load_hdr ex_plan (Some 0)
      \<lparr>f_data = [1, 2, 3, 4, 5, 6, 7, 8], f_pos = 0\<rparr> ex_st =
        Inr ((0, 2, \<lparr>f_data = [1, 2, 3, 4, 5, 6, 7, 8], f_pos = 8\<rparr>), st')"
    by (simp add: loader_eval seg_get_def seg_base_def ex_load_hdr_def example_hdr_def ex_st_def ex_mm_def
        ex_plan_def elks_config_def)
  show ?thesis using exec_load_reuse_shares [OF ex_mm_ok live r] r fc by simp
qed

end
