(* ===== verification/Finalize.thy ===== *)
theory Finalize
  imports Loader
begin

text \<open>
  The commit of \<open>sys_execve\<close> (\<^verbatim>\<open>src/elks/fs/exec.c\<close>, lines 664--697) and
  \<open>finalize_exec\<close> (lines 715--787): after the last fallible step, the BSS is
  cleared, the break and stack boundaries recorded, the argument block copied below
  the top of the data segment, the old segments released and the new ones installed,
  the \<open>argv\<close>/\<open>envp\<close> offsets of the copied block rebased, the signal dispositions
  reset, the close-on-exec descriptors closed, the inode reference moved to the task,
  the set-user/group-ID bits applied and the return to \<open>cs:entry\<close> arranged.

  \<open>get_ustack\<close>/\<open>put_ustack\<close> (a word at \<open>ss:(sp + off)\<close> of the task),
  \<open>sys_close\<close> (the descriptor leaves the open and close-on-exec sets) and
  \<open>arch_setup_user_stack\<close> (the task resumes at \<open>entry\<close> in its code segment) are
  collaborators outside \<^verbatim>\<open>src/\<close>, modelled at that interface. The console line
  \<open>printk("ENTRY ...")\<close> is not part of the state.

  The \<open>argv\<close>/\<open>envp\<close> loop (lines 740--747) runs until it has seen two zero words;
  on a block without them it does not stop, so it is a \<open>partial_function\<close> in the
  option monad and the lemmas prove that it returns on every well-formed block.
\<close>

subsection \<open>Collaborators\<close>

definition get_ustack :: "task_s \<Rightarrow> u16 \<Rightarrow> memory \<Rightarrow> u16" where
  "get_ustack t off m = peekw (t_regs_sp t + off) (t_regs_ss t) m"

definition put_ustack :: "task_s \<Rightarrow> u16 \<Rightarrow> u16 \<Rightarrow> memory \<Rightarrow> memory" where
  "put_ustack t off v m = pokew (t_regs_sp t + off) (t_regs_ss t) v m"

definition sys_close :: "nat \<Rightarrow> task_s \<Rightarrow> task_s" where
  "sys_close fd t = t\<lparr>t_open := removeAll fd (t_open t), close_on_exec := removeAll fd (close_on_exec t)\<rparr>"

definition arch_setup_user_stack :: "task_s \<Rightarrow> u16 \<Rightarrow> task_s" where
  "arch_setup_user_stack t entry_ip = t\<lparr>t_xregs_ip := entry_ip\<rparr>"

subsection \<open>finalize_exec\<close>

text \<open>
  Lines 736--747: starting after \<open>argc\<close>, every non-zero word of the block becomes
  \<open>t_begstack + v\<close>; the loop ends at the second zero word.
\<close>

partial_function (option) exec_fixup_args :: "task_s \<Rightarrow> u16 \<Rightarrow> nat \<Rightarrow> memory \<Rightarrow> memory option" where
  "exec_fixup_args t i n m =
     (let i = i + 2; v = get_ustack t i m;
          (m, n) = (if v \<noteq> 0 then (put_ustack t i (t_begstack t + v) m, n) else (m, Suc n))
      in if n < 2 then exec_fixup_args t i n m else Some m)"

text \<open>Lines 722--723: \<open>seg_put\<close> of the old code and data segments.\<close>

definition exec_release_old :: "task_s \<Rightarrow> mm_state \<Rightarrow> mm_state" where
  "exec_release_old t mm =
     (let mm = (case mm_seg_code t of Some h \<Rightarrow> seg_put h mm | None \<Rightarrow> mm)
      in case mm_seg_data t of Some h \<Rightarrow> seg_put h mm | None \<Rightarrow> mm)"

text \<open>Lines 764--769: close every descriptor below \<open>NR_OPEN\<close> marked close-on-exec.\<close>

definition exec_close_on_exec :: "task_s \<Rightarrow> task_s" where
  "exec_close_on_exec t =
     fold (\<lambda>i t. if i \<in> set (close_on_exec t) then sys_close i t else t) [0..<NR_OPEN] t"

text \<open>
  Lines 715--787. The new segments' bases are read from their descriptors after the
  old ones are released; \<open>None\<close> is the fixup loop not returning.
\<close>

definition finalize_exec :: "inode_id \<Rightarrow> seg_id \<Rightarrow> seg_id \<Rightarrow> u16 \<Rightarrow> kstate \<Rightarrow> kstate option" where
  "finalize_exec inode seg_code seg_data entry_ip st =
     (let t = current st;
          mm = exec_release_old t (ks_mm st);
          t = t\<lparr>mm_seg_code := Some seg_code, t_xregs_cs := seg_base mm seg_code,
                mm_seg_data := Some seg_data, t_regs_ss := seg_base mm seg_data,
                t_regs_es := seg_base mm seg_data, t_regs_sp := t_begstack t,
                t_endbrk := t_enddata t\<rparr>;
          t = (if t_endbrk t AND 1 \<noteq> 0 then t\<lparr>t_endbrk := t_endbrk t + 1\<rparr> else t)
      in case exec_fixup_args t 0 0 (ks_mem st) of
           None \<Rightarrow> None
         | Some m \<Rightarrow>
             (let t = t\<lparr>sig_action := replicate NSIG SIGDISP_DFL, sig_handler := 0\<rparr>;
                  t = exec_close_on_exec t;
                  st = (case t_inode t of Some i \<Rightarrow> iput i st | None \<Rightarrow> st);
                  t = t\<lparr>t_inode := Some inode\<rparr>;
                  ino = ks_inodes st inode;
                  t = (if i_mode ino AND S_ISUID \<noteq> 0 then t\<lparr>euid := i_uid ino\<rparr> else t);
                  t = (if i_mode ino AND S_ISGID \<noteq> 0 then t\<lparr>egid := i_gid ino\<rparr> else t);
                  t = arch_setup_user_stack t entry_ip
              in Some (set_current t (st\<lparr>ks_mm := mm, ks_mem := m\<rparr>))))"

subsection \<open>The commit\<close>

text \<open>
  Lines 664--697: clear the BSS after the data, record \<open>t_endseg\<close> and
  \<open>t_enddata\<close>, place the argument block (\<open>slen\<close> bytes from the caller's
  \<open>ds:sptr\<close>) at an even address below the top of the data segment (below
  \<open>base_data\<close> when the stack lies below the data), record the minimum stack, then
  \<open>finalize_exec\<close>. The task's \<open>ds\<close> holds the data segment since the data read
  (line 622).
\<close>

definition exec_commit ::
  "config \<Rightarrow> minix_exec_hdr \<Rightarrow> load_plan \<Rightarrow> u16 \<Rightarrow> size_t \<Rightarrow> seg_t \<Rightarrow> inode_id \<Rightarrow> seg_id \<Rightarrow>
     seg_id \<Rightarrow> kstate \<Rightarrow> kstate option" where
  "exec_commit cfg mh p sptr slen ds inode seg_code seg_data st =
     (let db = seg_base (ks_mm st) seg_data;
          base_data = lp_base_data p;
          d = (ucast (dseg mh) :: size_t);
          b = (ucast (bseg mh) :: size_t);
          m = fmemsetb (d + base_data) db 0 (unat b) (ks_mem st);
          t = current st;
          t = t\<lparr>t_endseg := lp_len p, t_enddata := d + b + base_data\<rparr>;
          top = (if CONFIG_EXEC_LOW_STACK cfg \<and> base_data \<noteq> 0 then base_data else t_endseg t);
          t = t\<lparr>t_begstack := (top - slen) AND NOT 1\<rparr>;
          m = fmemcpyb (t_begstack t) db sptr ds (unat slen) m;
          t = t\<lparr>t_minstack := lp_stack p, t_regs_ds := db\<rparr>
      in finalize_exec inode seg_code seg_data (ucast (entry mh)) (set_current t (st\<lparr>ks_mem := m\<rparr>)))"

subsection \<open>Argument blocks\<close>

text \<open>
  The words \<open>ws\<close> at offsets \<open>off + j\<close>, \<open>off + j + 2\<close>, \<dots> of a segment; the bytes
  they occupy; the block after the rebasing the spec asks for; a well-formed block
  (two zero-terminated arrays: exactly two zero words, the last one zero).
\<close>

primrec words_at :: "u16 \<Rightarrow> seg_t \<Rightarrow> nat \<Rightarrow> u16 list \<Rightarrow> memory \<Rightarrow> bool" where
  "words_at off seg j [] m = True"
| "words_at off seg j (w # ws) m = (peekw (off + of_nat j) seg m = w \<and> words_at off seg (j + 2) ws m)"

primrec words_region :: "u16 \<Rightarrow> seg_t \<Rightarrow> nat \<Rightarrow> nat \<Rightarrow> addr set" where
  "words_region off seg j 0 = {}"
| "words_region off seg j (Suc k) = word_addrs (off + of_nat j) seg \<union> words_region off seg (j + 2) k"

definition rebase_args :: "u16 \<Rightarrow> u16 list \<Rightarrow> u16 list" where
  "rebase_args b ws = map (\<lambda>v. if v = 0 then 0 else b + v) ws"

definition args_ok :: "u16 list \<Rightarrow> bool" where
  "args_ok ws \<longleftrightarrow> length (filter (\<lambda>v. v = 0) ws) = 2 \<and> ws \<noteq> [] \<and> last ws = 0"

primrec store_words :: "u16 \<Rightarrow> seg_t \<Rightarrow> nat \<Rightarrow> u16 list \<Rightarrow> memory \<Rightarrow> memory" where
  "store_words off seg j [] m = m"
| "store_words off seg j (w # ws) m = store_words off seg (j + 2) ws (pokew (off + of_nat j) seg w m)"

text \<open>
  A task whose argument block sits at \<open>0x800:0x100\<close> with \<open>argc = 3\<close>, \<open>argv\<close> offsets
  \<open>0x10, 0x14\<close>, and one \<open>envp\<close> offset \<open>0x20\<close>.
\<close>

definition ex_fix_task :: task_s where
  "ex_fix_task = \<lparr>t_state = 0, t_inode = Some 7, mm_seg_code = Some 2, mm_seg_data = Some 3,
     t_regs_ds = 0x800, t_regs_ss = 0x800, t_regs_es = 0x800, t_regs_sp = 0x100, t_xregs_cs = 0x700,
     t_xregs_ip = 0, t_begstack = 0x100, t_endseg = 0x200, t_enddata = 0x20, t_endbrk = 0x20,
     t_minstack = 0x80, sig_action = replicate NSIG SIGDISP_DFL, sig_handler = 0,
     t_open = [0, 1, 2], close_on_exec = [], euid = 0, egid = 0\<rparr>"

definition ex_args_mem :: memory where
  "ex_args_mem = store_words 0x100 0x800 0 [3, 0x10, 0x14, 0, 0x20, 0] (\<lambda>_. 0)"

text \<open>
  The same block seen from \<open>finalize_exec\<close>: the running task (old segments 0 and 1)
  execs an image loaded into code segment 2 (\<open>0x700\<close>) and data segment 3
  (\<open>0x800\<close>), whose inode 9 is set-user-ID with owner 5.
\<close>

definition ex_fin_st :: kstate where
  "ex_fin_st =
     \<lparr>ks_mm = \<lparr>mm_segs = [(0, \<lparr>base = 0x50, seg_size = 0x10, flags = SEG_FLAG_CSEG, ref_count = 1\<rparr>),
                          (1, \<lparr>base = 0x60, seg_size = 0x100, flags = SEG_FLAG_DSEG, ref_count = 1\<rparr>),
                          (2, \<lparr>base = 0x700, seg_size = 1, flags = SEG_FLAG_CSEG, ref_count = 1\<rparr>),
                          (3, \<lparr>base = 0x800, seg_size = 0x20, flags = SEG_FLAG_DSEG, ref_count = 1\<rparr>)],
               mm_next = 4, mm_free = 0x820, mm_top = 0x9000\<rparr>,
      ks_mem = ex_args_mem,
      ks_tasks = [ex_task\<lparr>t_begstack := 0x100, t_enddata := 0x21, close_on_exec := [2]\<rparr>],
      ks_cur = 0,
      ks_inodes = (\<lambda>i. \<lparr>i_mode = (if i = 9 then 0x800 else 0), i_uid = (if i = 9 then 5 else 0), i_gid = 0,
                         i_count = 1\<rparr>)\<rparr>"

subsection \<open>Lemmas\<close>

lemma of_nat_u16_eq:
  "x < 65536 \<Longrightarrow> y < 65536 \<Longrightarrow> (of_nat x :: u16) = of_nat y \<longleftrightarrow> x = y"
  by (simp add: word_unat_eq_iff unat_of_nat)

lemma word_addrs_of_nat_disjoint:
  fixes off :: u16
  assumes "a + 2 \<le> b" and "b + 1 < 65536"
  shows "word_addrs (off + of_nat a) seg \<inter> word_addrs (off + of_nat b) seg = {}"
proof -
  have s: "\<And>x. off + of_nat x + 1 = off + of_nat (Suc x)" by simp
  have "of_nat a \<noteq> (of_nat b :: u16)" "of_nat (Suc a) \<noteq> (of_nat b :: u16)"
       "of_nat a \<noteq> (of_nat (Suc b) :: u16)" "of_nat (Suc a) \<noteq> (of_nat (Suc b) :: u16)"
    using assms by (simp_all add: of_nat_u16_eq del: of_nat_Suc)
  then show ?thesis by (auto simp: word_addrs_def s simp del: of_nat_Suc)
qed


lemma words_at_pokew_before:
  "p + 2 \<le> j \<Longrightarrow> j + 2 * length ws < 65536 \<Longrightarrow>
     words_at off seg j ws (pokew (off + of_nat p) seg v m) = words_at off seg j ws m"
proof (induction ws arbitrary: j)
  case (Cons w ws)
  have "word_addrs (off + of_nat j) seg \<inter> word_addrs (off + of_nat p) seg = {}"
    using word_addrs_of_nat_disjoint [of p j off seg] Cons.prems by (simp add: Int_commute)
  then show ?case using Cons by (simp add: peekw_pokew_other)
qed simp

lemma word_addrs_region_disjoint:
  "p + 2 \<le> j \<Longrightarrow> j + 2 * k < 65536 \<Longrightarrow> word_addrs (off + of_nat p) seg \<inter> words_region off seg j k = {}"
proof (induction k arbitrary: j)
  case (Suc k)
  have a: "word_addrs (off + of_nat p) seg \<inter> words_region off seg (j + 2) k = {}"
    using Suc.prems by (intro Suc.IH) simp_all
  have b: "word_addrs (off + of_nat p) seg \<inter> word_addrs (off + of_nat j) seg = {}"
    using Suc.prems by (intro word_addrs_of_nat_disjoint) simp_all
  show ?case using a b by auto
qed simp

lemma exec_fixup_args_step:
  "exec_fixup_args t (of_nat j) n m =
     (let v = peekw (t_regs_sp t + of_nat (j + 2)) (t_regs_ss t) m in
      if v \<noteq> 0 then
        (if n < 2 then exec_fixup_args t (of_nat (j + 2))  n
                         (pokew (t_regs_sp t + of_nat (j + 2)) (t_regs_ss t) (t_begstack t + v) m)
         else Some (pokew (t_regs_sp t + of_nat (j + 2)) (t_regs_ss t) (t_begstack t + v) m))
      else if Suc n < 2 then exec_fixup_args t (of_nat (j + 2)) (Suc n) m else Some m)"
  apply (subst exec_fixup_args.simps)
  apply (simp only: Let_def get_ustack_def put_ustack_def of_nat_add of_nat_numeral)
  apply (simp split: if_split)
  done

lemma exec_fixup_args_gen:
  assumes "n < 2" and "length (filter (\<lambda>v. v = 0) ws) + n = 2" and "ws \<noteq> []" and "last ws = 0"
    and "j + 2 + 2 * length ws < 65536" and "words_at (t_regs_sp t) (t_regs_ss t) (j + 2) ws m"
  shows "\<exists>m'. exec_fixup_args t (of_nat j) n m = Some m' \<and>
            words_at (t_regs_sp t) (t_regs_ss t) (j + 2) (rebase_args (t_begstack t) ws) m' \<and>
            (\<forall>a. a \<notin> words_region (t_regs_sp t) (t_regs_ss t) (j + 2) (length ws) \<longrightarrow> m' a = m a)"
  using assms
proof (induction ws arbitrary: j n m)
  case Nil
  then show ?case by simp
next
  case (Cons w ws)
  let ?sp = "t_regs_sp t" and ?ss = "t_regs_ss t" and ?b = "t_begstack t"
  have w: "peekw (?sp + of_nat (j + 2)) ?ss m = w" and rest: "words_at ?sp ?ss (j + 2 + 2) ws m"
    using Cons.prems(6) by simp_all
  have dis: "word_addrs (?sp + of_nat (j + 2)) ?ss \<inter> words_region ?sp ?ss (j + 2 + 2) (length ws) = {}"
    by (rule word_addrs_region_disjoint) (use Cons.prems(5) in simp_all)
  show ?case
  proof (cases "w = 0")
    case True
    show ?thesis
    proof (cases "n = 0")
      case n0: True
      have ne: "ws \<noteq> []" using Cons.prems(2) True n0 by auto
      obtain m' where m': "exec_fixup_args t (of_nat (j + 2)) 1 m = Some m'"
        and wa: "words_at ?sp ?ss (j + 2 + 2) (rebase_args ?b ws) m'"
        and fr: "\<forall>a. a \<notin> words_region ?sp ?ss (j + 2 + 2) (length ws) \<longrightarrow> m' a = m a"
        using Cons.IH [of 1 "j + 2" m] Cons.prems True n0 ne rest by auto
      have "peekw (?sp + of_nat (j + 2)) ?ss m' = peekw (?sp + of_nat (j + 2)) ?ss m"
        by (rule peekw_cong) (use fr dis in \<open>auto\<close>)
      then show ?thesis
        using m' wa fr w True n0
        by (auto simp: exec_fixup_args_step rebase_args_def)
    next
      case False
      then have "ws = []" using Cons.prems(1,2,4) True by (cases ws rule: rev_cases) auto
      then show ?thesis
        using w True False Cons.prems(1)
        by (simp add: exec_fixup_args_step rebase_args_def)
    qed
  next
    case False
    let ?m1 = "pokew (?sp + of_nat (j + 2)) ?ss (?b + w) m"
    have ne: "ws \<noteq> []" using Cons.prems(4) False by auto
    have rest1: "words_at ?sp ?ss (j + 2 + 2) ws ?m1"
      using words_at_pokew_before [of "j + 2" "j + 2 + 2" ws ?sp ?ss "?b + w" m] rest Cons.prems(5) by simp
    obtain m' where m': "exec_fixup_args t (of_nat (j + 2)) n ?m1 = Some m'"
      and wa: "words_at ?sp ?ss (j + 2 + 2) (rebase_args ?b ws) m'"
      and fr: "\<forall>a. a \<notin> words_region ?sp ?ss (j + 2 + 2) (length ws) \<longrightarrow> m' a = ?m1 a"
      using Cons.IH [of n "j + 2" ?m1] Cons.prems False ne rest1 by auto
    have "peekw (?sp + of_nat (j + 2)) ?ss m' = peekw (?sp + of_nat (j + 2)) ?ss ?m1"
      by (rule peekw_cong) (use fr dis in \<open>auto\<close>)
    then show ?thesis
      using m' wa fr w False Cons.prems(1)
      by (auto simp: exec_fixup_args_step rebase_args_def word_addrs_def)
  qed
qed


lemma exec_close_on_exec_fold:
  "set (t_open (fold (\<lambda>i t. if i \<in> set (close_on_exec t) then sys_close i t else t) xs t)) =
     set (t_open t) - (set xs \<inter> set (close_on_exec t)) \<and>
   set (close_on_exec (fold (\<lambda>i t. if i \<in> set (close_on_exec t) then sys_close i t else t) xs t)) =
     set (close_on_exec t) - set xs"
proof (induction xs arbitrary: t)
  case (Cons x xs)
  show ?case using Cons.IH [of "if x \<in> set (close_on_exec t) then sys_close x t else t"]
    by (auto simp: sys_close_def)
qed simp

lemma exec_close_on_exec_open:
  "set (t_open (exec_close_on_exec t)) = {fd \<in> set (t_open t). \<not> (fd < NR_OPEN \<and> fd \<in> set (close_on_exec t))}"
  using exec_close_on_exec_fold [of "[0..<NR_OPEN]" t] by (auto simp: exec_close_on_exec_def)

lemma exec_close_on_exec_fold_shape:
  "\<exists>fo fc. fold (\<lambda>i t. if i \<in> set (close_on_exec t) then sys_close i t else t) xs t =
     t\<lparr>t_open := fo, close_on_exec := fc\<rparr>"
proof (induction xs arbitrary: t)
  case Nil
  show ?case by (rule exI [of _ "t_open t"], rule exI [of _ "close_on_exec t"]) simp
next
  case (Cons x xs)
  let ?t1 = "if x \<in> set (close_on_exec t) then sys_close x t else t"
  obtain fo fc where oc: "fold (\<lambda>i t. if i \<in> set (close_on_exec t) then sys_close i t else t) xs ?t1 =
      ?t1\<lparr>t_open := fo, close_on_exec := fc\<rparr>"
    using Cons.IH by blast
  show ?case using oc by (auto simp: sys_close_def)
qed

lemma exec_close_on_exec_shape:
  "\<exists>fo fc. exec_close_on_exec t = t\<lparr>t_open := fo, close_on_exec := fc\<rparr>"
  unfolding exec_close_on_exec_def by (rule exec_close_on_exec_fold_shape)


text \<open>Closing descriptors changes no other field of the task.\<close>

lemma exec_close_on_exec_keeps [simp]:
  "t_state (exec_close_on_exec t) = t_state t"
  "t_inode (exec_close_on_exec t) = t_inode t"
  "mm_seg_code (exec_close_on_exec t) = mm_seg_code t"
  "mm_seg_data (exec_close_on_exec t) = mm_seg_data t"
  "t_regs_ds (exec_close_on_exec t) = t_regs_ds t"
  "t_regs_ss (exec_close_on_exec t) = t_regs_ss t"
  "t_regs_es (exec_close_on_exec t) = t_regs_es t"
  "t_regs_sp (exec_close_on_exec t) = t_regs_sp t"
  "t_xregs_cs (exec_close_on_exec t) = t_xregs_cs t"
  "t_xregs_ip (exec_close_on_exec t) = t_xregs_ip t"
  "t_begstack (exec_close_on_exec t) = t_begstack t"
  "t_endseg (exec_close_on_exec t) = t_endseg t"
  "t_enddata (exec_close_on_exec t) = t_enddata t"
  "t_endbrk (exec_close_on_exec t) = t_endbrk t"
  "t_minstack (exec_close_on_exec t) = t_minstack t"
  "sig_action (exec_close_on_exec t) = sig_action t"
  "sig_handler (exec_close_on_exec t) = sig_handler t"
  "euid (exec_close_on_exec t) = euid t"
  "egid (exec_close_on_exec t) = egid t"
proof -
  obtain fo fc where "exec_close_on_exec t = t\<lparr>t_open := fo, close_on_exec := fc\<rparr>"
    using exec_close_on_exec_shape by blast
  then show "t_state (exec_close_on_exec t) = t_state t" "t_inode (exec_close_on_exec t) = t_inode t" "mm_seg_code (exec_close_on_exec t) = mm_seg_code t" "mm_seg_data (exec_close_on_exec t) = mm_seg_data t" "t_regs_ds (exec_close_on_exec t) = t_regs_ds t" "t_regs_ss (exec_close_on_exec t) = t_regs_ss t" "t_regs_es (exec_close_on_exec t) = t_regs_es t" "t_regs_sp (exec_close_on_exec t) = t_regs_sp t" "t_xregs_cs (exec_close_on_exec t) = t_xregs_cs t" "t_xregs_ip (exec_close_on_exec t) = t_xregs_ip t" "t_begstack (exec_close_on_exec t) = t_begstack t" "t_endseg (exec_close_on_exec t) = t_endseg t" "t_enddata (exec_close_on_exec t) = t_enddata t" "t_endbrk (exec_close_on_exec t) = t_endbrk t" "t_minstack (exec_close_on_exec t) = t_minstack t" "sig_action (exec_close_on_exec t) = sig_action t" "sig_handler (exec_close_on_exec t) = sig_handler t" "euid (exec_close_on_exec t) = euid t" "egid (exec_close_on_exec t) = egid t" by simp_all
qed

lemma iput_inode_fields [simp]:
  "i_mode (ks_inodes (iput i st) j) = i_mode (ks_inodes st j)"
  "i_uid (ks_inodes (iput i st) j) = i_uid (ks_inodes st j)"
  "i_gid (ks_inodes (iput i st) j) = i_gid (ks_inodes st j)"
  "ks_tasks (iput i st) = ks_tasks st" "ks_cur (iput i st) = ks_cur st"
  "ks_mm (iput i st) = ks_mm st" "ks_mem (iput i st) = ks_mem st"
  by (simp_all add: iput_def)

subsection \<open>Properties of the commit\<close>

text \<open>
  C21. Argument-block fixup: on a block of two zero-terminated offset arrays after
  \<open>argc\<close> (held in the 64K segment), the loop returns; every non-zero offset has
  become \<open>t_begstack\<close> plus the offset, zero entries stay zero, and no other byte of
  memory changes.
\<close>

theorem exec_fixup_args_correct:
  assumes "args_ok ws" and "2 * length ws < 65534"
    and "words_at (t_regs_sp t) (t_regs_ss t) 2 ws m"
  shows "\<exists>m'. exec_fixup_args t 0 0 m = Some m' \<and>
           words_at (t_regs_sp t) (t_regs_ss t) 2 (rebase_args (t_begstack t) ws) m' \<and>
           (\<forall>a. a \<notin> words_region (t_regs_sp t) (t_regs_ss t) 2 (length ws) \<longrightarrow> m' a = m a)"
  using exec_fixup_args_gen [of 0 ws 0 t m, unfolded add_0] assms by (simp add: args_ok_def)

theorem exec_fixup_args_correct_witness:
  "\<exists>m'. exec_fixup_args ex_fix_task 0 0 ex_args_mem = Some m' \<and>
        words_at 0x100 0x800 2 [0x110, 0x114, 0, 0x120, 0] m'"
proof -
  have ok: "args_ok [0x10, 0x14, 0, 0x20, 0]" by (simp add: args_ok_def)
  have wa: "words_at (t_regs_sp ex_fix_task) (t_regs_ss ex_fix_task) 2 [0x10, 0x14, 0, 0x20, 0] ex_args_mem"
    by (simp add: ex_fix_task_def ex_args_mem_def peekw_def pokew_def peekb_def pokeb_def le16_def)
  show ?thesis
    using exec_fixup_args_correct [OF ok _ wa]
    by (force simp: ex_fix_task_def rebase_args_def)
qed


text \<open>
  C22. The commit installs the new image: on a well-formed argument block
  \<open>finalize_exec\<close> returns; the old code and data segments are released, the task
  runs the new ones with \<open>ss\<close> on the data segment and \<open>sp\<close> at the argument block,
  resumes at \<open>entry\<close>, has default signal dispositions and no handler, no open
  close-on-exec descriptor below \<open>NR_OPEN\<close>, the new inode, the set-user-ID owner
  as effective user when the bit is set, the argument block rebased, and no other
  task is changed.
\<close>

theorem finalize_exec_commits:
  assumes cur: "ks_cur st < length (ks_tasks st)"
    and ok: "args_ok ws" and len: "2 * length ws < 65534"
    and blk: "words_at (t_begstack (current st)) (seg_base (exec_release_old (current st) (ks_mm st)) sd) 2 ws
                (ks_mem st)"
  shows "\<exists>st'. finalize_exec ino sc sd eip st = Some st' \<and>
     ks_mm st' = exec_release_old (current st) (ks_mm st) \<and>
     mm_seg_code (current st') = Some sc \<and> mm_seg_data (current st') = Some sd \<and>
     t_regs_ss (current st') = seg_base (ks_mm st') sd \<and> t_regs_sp (current st') = t_begstack (current st) \<and>
     t_xregs_ip (current st') = eip \<and>
     sig_action (current st') = replicate NSIG SIGDISP_DFL \<and> sig_handler (current st') = 0 \<and>
     set (t_open (current st')) =
       {fd \<in> set (t_open (current st)). \<not> (fd < NR_OPEN \<and> fd \<in> set (close_on_exec (current st)))} \<and>
     t_inode (current st') = Some ino \<and>
     euid (current st') = (if i_mode (ks_inodes st ino) AND S_ISUID \<noteq> 0 then i_uid (ks_inodes st ino)
                           else euid (current st)) \<and>
     words_at (t_begstack (current st)) (seg_base (ks_mm st') sd) 2
       (rebase_args (t_begstack (current st)) ws) (ks_mem st') \<and>
     (\<forall>i < length (ks_tasks st). i \<noteq> ks_cur st \<longrightarrow> ks_tasks st' ! i = ks_tasks st ! i)"
proof -
  define mm where "mm = exec_release_old (current st) (ks_mm st)"
  define t0 where "t0 = (current st)\<lparr>mm_seg_code := Some sc, t_xregs_cs := seg_base mm sc,
                mm_seg_data := Some sd, t_regs_ss := seg_base mm sd,
                t_regs_es := seg_base mm sd, t_regs_sp := t_begstack (current st),
                t_endbrk := t_enddata (current st)\<rparr>"
  define t1 where "t1 = (if t_endbrk t0 AND 1 \<noteq> 0 then t0\<lparr>t_endbrk := t_endbrk t0 + 1\<rparr> else t0)"
  have sp: "t_regs_sp t1 = t_begstack (current st)" "t_regs_ss t1 = seg_base mm sd"
    "t_begstack t1 = t_begstack (current st)" "mm_seg_code t1 = Some sc" "mm_seg_data t1 = Some sd"
    "t_inode t1 = t_inode (current st)" "t_open t1 = t_open (current st)"
    "close_on_exec t1 = close_on_exec (current st)" "euid t1 = euid (current st)"
    by (simp_all add: t1_def t0_def)
  obtain m' where fx: "exec_fixup_args t1 0 0 (ks_mem st) = Some m'"
    and wa: "words_at (t_begstack (current st)) (seg_base mm sd) 2 (rebase_args (t_begstack (current st)) ws) m'"
    using exec_fixup_args_gen [of 0 ws 0 t1 "ks_mem st", unfolded add_0] ok len blk sp
    by (auto simp: args_ok_def mm_def)
  define t2 where "t2 = t1\<lparr>sig_action := replicate NSIG SIGDISP_DFL, sig_handler := 0\<rparr>"
  obtain fo fc where sh: "exec_close_on_exec t2 = t2\<lparr>t_open := fo, close_on_exec := fc\<rparr>"
    using exec_close_on_exec_shape by blast
  have fo: "set fo = {fd \<in> set (t_open (current st)). \<not> (fd < NR_OPEN \<and> fd \<in> set (close_on_exec (current st)))}"
    using exec_close_on_exec_open [of t2] sh sp by (simp add: t2_def)
  define st2 where "st2 = (case t_inode (current st) of Some i \<Rightarrow> iput i st | None \<Rightarrow> st)"
  have st2: "ks_tasks st2 = ks_tasks st" "ks_cur st2 = ks_cur st"
    "i_mode (ks_inodes st2 ino) = i_mode (ks_inodes st ino)" "i_uid (ks_inodes st2 ino) = i_uid (ks_inodes st ino)"
    by (simp_all add: st2_def split: option.splits)
  define t3 where "t3 = (exec_close_on_exec t2)\<lparr>t_inode := Some ino\<rparr>"
  define t4 where "t4 = (if i_mode (ks_inodes st2 ino) AND S_ISUID \<noteq> 0 then t3\<lparr>euid := i_uid (ks_inodes st2 ino)\<rparr> else t3)"
  define t5 where "t5 = (if i_mode (ks_inodes st2 ino) AND S_ISGID \<noteq> 0 then t4\<lparr>egid := i_gid (ks_inodes st2 ino)\<rparr> else t4)"
  have ti: "t_inode (exec_close_on_exec t2) = t_inode (current st)" using sh sp by (simp add: t2_def)
  have fe: "finalize_exec ino sc sd eip st =
      Some (set_current (arch_setup_user_stack t5 eip) (st2\<lparr>ks_mm := mm, ks_mem := m'\<rparr>))"
    unfolding finalize_exec_def Let_def
    by (simp only: mm_def [symmetric] t0_def [symmetric] t1_def [symmetric] fx option.case
        t2_def [symmetric] ti st2_def [symmetric] t3_def [symmetric] t4_def [symmetric] t5_def [symmetric])
  show ?thesis
    using fe wa fo cur st2 sp sh
    by (auto simp: current_def set_current_def arch_setup_user_stack_def t5_def t4_def t3_def t2_def
        nth_list_update mm_def)
qed

theorem finalize_exec_commits_witness:
  "\<exists>st'. finalize_exec 9 2 3 0x40 ex_fin_st = Some st' \<and>
     mm_segs (ks_mm st') = [(2, \<lparr>base = 0x700, seg_size = 1, flags = SEG_FLAG_CSEG, ref_count = 1\<rparr>),
                            (3, \<lparr>base = 0x800, seg_size = 0x20, flags = SEG_FLAG_DSEG, ref_count = 1\<rparr>)] \<and>
     mm_seg_data (current st') = Some 3 \<and> t_xregs_ip (current st') = 0x40 \<and>
     set (t_open (current st')) = {0, 1} \<and> euid (current st') = 5 \<and>
     words_at 0x100 0x800 2 [0x110, 0x114, 0, 0x120, 0] (ks_mem st')"
proof -
  have cur: "ks_cur ex_fin_st < length (ks_tasks ex_fin_st)" by (simp add: ex_fin_st_def)
  have ok: "args_ok [0x10, 0x14, 0, 0x20, 0]" by (simp add: args_ok_def)
  have blk: "words_at (t_begstack (current ex_fin_st))
      (seg_base (exec_release_old (current ex_fin_st) (ks_mm ex_fin_st)) 3) 2 [0x10, 0x14, 0, 0x20, 0]
      (ks_mem ex_fin_st)"
    by (simp add: ex_fin_st_def current_def ex_task_def exec_release_old_def seg_put_def seg_base_def
        ex_args_mem_def peekw_def pokew_def peekb_def pokeb_def le16_def)
  have rel: "exec_release_old (current ex_fin_st) (ks_mm ex_fin_st) =
      (ks_mm ex_fin_st)\<lparr>mm_segs := [(2, \<lparr>base = 0x700, seg_size = 1, flags = SEG_FLAG_CSEG, ref_count = 1\<rparr>),
                            (3, \<lparr>base = 0x800, seg_size = 0x20, flags = SEG_FLAG_DSEG, ref_count = 1\<rparr>)]\<rparr>"
    by (simp add: ex_fin_st_def current_def ex_task_def exec_release_old_def seg_put_def)
  show ?thesis
    using finalize_exec_commits [OF cur ok _ blk, where ino = 9 and sc = 2 and eip = "0x40"] rel
    by (auto simp: ex_fin_st_def current_def ex_task_def rebase_args_def seg_base_def NR_OPEN_def
        S_ISUID_def)
qed

end
