(* ===== verification/Execve.thy ===== *)
theory Execve
  imports Finalize
begin

text \<open>
  \<open>sys_execve\<close> (\<^verbatim>\<open>src/elks/fs/exec.c\<close>, lines 345--712) composed from its parts:
  the header read (\<open>Header\<close>), the search for a resident text (\<open>Loader\<close>), the
  layout planner (\<open>Layout\<close>), the segment loader with its cleanup (\<open>Loader\<close>) and
  the commit (\<open>Finalize\<close>), with the common exit at \<open>error_exec3\<close>: the status is
  returned and the inode reference taken by \<open>open_namei\<close> is dropped (\<open>iput\<close>).

  The model starts from the opened file: \<open>open_namei\<close> and \<open>open_filp\<close> (lines
  364--372) are the file-system collaborators and their failures are not modelled;
  \<open>close_filp\<close> closes the model's file handle, which no later step uses. The OS/2
  loader \<open>execve_os2\<close> (lines 129--343) is a parameter \<open>os2\<close> of the model. The
  result is \<open>None\<close> when the commit does not return (an argument block without its
  two zero terminators), otherwise the status (\<open>Inr ()\<close> for 0) and the state.
\<close>

type_synonym exec_result = "(unit result \<times> kstate) option"

type_synonym os2_fn = "inode_id \<Rightarrow> file_s \<Rightarrow> u16 \<Rightarrow> size_t \<Rightarrow> kstate \<Rightarrow> exec_result"

text \<open>Lines 699--712: \<open>error_exec3\<close> to \<open>error_exec1\<close> with a negative status.\<close>

definition exec_exit :: "inode_id \<Rightarrow> errno \<Rightarrow> kstate \<Rightarrow> unit result \<times> kstate" where
  "exec_exit inode e st = (Inl e, iput inode st)"

text \<open>
  Lines 375--691 in order. \<open>ds\<close> is the caller's data segment saved at line 375,
  the segment of \<open>sptr\<close>.
\<close>

definition sys_execve ::
  "config \<Rightarrow> decompress_fn \<Rightarrow> os2_fn \<Rightarrow> inode_id \<Rightarrow> file_s \<Rightarrow> u16 \<Rightarrow> size_t \<Rightarrow> kstate \<Rightarrow>
     exec_result" where
  "sys_execve cfg dc os2 inode f sptr slen st =
     (let ds = t_regs_ds (current st) in
      case exec_read_hdr cfg f of
        Inl e \<Rightarrow> Some (exec_exit inode e st)
      | Inr (OS2_image, f) \<Rightarrow> os2 inode f sptr slen st
      | Inr (Minix_image mh, f) \<Rightarrow>
          (let reuse = exec_find_code inode (ks_tasks st) in
           case exec_layout cfg mh slen f of
             Inl e \<Rightarrow> Some (exec_exit inode e st)
           | Inr (p, f) \<Rightarrow>
               (case exec_load cfg dc mh p reuse f st of
                  Inl (e, st) \<Rightarrow> Some (exec_exit inode e st)
                | Inr ((seg_code, seg_data, f), st) \<Rightarrow>
                    (case exec_commit cfg mh p sptr slen ds inode seg_code seg_data st of
                       None \<Rightarrow> None
                     | Some st \<Rightarrow> Some (Inr (), st)))))"

subsection \<open>Sequences of exec calls\<close>

text \<open>
  The kernel invariant the loader relies on: a well-formed segment table and a
  current task inside the task table. \<open>exec_reach cfg dc st0 st\<close>: \<open>st\<close> is reached
  from \<open>st0\<close> by a sequence of \<open>sys_execve\<close> calls, successful or not, with any
  files, argument blocks and OS/2 loaders.
\<close>

definition kinv :: "kstate \<Rightarrow> bool" where
  "kinv st \<longleftrightarrow> mm_ok (ks_mm st) \<and> ks_cur st < length (ks_tasks st)"


subsection \<open>Examples\<close>

text \<open>
  A legacy (version 0) image whose \<open>chmem\<close> is below its data and BSS; an
  executable file with the header \<open>ex_load_hdr\<close>, four bytes of text and the data
  bytes \<open>rest\<close>; and the state after its load into \<open>ex_st\<close> with the text shared.
\<close>

definition ex_legacy_hdr :: minix_exec_hdr where
  "ex_legacy_hdr = example_hdr\<lparr>version := 0, chmem := 60\<rparr>"

definition ex_exec_file :: "u8 list \<Rightarrow> file_s" where
  "ex_exec_file rest = \<lparr>f_data = minix_hdr_bytes ex_load_hdr @ [1, 2, 3, 4] @ rest, f_pos = 0\<rparr>"

definition ex_loaded_st :: kstate where
  "ex_loaded_st =
     ex_st\<lparr>ks_mm := \<lparr>mm_segs =
             [(0, \<lparr>base = 0x50, seg_size = 0x10, flags = SEG_FLAG_CSEG, ref_count = 2\<rparr>),
              (1, \<lparr>base = 0x60, seg_size = 0x100, flags = SEG_FLAG_DSEG, ref_count = 1\<rparr>),
              (2, \<lparr>base = 0x160, seg_size = 0x201, flags = SEG_FLAG_DSEG, ref_count = 1\<rparr>)],
             mm_next = 3, mm_free = 0x361, mm_top = 0x9000\<rparr>,
           ks_mem := pokeb 3 0x160 8 (pokeb 2 0x160 7 (pokeb 1 0x160 6 (pokeb 0 0x160 5 (\<lambda>_. 0))))\<rparr>"

subsection \<open>Lemmas\<close>

lemma exec_read_hdr_not_OS2:
  "\<not> CONFIG_EXEC_OS2 cfg \<Longrightarrow> exec_read_hdr cfg f \<noteq> Inr (OS2_image, f')"
  by (auto simp: exec_read_hdr_def Let_def split: prod.splits)

lemma finalize_exec_Some:
  assumes "finalize_exec ino sc sd eip st = Some st'" and "ks_cur st < length (ks_tasks st)"
  shows "mm_seg_code (current st') = Some sc \<and> mm_seg_data (current st') = Some sd \<and>
         t_inode (current st') = Some ino \<and> ks_cur st' = ks_cur st \<and>
         length (ks_tasks st') = length (ks_tasks st) \<and>
         (\<forall>i < length (ks_tasks st). i \<noteq> ks_cur st \<longrightarrow> ks_tasks st' ! i = ks_tasks st ! i)"
  using assms
  by (auto simp: finalize_exec_def Let_def current_def set_current_def arch_setup_user_stack_def
      split: option.splits)

lemma exec_commit_Some:
  assumes "exec_commit cfg mh p sptr slen ds ino sc sd st = Some st'" and "ks_cur st < length (ks_tasks st)"
  shows "mm_seg_code (current st') = Some sc \<and> mm_seg_data (current st') = Some sd \<and>
         t_inode (current st') = Some ino \<and> ks_cur st' = ks_cur st \<and>
         (\<forall>i < length (ks_tasks st). i \<noteq> ks_cur st \<longrightarrow> ks_tasks st' ! i = ks_tasks st ! i)"
proof -
  have "\<exists>t m. finalize_exec ino sc sd (ucast (entry mh)) (set_current t (st\<lparr>ks_mem := m\<rparr>)) = Some st'"
    using assms(1) unfolding exec_commit_def Let_def by blast
  then obtain t m where "finalize_exec ino sc sd (ucast (entry mh)) (set_current t (st\<lparr>ks_mem := m\<rparr>)) = Some st'"
    by blast
  then show ?thesis
    using finalize_exec_Some assms(2)
    by (fastforce simp: set_current_def)
qed


lemma elks_config_simps:
  "CONFIG_EXEC_MMODEL elks_config" "\<not> CONFIG_EXEC_LOW_STACK elks_config"
  "\<not> CONFIG_EXEC_COMPRESS elks_config" "\<not> CONFIG_EXEC_OS2 elks_config"
  "INIT_HEAP elks_config = 4096" "INIT_STACK elks_config = 4096"
  by (simp_all add: elks_config_def)

lemma ex_exec_file_simps:
  "f_data (ex_exec_file rest) = minix_hdr_bytes ex_load_hdr @ [1, 2, 3, 4] @ rest"
  "f_pos (ex_exec_file rest) = 0"
  by (simp_all add: ex_exec_file_def)

lemma ex_read_hdr:
  "exec_read_hdr elks_config (ex_exec_file rest) =
     Inr (Minix_image ex_load_hdr, (ex_exec_file rest)\<lparr>f_pos := 32\<rparr>)"
  by (simp add: exec_read_hdr_def file_read_def Let_def elks_config_def ex_exec_file_def
      decode_minix_hdr_bytes_append) (simp add: ex_load_hdr_def example_hdr_def)

lemma ex_layout:
  "exec_layout elks_config ex_load_hdr slen (ex_exec_file rest\<lparr>f_pos := 32\<rparr>) =
     Inr (\<lparr>lp_esuph = zero_supl, lp_base_data = 0, lp_min_len = 4, lp_len = 0x2010, lp_stack = 4096\<rparr>,
          ex_exec_file rest\<lparr>f_pos := 32\<rparr>)"
  if "slen \<in> {0, 6}"
  using that by (auto simp: layout_eval ex_load_hdr_def example_hdr_def elks_config_def)

lemma ex_find_code: "exec_find_code 7 (ks_tasks ex_st) = Some 0"
  by (simp add: exec_find_code_def ex_st_def ex_task_def TASK_STOPPED_def)

lemma ex_exec_load:
  "exec_load elks_config ex_dc ex_load_hdr
      \<lparr>lp_esuph = zero_supl, lp_base_data = 0, lp_min_len = 4, lp_len = 0x2010, lp_stack = 4096\<rparr> (Some 0)
      (ex_exec_file [5, 6, 7, 8]\<lparr>f_pos := 32\<rparr>) ex_st =
     Inr ((0, 2, ex_exec_file [5, 6, 7, 8]\<lparr>f_pos := 40\<rparr>), ex_loaded_st)"
  by (simp add: loader_eval seg_get_def seg_base_def ex_load_hdr_def ex_loaded_st_def
        example_hdr_def ex_st_def ex_mm_def elks_config_simps ex_exec_file_simps)

lemma upt_6: "[0..<6] = [0, 1, 2, 3, 4, 5]"
  by (simp add: upt_rec)

lemma ex_exec_commit:
  "\<exists>st'. exec_commit elks_config ex_load_hdr
           \<lparr>lp_esuph = zero_supl, lp_base_data = 0, lp_min_len = 4, lp_len = 0x2010, lp_stack = 4096\<rparr>
           0x100 6 0x60 7 0 2 ex_loaded_st = Some st'"
  apply (simp add: exec_commit_def Let_def seg_base_def current_def ex_loaded_st_def ex_st_def ex_load_hdr_def
     example_hdr_def elks_config_simps)
  apply (simp add: finalize_exec_def Let_def current_def set_current_def ex_task_def
     exec_fixup_args_step [of _ 0, simplified] exec_fixup_args_step [of _ 2, simplified]
     exec_release_old_def seg_put_def seg_base_def)
  apply (simp add: peekw_def peekb_def pokeb_def pokew_def fmemcpyb_def fmemsetb_def peekbs_def phys_def
     le16_def upt_6)
  done

lemma ex_exec_ok:
  "\<exists>st'. sys_execve elks_config ex_dc (\<lambda>_ _ _ _ _. None) 7 (ex_exec_file [5, 6, 7, 8]) 0x100 6 ex_st =
          Some (Inr (), st')"
proof -
  have ds: "t_regs_ds (current ex_st) = 0x60" by (simp add: current_def ex_st_def ex_task_def)
  obtain st' where cm: "exec_commit elks_config ex_load_hdr
           \<lparr>lp_esuph = zero_supl, lp_base_data = 0, lp_min_len = 4, lp_len = 0x2010, lp_stack = 4096\<rparr>
           0x100 6 0x60 7 0 2 ex_loaded_st = Some st'" using ex_exec_commit by blast
  then show ?thesis by (simp add: sys_execve_def ex_read_hdr ex_layout ex_find_code ex_exec_load ds)
qed




lemma iput_kinv [simp]: "kinv (iput i st) = kinv st"
  by (simp add: kinv_def iput_def)


section \<open>Properties of sys\_execve\<close>

text \<open>
  C23. Failure is atomic: when \<open>sys_execve\<close> returns an error, the segment table,
  the task table and the current task are as before the call, and the only other
  change is the release of the reference to the executable's inode; a loader
  failure rolls back every segment it took.
\<close>

theorem sys_execve_failure_atomic:
  assumes nos2: "\<not> CONFIG_EXEC_OS2 cfg" and ok: "mm_ok (ks_mm st)"
    and run: "sys_execve cfg dc os2 ino f sptr slen st = Some (Inl e, st')"
  shows "mm_segs (ks_mm st') = mm_segs (ks_mm st) \<and> ks_tasks st' = ks_tasks st \<and>
         ks_cur st' = ks_cur st \<and> ks_inodes st' = ks_inodes (iput ino st)"
proof -
  have "\<exists>st0. rolled_back st st0 \<and> st' = iput ino st0"
  proof (cases "exec_read_hdr cfg f")
    case (Inl e1)
    then show ?thesis using run by (auto simp: sys_execve_def exec_exit_def rolled_back_def)
  next
    case (Inr r)
    then obtain mh f1 where h: "exec_read_hdr cfg f = Inr (Minix_image mh, f1)"
      using exec_read_hdr_not_OS2 [OF nos2] by (metis exec_format.exhaust prod.collapse)
    show ?thesis
    proof (cases "exec_layout cfg mh slen f1")
      case (Inl e2)
      then show ?thesis using run h by (auto simp: sys_execve_def exec_exit_def rolled_back_def)
    next
      case (Inr pf)
      then obtain p f2 where l: "exec_layout cfg mh slen f1 = Inr (p, f2)" by fastforce
      show ?thesis
      proof (cases "exec_load cfg dc mh p (exec_find_code ino (ks_tasks st)) f2 st")
        case (Inl es)
        then obtain e3 st1 where ld: "exec_load cfg dc mh p (exec_find_code ino (ks_tasks st)) f2 st = Inl (e3, st1)"
          by fastforce
        then show ?thesis
          using run h l exec_load_rolls_back [OF ok ld] by (auto simp: sys_execve_def exec_exit_def)
      next
        case (Inr r3)
        then show ?thesis using run h l
          by (auto simp: sys_execve_def split: prod.splits option.splits)
      qed
    qed
  qed
  then show ?thesis by (auto simp: rolled_back_def iput_def)
qed

theorem sys_execve_failure_atomic_witness:
  "\<exists>st'. sys_execve elks_config ex_dc (\<lambda>_ _ _ _ _. None) 7 (ex_exec_file [5, 6]) 0x100 0 ex_st =
          Some (Inl ENOEXEC, st') \<and>
        mm_segs (ks_mm st') = mm_segs (ks_mm ex_st) \<and> ks_tasks st' = ks_tasks ex_st"
proof -
  have "\<exists>st1. exec_load elks_config ex_dc ex_load_hdr
      \<lparr>lp_esuph = zero_supl, lp_base_data = 0, lp_min_len = 4, lp_len = 0x2010, lp_stack = 4096\<rparr> (Some 0)
      (ex_exec_file [5, 6]\<lparr>f_pos := 32\<rparr>) ex_st = Inl (ENOEXEC, st1)"
    by (simp add: loader_eval seg_get_def seg_base_def ex_load_hdr_def example_hdr_def ex_st_def ex_mm_def
        elks_config_def ex_exec_file_def)
  then obtain st1 where ld: "exec_load elks_config ex_dc ex_load_hdr
      \<lparr>lp_esuph = zero_supl, lp_base_data = 0, lp_min_len = 4, lp_len = 0x2010, lp_stack = 4096\<rparr> (Some 0)
      (ex_exec_file [5, 6]\<lparr>f_pos := 32\<rparr>) ex_st = Inl (ENOEXEC, st1)" by blast
  have run: "sys_execve elks_config ex_dc (\<lambda>_ _ _ _ _. None) 7 (ex_exec_file [5, 6]) 0x100 0 ex_st =
      Some (Inl ENOEXEC, iput 7 st1)"
    by (simp add: sys_execve_def ex_read_hdr ex_layout ex_find_code ld exec_exit_def)
  have nos2: "\<not> CONFIG_EXEC_OS2 elks_config" by (simp add: elks_config_def)
  show ?thesis using sys_execve_failure_atomic [OF nos2 ex_mm_ok run] run by auto
qed

text \<open>
  C24. A successful \<open>sys_execve\<close> installs the image in the current task: the task
  holds the code segment and a data segment that did not exist before the call,
  records the executable's inode, stays the current task, and no other task changes.
\<close>

theorem sys_execve_success:
  assumes nos2: "\<not> CONFIG_EXEC_OS2 cfg" and ok: "mm_ok (ks_mm st)"
    and cur: "ks_cur st < length (ks_tasks st)"
    and run: "sys_execve cfg dc os2 ino f sptr slen st = Some (Inr (), st')"
  shows "\<exists>sc sd. mm_seg_code (current st') = Some sc \<and> mm_seg_data (current st') = Some sd \<and>
           sd \<notin> fst ` set (mm_segs (ks_mm st)) \<and> t_inode (current st') = Some ino \<and>
           ks_cur st' = ks_cur st \<and>
           (\<forall>i < length (ks_tasks st). i \<noteq> ks_cur st \<longrightarrow> ks_tasks st' ! i = ks_tasks st ! i)"
proof -
  obtain mh f1 where h: "exec_read_hdr cfg f = Inr (Minix_image mh, f1)"
    using run exec_read_hdr_not_OS2 [OF nos2]
    by (auto simp: sys_execve_def exec_exit_def split: sum.splits exec_format.splits)
  obtain p f2 where l: "exec_layout cfg mh slen f1 = Inr (p, f2)"
    using run h by (auto simp: sys_execve_def exec_exit_def split: sum.splits)
  obtain sc sd f3 st1 where ld: "exec_load cfg dc mh p (exec_find_code ino (ks_tasks st)) f2 st =
      Inr ((sc, sd, f3), st1)"
    using run h l by (auto simp: sys_execve_def exec_exit_def split: sum.splits)
  have cm: "exec_commit cfg mh p sptr slen (t_regs_ds (current st)) ino sc sd st1 = Some st'"
    using run h l ld by (auto simp: sys_execve_def split: option.splits)
  note L = exec_load_Inr [OF ok ld]
  have cur1: "ks_cur st1 < length (ks_tasks st1)" using L cur by simp
  show ?thesis using exec_commit_Some [OF cm cur1] L by auto
qed

theorem sys_execve_success_witness:
  "\<exists>st' sd. sys_execve elks_config ex_dc (\<lambda>_ _ _ _ _. None) 7 (ex_exec_file [5, 6, 7, 8]) 0x100 6 ex_st =
       Some (Inr (), st') \<and> mm_seg_data (current st') = Some sd \<and> sd \<notin> {0, 1} \<and>
       t_inode (current st') = Some 7"
proof -
  obtain st' where run: "sys_execve elks_config ex_dc (\<lambda>_ _ _ _ _. None) 7 (ex_exec_file [5, 6, 7, 8])
      0x100 6 ex_st = Some (Inr (), st')" using ex_exec_ok by blast
  have nos2: "\<not> CONFIG_EXEC_OS2 elks_config" by (simp add: elks_config_def)
  have cur: "ks_cur ex_st < length (ks_tasks ex_st)" by (simp add: ex_st_def)
  show ?thesis
    using sys_execve_success [OF nos2 ex_mm_ok cur run] run by (auto simp: ex_st_def ex_mm_def)
qed

text \<open>
  C25. A legacy image whose \<open>chmem\<close> does not cover its data and BSS is refused with
  \<open>EINVAL\<close> before anything is allocated: the only effect is the release of the
  inode reference.
\<close>

theorem sys_execve_legacy_chmem:
  assumes h: "exec_read_hdr cfg f = Inr (Minix_image mh, f1)"
    and "version mh = 0" and "chmem mh \<noteq> 0" and "hlen mh = EXEC_MINIX_HDR_SIZE"
    and "unat (chmem mh) \<le> unat (ucast (dseg mh) :: size_t) + unat (ucast (bseg mh) :: size_t)"
  shows "sys_execve cfg dc os2 ino f sptr slen st = Some (Inl EINVAL, iput ino st)"
proof -
  have "exec_layout cfg mh slen f1 = Inl EINVAL"
    using assms(2-5) by (rule exec_layout_chmem_too_small_Inl)
  then show ?thesis using h by (simp add: sys_execve_def exec_exit_def)
qed

theorem sys_execve_legacy_chmem_witness:
  "sys_execve elks_config ex_dc (\<lambda>_ _ _ _ _. None) 7 \<lparr>f_data = minix_hdr_bytes ex_legacy_hdr, f_pos = 0\<rparr>
     0x100 20 ex_st = Some (Inl EINVAL, iput 7 ex_st)"
proof -
  have h: "exec_read_hdr elks_config \<lparr>f_data = minix_hdr_bytes ex_legacy_hdr, f_pos = 0\<rparr> =
      Inr (Minix_image ex_legacy_hdr, \<lparr>f_data = minix_hdr_bytes ex_legacy_hdr, f_pos = 32\<rparr>)"
    by (simp add: exec_read_hdr_def file_read_def Let_def elks_config_def)
      (simp add: ex_legacy_hdr_def example_hdr_def)
  show ?thesis
    by (rule sys_execve_legacy_chmem [OF h])
      (simp_all add: ex_legacy_hdr_def example_hdr_def EXEC_MINIX_HDR_SIZE_def)
qed



end
