(* ===== verification/Printk.thy ===== *)
theory Printk
  imports Machine
begin

text \<open>
  The kernel's console output, \<^verbatim>\<open>src/elks/kernel/printk.c\<close>: \<open>con_write\<close> (lines
  38--72) writes a buffer through the driver's \<open>con_charout\<close>, turning each newline
  into carriage return and newline, and under \<open>CONFIG_DCON_ANSI_PRINTK\<close> first
  emits a colour escape whose colour cycles through \<open>'1'\<close>..\<open>'7'\<close> in the static
  \<open>colour\<close>; \<open>numout\<close> (lines 81--106) prints a 16- or 32-bit argument in base 8,
  10 or 16; \<open>printk\<close> (lines 108--170) interprets the format string.

  State: the console is the characters written so far and the static colour.
  \<open>con_charout\<close> (the console driver) appends one character. The variadic arguments
  are the bytes of the caller's stack from \<open>&a1\<close> on (\<open>pk_args\<close>); a \<open>%s\<close> pointer
  names a kernel string and a \<open>%t\<close> pointer a user string, given by \<open>pk_kstr\<close> and
  \<open>pk_ustr\<close>. The format is the characters before its terminating NUL; a
  conversion that consumes the terminator makes the loop read past the end of the
  string, which the model reports as \<open>None\<close>. \<open>panic\<close> and \<open>redirect_main\<close> are
  modelled in \<open>Panic\<close>.
\<close>

subsection \<open>State\<close>

record console =
  con_colour :: char
  con_out :: "char list"

record printk_env =
  pk_ansi :: bool
  pk_args :: "u8 list"
  pk_kstr :: "u16 \<Rightarrow> char list"
  pk_ustr :: "u16 \<Rightarrow> char list"

definition con_charout :: "char \<Rightarrow> console \<Rightarrow> console" where
  "con_charout c con = con\<lparr>con_out := con_out con @ [c]\<rparr>"

subsection \<open>con_write\<close>

text \<open>Lines 64--71, the copy loop.\<close>

fun con_write_chars :: "char list \<Rightarrow> console \<Rightarrow> console" where
  "con_write_chars [] con = con"
| "con_write_chars (c # cs) con =
     con_write_chars cs
       (con_charout c (if c = CHR 0x0A then con_charout (CHR 0x0D) con else con))"

text \<open>Lines 42--62, the colour escape \<open>ESC [ 3 colour ; 4 0 m\<close> and the increment.\<close>

definition con_colourize :: "console \<Rightarrow> console" where
  "con_colourize con =
     (let colour = (if con_colour con = CHR ''8'' then CHR ''1'' else con_colour con);
          con = fold con_charout [CHR 0x1B, CHR ''['', CHR ''3'', colour, CHR '';'', CHR ''4'',
                                 CHR ''0'', CHR ''m''] con
      in con\<lparr>con_colour := char_of (of_char colour + (1::nat))\<rparr>)"

definition con_write :: "bool \<Rightarrow> char list \<Rightarrow> console \<Rightarrow> console" where
  "con_write ansi buf con = con_write_chars buf (if ansi then con_colourize con else con)"

subsection \<open>numout\<close>

definition nstring :: "char list" where
  "nstring = ''0123456789ABCDEF''"

text \<open>
  The argument as \<open>numout\<close> reads it: an \<open>unsigned short\<close> or an
  \<open>unsigned long\<close> at byte \<open>p\<close> of the argument area, little-endian.
\<close>

definition arg_value :: "u8 list \<Rightarrow> nat \<Rightarrow> nat \<Rightarrow> u32" where
  "arg_value args p len =
     (if len = 2 then ucast (le16 (byte_at args p) (byte_at args (p + 1)))
      else le32 (byte_at args p) (byte_at args (p + 1)) (byte_at args (p + 2))
             (byte_at args (p + 3)))"

text \<open>A pointer argument (\<open>char *\<close>, 16 bits) at byte \<open>p\<close>.\<close>

definition arg_ptr :: "u8 list \<Rightarrow> nat \<Rightarrow> u16" where
  "arg_ptr args p = le16 (byte_at args p) (byte_at args (p + 1))"

text \<open>
  Lines 98--102: the digits are stored backwards from \<open>buf[14]\<close>; the loop stops when
  the value is exhausted or the pointer passes \<open>buf[0]\<close>. \<open>bp\<close> is the index of the
  slot just written.
\<close>

fun numout_loop :: "nat \<Rightarrow> u32 \<Rightarrow> nat \<Rightarrow> char list \<Rightarrow> char list" where
  "numout_loop base v bp acc =
     (let acc' = nstring ! (unat v mod base) # acc;
          v' = word_of_nat (unat v div base) :: u32
      in if v' \<noteq> 0 \<and> 0 < bp then numout_loop base v' (bp - 1) acc' else acc')"

text \<open>
  Lines 81--106. \<open>v\<close> is an \<open>unsigned long\<close>, so the test \<open>useSign && v < 0\<close> of
  line 93 never holds.
\<close>

definition numout :: "bool \<Rightarrow> u8 list \<Rightarrow> nat \<Rightarrow> nat \<Rightarrow> nat \<Rightarrow> bool \<Rightarrow> console \<Rightarrow> console" where
  "numout ansi args p len base useSign con =
     (let v = arg_value args p len;
          (con, v) = (if useSign \<and> v < 0 then (con_write ansi ''-'' con, - v) else (con, v))
      in con_write ansi (numout_loop base v 14 []) con)"

subsection \<open>printk\<close>

text \<open>
  Lines 127--167, one conversion: the console after it and the new argument offset.
\<close>

definition printk_conv :: "nat \<Rightarrow> char \<Rightarrow> nat \<Rightarrow> printk_env \<Rightarrow> console \<Rightarrow> nat \<times> console" where
  "printk_conv len c p e con =
     (if c = CHR ''d'' \<or> c = CHR ''u'' then
        (p + len, numout (pk_ansi e) (pk_args e) p len 10 (c = CHR ''d'') con)
      else if c = CHR ''o'' \<or> c = CHR ''p'' \<or> c = CHR ''x'' \<or> c = CHR ''X'' then
        (p + len, numout (pk_ansi e) (pk_args e) p len (if c = CHR ''o'' then 8 else 16) False con)
      else if c = CHR ''s'' then
        (p + 2, fold (\<lambda>ch. con_write (pk_ansi e) [ch])
                  (pk_kstr e (arg_ptr (pk_args e) p)) con)
      else if c = CHR ''t'' then
        (p + 2, fold con_charout (pk_ustr e (arg_ptr (pk_args e) p)) con)
      else if c = CHR ''c'' then
        (p + 2, con_write (pk_ansi e) [char_of (unat (byte_at (pk_args e) p))] con)
      else if c = CHR ''%'' then (p, con_write (pk_ansi e) ''%'' con)
      else (p, con_write (pk_ansi e) ''?'' con))"

text \<open>
  Lines 113--169, the loop over the format. After a \<open>%\<close> (and an \<open>h\<close> or \<open>l\<close>) the
  next character is read unconditionally; when it is the terminator, the default
  branch prints \<open>?\<close> and the loop goes on reading past the end of the string
  (\<open>None\<close>).
\<close>

fun printk_loop :: "char list \<Rightarrow> nat \<Rightarrow> printk_env \<Rightarrow> console \<Rightarrow> console option" where
  "printk_loop [] p e con = Some con"
| "printk_loop (c # fmt) p e con =
     (if c \<noteq> CHR ''%'' then printk_loop fmt p e (con_write (pk_ansi e) [c] con)
      else
        (case fmt of
          [] \<Rightarrow> None
        | c1 # fmt1 \<Rightarrow>
            if c1 = CHR ''h'' \<or> c1 = CHR ''l'' then
              (case fmt1 of
                [] \<Rightarrow> None
              | c2 # fmt2 \<Rightarrow>
                  (let (p', con') = printk_conv (if c1 = CHR ''l'' then 4 else 2) c2 p e con
                   in printk_loop fmt2 p' e con'))
            else
              (let (p', con') = printk_conv 2 c1 p e con in printk_loop fmt1 p' e con')))"

definition printk :: "char list \<Rightarrow> printk_env \<Rightarrow> console \<Rightarrow> console option" where
  "printk fmt e con = printk_loop fmt 0 e con"

subsection \<open>Reference definitions\<close>




definition crlf :: "char \<Rightarrow> char list" where
  "crlf c = (if c = CHR 0x0A then [CHR 0x0D, c] else [c])"

definition colour_ok :: "console \<Rightarrow> bool" where
  "colour_ok con \<longleftrightarrow> of_char (con_colour con) \<in> {49::nat..56}"


subsection \<open>Lemmas\<close>









lemma con_write_chars_out:
  "con_write_chars cs con = con\<lparr>con_out := con_out con @ concat (map crlf cs)\<rparr>"
  by (induction cs arbitrary: con) (auto simp: con_charout_def crlf_def)

lemma fold_con_charout: "fold con_charout cs con = con\<lparr>con_out := con_out con @ cs\<rparr>"
  by (induction cs arbitrary: con) (simp_all add: con_charout_def)

lemma con_colourize_out:
  assumes "colour_ok con"
  shows "\<exists>d. of_char d \<in> {49::nat..55} \<and>
           con_out (con_colourize con) =
             con_out con @ [CHR 0x1B, CHR ''['', CHR ''3'', d, CHR '';'', CHR ''4'', CHR ''0'', CHR ''m''] \<and>
           colour_ok (con_colourize con)"
proof -
  let ?d = "if con_colour con = CHR ''8'' then CHR ''1'' else con_colour con"
  have e: "con_colour con = CHR ''8'' \<longleftrightarrow> of_char (con_colour con) = (56::nat)"
    using of_char_eq_iff [of "con_colour con" "CHR ''8''", where 'a = nat] by simp
  have d: "of_char ?d \<in> {49::nat..55}" using assms e by (auto simp: colour_ok_def)
  then have "of_char (char_of (of_char ?d + (1::nat)) :: char) \<in> {50::nat..56}"
    by (simp add: of_char_of)
  then have "colour_ok (con_colourize con)"
    by (simp add: con_colourize_def colour_ok_def fold_con_charout Let_def del: of_char_of)
  moreover have "con_out (con_colourize con) =
      con_out con @ [CHR 0x1B, CHR ''['', CHR ''3'', ?d, CHR '';'', CHR ''4'', CHR ''0'', CHR ''m'']"
    by (simp add: con_colourize_def con_charout_def Let_def)
  ultimately show ?thesis using d by blast
qed

lemma colour_ok_out [simp]: "colour_ok (con\<lparr>con_out := cs\<rparr>) = colour_ok con"
  by (simp add: colour_ok_def)

lemma colour_ok_con_write: "colour_ok con \<Longrightarrow> colour_ok (con_write ansi buf con)"
  using con_colourize_out [of con] by (auto simp: con_write_def con_write_chars_out colour_ok_def)

lemma colour_ok_fold_con_write:
  "colour_ok con \<Longrightarrow> colour_ok (fold (\<lambda>ch. con_write ansi [ch]) cs con)"
  by (induction cs arbitrary: con) (simp_all add: colour_ok_con_write)

lemma colour_ok_numout: "colour_ok con \<Longrightarrow> colour_ok (numout ansi args p len base s con)"
  by (simp add: numout_def Let_def colour_ok_con_write)

lemma colour_ok_printk_conv: "colour_ok con \<Longrightarrow> colour_ok (snd (printk_conv len c p e con))"
  by (simp add: printk_conv_def colour_ok_numout colour_ok_con_write colour_ok_fold_con_write
      fold_con_charout)

lemma colour_ok_printk_conv':
  "printk_conv len c p e con = (p', con') \<Longrightarrow> colour_ok con \<Longrightarrow> colour_ok con'"
  using colour_ok_printk_conv [of con len c p e] by simp


lemma printk_loop_colour:
  "colour_ok con \<Longrightarrow> printk_loop fmt p e con = Some con' \<Longrightarrow> colour_ok con'"
proof (induction fmt p e con rule: printk_loop.induct)
  case (2 c fmt p e con)
  show ?case
  proof (cases "c = CHR ''%''")
    case False
    then show ?thesis using 2 by (simp add: colour_ok_con_write)
  next
    case pc: True
    then obtain c1 fmt1 where f: "fmt = c1 # fmt1" using "2.prems"(2) by (cases fmt) auto
    show ?thesis
    proof (cases "c1 = CHR ''h'' \<or> c1 = CHR ''l''")
      case hl: True
      then obtain c2 fmt2 where f1: "fmt1 = c2 # fmt2" using "2.prems"(2) pc f by (cases fmt1) auto
      obtain p' con'' where cv: "printk_conv (if c1 = CHR ''l'' then 4 else 2) c2 p e con = (p', con'')"
        by fastforce
      show ?thesis
        using "2.IH"(2) [OF _ f hl f1 refl cv [symmetric]] colour_ok_printk_conv' [OF cv "2.prems"(1)]
          "2.prems"(2) pc f f1 hl cv by simp
    next
      case nhl: False
      obtain p' con'' where cv: "printk_conv 2 c1 p e con = (p', con'')" by fastforce
      show ?thesis
        using "2.IH"(3) [OF _ f nhl refl cv [symmetric]] colour_ok_printk_conv' [OF cv "2.prems"(1)]
          "2.prems"(2) pc f nhl cv by simp
    qed
  qed
qed simp


lemma printk_loop_plain:
  "\<forall>c \<in> set s. c \<noteq> CHR ''%'' \<Longrightarrow> \<not> pk_ansi e \<Longrightarrow>
     printk_loop s p e con = Some (con\<lparr>con_out := con_out con @ concat (map crlf s)\<rparr>)"
  by (induction s arbitrary: con) (simp_all add: con_write_def con_write_chars_out)


section \<open>Properties of printk\<close>








text \<open>
  C30. The ANSI colour stays between \<open>'1'\<close> and \<open>'8'\<close> across every \<open>printk\<close>.
\<close>

theorem printk_colour_inv:
  "colour_ok con \<Longrightarrow> printk fmt e con = Some con' \<Longrightarrow> colour_ok con'"
  unfolding printk_def by (rule printk_loop_colour)

theorem printk_colour_inv_witness:
  "colour_ok \<lparr>con_colour = CHR ''8'', con_out = []\<rparr> \<and>
   printk ''x'' \<lparr>pk_ansi = True, pk_args = [], pk_kstr = \<lambda>_. [], pk_ustr = \<lambda>_. []\<rparr>
     \<lparr>con_colour = CHR ''8'', con_out = []\<rparr> =
     Some \<lparr>con_colour = CHR ''2'', con_out = [CHR 0x1B, CHR ''['', CHR ''3'', CHR ''1'', CHR '';'',
            CHR ''4'', CHR ''0'', CHR ''m'', CHR ''x'']\<rparr> \<and>
   colour_ok \<lparr>con_colour = CHR ''2'', con_out = [CHR 0x1B, CHR ''['', CHR ''3'', CHR ''1'', CHR '';'',
            CHR ''4'', CHR ''0'', CHR ''m'', CHR ''x'']\<rparr>"
proof -
  have ok: "colour_ok \<lparr>con_colour = CHR ''8'', con_out = []\<rparr>" by (simp add: colour_ok_def)
  have run: "printk ''x'' \<lparr>pk_ansi = True, pk_args = [], pk_kstr = \<lambda>_. [], pk_ustr = \<lambda>_. []\<rparr>
     \<lparr>con_colour = CHR ''8'', con_out = []\<rparr> =
     Some \<lparr>con_colour = CHR ''2'', con_out = [CHR 0x1B, CHR ''['', CHR ''3'', CHR ''1'', CHR '';'',
            CHR ''4'', CHR ''0'', CHR ''m'', CHR ''x'']\<rparr>"
    using char_of_char [of "CHR ''2''", where 'a = nat]
    by (simp add: printk_def con_write_def con_colourize_def con_charout_def)
  show ?thesis using printk_colour_inv [OF ok run] ok run by simp
qed

text \<open>
  C31. \<open>con_write\<close> writes the buffer with every newline preceded by a carriage
  return; under \<open>CONFIG_DCON_ANSI_PRINTK\<close> it first writes the escape
  \<open>ESC [ 3 d ; 4 0 m\<close> whose colour digit \<open>d\<close> is one of \<open>'1'\<close>..\<open>'7'\<close> (a valid
  foreground colour, never \<open>'8'\<close>).
\<close>

theorem con_write_output:
  assumes "colour_ok con"
  shows "\<exists>d. of_char d \<in> {49::nat..55} \<and>
           con_out (con_write ansi buf con) =
             con_out con @
             (if ansi then [CHR 0x1B, CHR ''['', CHR ''3'', d, CHR '';'', CHR ''4'', CHR ''0'', CHR ''m'']
              else []) @ concat (map crlf buf)"
proof (cases ansi)
  case True
  then show ?thesis using con_colourize_out [OF assms] by (auto simp: con_write_def con_write_chars_out)
next
  case False
  then show ?thesis by (intro exI [of _ "CHR ''1''"]) (simp add: con_write_def con_write_chars_out)
qed

theorem con_write_output_witness:
  "\<exists>d. of_char d \<in> {49::nat..55} \<and>
     con_out (con_write True [CHR ''a'', CHR 0x0A] \<lparr>con_colour = CHR ''3'', con_out = []\<rparr>) =
       [CHR 0x1B, CHR ''['', CHR ''3'', d, CHR '';'', CHR ''4'', CHR ''0'', CHR ''m'',
        CHR ''a'', CHR 0x0D, CHR 0x0A]"
  using con_write_output [of "\<lparr>con_colour = CHR ''3'', con_out = []\<rparr>" True "[CHR ''a'', CHR 0x0A]"]
  by (simp add: colour_ok_def crlf_def)

text \<open>
  A format with no \<open>%\<close> is printed as it is, each newline as carriage return
  and newline, and \<open>printk\<close> returns.
\<close>

theorem printk_plain_text:
  "\<forall>c \<in> set s. c \<noteq> CHR ''%'' \<Longrightarrow> \<not> pk_ansi e \<Longrightarrow>
     printk s e con = Some (con\<lparr>con_out := con_out con @ concat (map crlf s)\<rparr>)"
  unfolding printk_def by (rule printk_loop_plain)

theorem printk_plain_text_witness:
  "printk [CHR ''h'', CHR ''i'', CHR 0x0A] \<lparr>pk_ansi = False, pk_args = [], pk_kstr = \<lambda>_. [], pk_ustr = \<lambda>_. []\<rparr>
     \<lparr>con_colour = CHR ''1'', con_out = []\<rparr> =
   Some \<lparr>con_colour = CHR ''1'', con_out = [CHR ''h'', CHR ''i'', CHR 0x0D, CHR 0x0A]\<rparr>"
  using printk_plain_text [of "[CHR ''h'', CHR ''i'', CHR 0x0A]"
      "\<lparr>pk_ansi = False, pk_args = [], pk_kstr = \<lambda>_. [], pk_ustr = \<lambda>_. []\<rparr>"
      "\<lparr>con_colour = CHR ''1'', con_out = []\<rparr>"]
  by (simp add: crlf_def)

end
