(* ===== verification/Panic.thy ===== *)
theory Panic
  imports Printk "HOL-Library.Sublist"
begin

text \<open>
  The rest of \<^verbatim>\<open>src/elks/kernel/printk.c\<close>: \<open>panic\<close> (lines 172--190) prints its
  message, walks eight frames of the caller's stack through the saved frame
  pointers and then spins in \<open>while (1);\<close>; \<open>kernel_restarted\<close> (192--195) panics;
  \<open>redirect_main\<close> (197--201) patches a near jump to \<open>kernel_restarted\<close> over the
  code at \<open>CS:0\<close>.

  The stack is the memory of \<open>Machine\<close> in the stack segment \<open>ss\<close>; a near
  \<open>int *\<close> pointer \<open>bp\<close> reads \<open>bp[k]\<close> as the word at offset \<open>bp + 2 * k\<close>. The
  argument \<open>a\<close> of \<open>panic\<close> is the offset of its parameter \<open>error\<close>, so
  \<open>(int * ) &error - 2\<close> is \<open>a - 4\<close> and the variadic arguments start at \<open>a + 2\<close>.
  A call \<open>printk(fmt, v)\<close> with one \<open>int\<close> passes the two bytes of \<open>v\<close>. \<open>panic\<close> never
  returns: the model's result is the console when control enters the final endless
  loop, and \<open>None\<close> when a \<open>printk\<close> reads past the end of its format.
\<close>

subsection \<open>Sequences of printk calls\<close>

fun printk_seq :: "(char list \<times> printk_env) list \<Rightarrow> console \<Rightarrow> console option" where
  "printk_seq [] con = Some con"
| "printk_seq ((fmt, e) # cs) con =
     (case printk fmt e con of None \<Rightarrow> None | Some con \<Rightarrow> printk_seq cs con)"

definition pk_int :: "printk_env \<Rightarrow> u16 \<Rightarrow> printk_env" where
  "pk_int e v = e\<lparr>pk_args := u16_bytes v\<rparr>"

definition stack_word :: "seg_t \<Rightarrow> memory \<Rightarrow> u16 \<Rightarrow> nat \<Rightarrow> u16" where
  "stack_word ss m bp k = peekw (bp + 2 * of_nat k) ss m"

definition stack_args :: "seg_t \<Rightarrow> memory \<Rightarrow> u16 \<Rightarrow> u8 list" where
  "stack_args ss m a = map (\<lambda>k. peekb (a + of_nat k) ss m) [0..<65536 - unat a]"

subsection \<open>panic\<close>

text \<open>
  Lines 182--187, one iteration of the stack walk for frame \<open>i\<close> at \<open>bp\<close>: the
  calls it makes and the next frame pointer \<open>bp[0]\<close>; the parameters are read from
  the next frame.
\<close>

definition panic_frame ::
  "printk_env \<Rightarrow> seg_t \<Rightarrow> memory \<Rightarrow> nat \<Rightarrow> u16 \<Rightarrow> (char list \<times> printk_env) list \<times> u16" where
  "panic_frame e ss m i bp =
     (let bp' = stack_word ss m bp 0
      in ([(''(%u) '', pk_int e (of_nat i)), (''ret addr = %p params = '', pk_int e (stack_word ss m bp 1))] @
          map (\<lambda>j. ('' %p'', pk_int e (stack_word ss m bp' j))) [2..<8] @ [([CHR 0x0A], e)], bp'))"

primrec panic_walk :: "nat \<Rightarrow> nat \<Rightarrow> printk_env \<Rightarrow> seg_t \<Rightarrow> memory \<Rightarrow> u16 \<Rightarrow> console \<Rightarrow> console option" where
  "panic_walk 0 i e ss m bp con = Some con"
| "panic_walk (Suc n) i e ss m bp con =
     (let (calls, bp') = panic_frame e ss m i bp
      in case printk_seq calls con of None \<Rightarrow> None | Some con \<Rightarrow> panic_walk n (Suc i) e ss m bp' con)"


text \<open>Lines 172--190; the walk is the loop of lines 181--188.\<close>

definition panic :: "char list \<Rightarrow> printk_env \<Rightarrow> seg_t \<Rightarrow> u16 \<Rightarrow> memory \<Rightarrow> console \<Rightarrow> console option" where
  "panic error e ss a m con =
     (case printk_seq [(CHR 0x0A # ''panic: '', e), (error, e\<lparr>pk_args := stack_args ss m (a + 2)\<rparr>),
                       (CHR 0x0A # ''apparant call stack:'' @ [CHR 0x0A], e)] con of
        None \<Rightarrow> None
      | Some con \<Rightarrow> panic_walk 8 0 e ss m (a - 4) con)"

text \<open>Lines 192--195.\<close>

definition kernel_restarted :: "printk_env \<Rightarrow> seg_t \<Rightarrow> u16 \<Rightarrow> memory \<Rightarrow> console \<Rightarrow> console option" where
  "kernel_restarted e ss a m con = panic (''kernel restarted'' @ [CHR 0x0A]) e ss a m con"

subsection \<open>redirect_main\<close>

text \<open>
  Lines 197--201: \<open>pokeb(get_cs(), 0, 0xe9)\<close> and
  \<open>pokew(get_cs(), 1, kernel_restarted - 3)\<close>, with \<open>pokeb\<close>/\<open>pokew\<close> taking the
  offset first and the segment second (as in \<^verbatim>\<open>exec.c\<close>, e.g. line 282). \<open>cs\<close> is
  the code segment and \<open>kr\<close> the offset of \<open>kernel_restarted\<close>.
\<close>

definition redirect_main :: "seg_t \<Rightarrow> u16 \<Rightarrow> memory \<Rightarrow> memory" where
  "redirect_main cs kr m = pokew cs 1 (kr - 3) (pokeb cs 0 0xE9 m)"

subsection \<open>Lemmas\<close>










lemma unat_phys:
  assumes "16 * unat seg + unat off < 2 ^ 20"
  shows "unat (phys seg off) = 16 * unat seg + unat off"
proof -
  have "unat (ucast seg :: addr) * unat (16 :: addr) < 2 ^ LENGTH(20)"
    using assms by (simp add: unat_ucast_u16_addr)
  then have p: "unat (push_bit 4 (ucast seg :: addr)) = 16 * unat seg"
    by (simp add: push_bit_eq_mult unat_mult_lem [THEN iffD1] unat_ucast_u16_addr)
  show ?thesis using assms by (simp add: phys_def unat_add_lem [THEN iffD1] p unat_ucast_u16_addr)
qed

lemma unat_phys_0: "unat (phys 0 off) = unat off"
proof -
  have "16 * unat (0::u16) + unat off < 2 ^ 20" using unat_u16_bound [of off] by (simp del: unat_u16_bound)
  then show ?thesis by (simp add: unat_phys)
qed

lemma unat_phys_1: "unat (phys 1 off) = 16 + unat off"
proof -
  have "16 * unat (1::u16) + unat off < 2 ^ 20" using unat_u16_bound [of off] by (simp del: unat_u16_bound)
  then show ?thesis by (simp add: unat_phys)
qed

lemma unat_phys_low: "unat off \<le> 2 \<Longrightarrow> unat (phys seg off) = 16 * unat seg + unat off"
proof -
  assume "unat off \<le> 2"
  then have "16 * unat seg + unat off < 2 ^ 20" using unat_u16_bound [of seg] by (simp del: unat_u16_bound)
  then show ?thesis by (rule unat_phys)
qed

text \<open>
  C8. \<open>redirect_main\<close> passes the code segment where \<open>pokeb\<close> and \<open>pokew\<close> take the
  offset, and \<open>0\<close> and \<open>1\<close> where they take the segment. The jump opcode lands at
  \<open>0000:CS\<close> and its displacement at \<open>0001:CS\<close>, inside the first 64 KiB of memory
  (the interrupt vectors and BIOS data for small \<open>CS\<close>), while the code at
  \<open>CS:0000\<close> that the patch is meant to replace keeps its three bytes.
\<close>

theorem redirect_main_misplaced:
  assumes "2 \<le> cs"
  shows "peekb cs 0 (redirect_main cs kr m) = 0xE9 \<and> peekw cs 1 (redirect_main cs kr m) = kr - 3 \<and>
         peekb 0 cs (redirect_main cs kr m) = peekb 0 cs m \<and> peekb 1 cs (redirect_main cs kr m) = peekb 1 cs m \<and>
         peekb 2 cs (redirect_main cs kr m) = peekb 2 cs m"
proof -
  have c: "2 \<le> unat cs" using assms by (simp add: word_le_nat_alt)
  have u: "unat cs < 65536" by simp
  have p0: "unat (phys 0 cs) = unat cs" by (rule unat_phys_0)
  have p1: "unat (phys 1 cs) = 16 + unat cs" by (rule unat_phys_1)
  have p2: "unat (phys 1 (cs + 1)) = 16 + (unat cs + 1) mod 65536"
    by (simp add: unat_phys_1 unat_word_ariths)
  have q: "\<And>k::u16. unat k \<le> 2 \<Longrightarrow> unat (phys cs k) = 16 * unat cs + unat k"
    by (rule unat_phys_low)
  have wrap: "(unat cs + 1) mod 65536 = unat cs + 1 \<or> unat cs = 65535"
  proof (cases "unat cs = 65535")
    case False
    then have "unat cs + 1 < 65536" using u by linarith
    then show ?thesis by simp
  qed simp
  have out: "\<And>k::u16. unat k \<le> 2 \<Longrightarrow> phys cs k \<notin> word_addrs cs 1 \<and> phys cs k \<noteq> phys 0 cs"
  proof -
    fix k :: u16 assume k: "unat k \<le> 2"
    have "unat (phys cs k) \<noteq> unat (phys 1 cs)" "unat (phys cs k) \<noteq> unat (phys 0 cs)"
      "unat (phys cs k) \<noteq> unat (phys 1 (cs + 1))"
      using q [OF k] p0 p1 p2 c k wrap by auto
    then show "phys cs k \<notin> word_addrs cs 1 \<and> phys cs k \<noteq> phys 0 cs"
      by (auto simp: word_addrs_def)
  qed
  have w0: "phys 0 cs \<notin> word_addrs cs 1"
  proof -
    have "unat (phys 0 cs) \<noteq> unat (phys 1 cs)" "unat (phys 0 cs) \<noteq> unat (phys 1 (cs + 1))"
      using p0 p1 p2 wrap by auto
    then show ?thesis by (auto simp: word_addrs_def)
  qed
  have k: "unat (0::u16) \<le> 2" "unat (1::u16) \<le> 2" "unat (2::u16) \<le> 2" by simp_all
  show ?thesis using out [OF k(1)] out [OF k(2)] out [OF k(3)] w0
    by (simp add: redirect_main_def peekb_def pokeb_def)
qed

theorem redirect_main_misplaced_witness:
  "(2::u16) \<le> 0x1000 \<and> peekb 0x1000 0 (redirect_main 0x1000 0x200 (\<lambda>_. 0)) = 0xE9 \<and>
   peekw 0x1000 1 (redirect_main 0x1000 0x200 (\<lambda>_. 0)) = 0x1FD \<and>
   peekb 0 0x1000 (redirect_main 0x1000 0x200 (\<lambda>_. 0)) = 0 \<and>
   peekb 1 0x1000 (redirect_main 0x1000 0x200 (\<lambda>_. 0)) = 0 \<and>
   peekb 2 0x1000 (redirect_main 0x1000 0x200 (\<lambda>_. 0)) = 0"
  using redirect_main_misplaced [of "0x1000" "0x200" "\<lambda>_. 0"] by (simp add: peekb_def)



end
