(* ===== verification/Os2.thy ===== *)
theory Os2
  imports Finalize
begin

text \<open>
  The loader of segmented (OS/2 NE) executables, \<open>execve_os2\<close> in
  \<^verbatim>\<open>src/elks/fs/exec.c\<close> (lines 129--343, under \<open>CONFIG_EXEC_OS2\<close>). It reads the
  DOS header and the NE header, checks the supported feature set, reads the segment
  table, allocates every segment (the automatic data segment with room for stack,
  arguments and heap) and clears its BSS, then reads every segment and applies its
  fixups, and commits the image through \<open>finalize_exec\<close>.

  The code keeps its work tables in static variables. All of them but
  \<open>seg_mem[NEMAXSEGS]\<close> are written before they are read in every call; \<open>seg_mem\<close>
  persists from one call to the next: it is cleared on the error exit
  \<open>errout2\<close> only. The model therefore takes \<open>seg_mem\<close> as an input and returns it,
  as a list of \<open>NEMAXSEGS\<close> handles (\<open>None\<close> for \<open>NULL\<close>); \<open>NEMAXSEGS\<close> is its length.

  The on-disk structures come from \<^verbatim>\<open>linuxmt/os2.h\<close>, outside \<^verbatim>\<open>src/\<close>; they are
  modelled with the standard NE layout (DOS header of 64 bytes with the NE offset
  at 0x3C, NE header of 64 bytes, segment entries and fixup records of 8 bytes).

  Undefined behaviour of the C code is the result \<open>None\<close>: an index of \<open>seg_mem\<close>
  outside the table, a \<open>NULL\<close> entry dereferenced, a freed segment used or released
  again, and a 32-bit shift by 32 or more.
\<close>

subsection \<open>On-disk structures\<close>

definition NEMAGIC :: u16 where "NEMAGIC = 0x454E"
definition NETARGET_OS2 :: u8 where "NETARGET_OS2 = 1"
definition NEPRG_FLG_MULTIPLEDATA :: u8 where "NEPRG_FLG_MULTIPLEDATA = 2"
definition NESEG_DATA :: u16 where "NESEG_DATA = 1"
definition NESEG_RELOCINFO :: u16 where "NESEG_RELOCINFO = 0x100"
definition NEFIXSRC_SEGMENT :: u8 where "NEFIXSRC_SEGMENT = 2"
definition NEFIXSRC_FARADDR :: u8 where "NEFIXSRC_FARADDR = 3"
definition NEFIXFLG_TARGET_MASK :: u8 where "NEFIXFLG_TARGET_MASK = 3"
definition NEFIXFLG_INTERNALREF :: u8 where "NEFIXFLG_INTERNALREF = 0"
definition NEFIXFLG_ADDITIVE :: u8 where "NEFIXFLG_ADDITIVE = 4"

record dos_exec_hdr =
  ext_hdr_offset :: u32

record os2_exec_hdr =
  oh_magic :: u16
  oh_program_flags :: u8
  oh_auto_data_segment :: u16
  oh_heap_size :: u16
  oh_stack_size :: u16
  oh_reg_ip :: u16
  oh_reg_cs :: u16
  oh_num_segments :: u16
  oh_num_modules :: u16
  oh_segment_table_offset :: u16
  oh_num_movable_entries :: u16
  oh_file_alignment_shift_count :: u16
  oh_num_resource_entries :: u16
  oh_target_os :: u8

record ne_segment =
  ns_offset :: u16
  ns_size :: u16
  ns_flags :: u16
  ns_min_alloc :: u16

record ne_reloc =
  nr_src_type :: u8
  nr_flags :: u8
  nr_src_chain :: u16
  nr_segment :: u8
  nr_offset :: u16

definition decode_dos_hdr :: "u8 list \<Rightarrow> dos_exec_hdr" where
  "decode_dos_hdr bs = \<lparr>ext_hdr_offset = le32_at bs 0x3C\<rparr>"

definition decode_os2_hdr :: "u8 list \<Rightarrow> os2_exec_hdr" where
  "decode_os2_hdr bs =
     \<lparr>oh_magic = le16_at bs 0, oh_program_flags = byte_at bs 12, oh_auto_data_segment = le16_at bs 14,
      oh_heap_size = le16_at bs 16, oh_stack_size = le16_at bs 18, oh_reg_ip = le16_at bs 20,
      oh_reg_cs = le16_at bs 22, oh_num_segments = le16_at bs 28, oh_num_modules = le16_at bs 30,
      oh_segment_table_offset = le16_at bs 34, oh_num_movable_entries = le16_at bs 48,
      oh_file_alignment_shift_count = le16_at bs 50, oh_num_resource_entries = le16_at bs 52,
      oh_target_os = byte_at bs 54\<rparr>"

definition decode_ne_segment :: "u8 list \<Rightarrow> ne_segment" where
  "decode_ne_segment bs =
     \<lparr>ns_offset = le16_at bs 0, ns_size = le16_at bs 2, ns_flags = le16_at bs 4, ns_min_alloc = le16_at bs 6\<rparr>"

definition decode_ne_reloc :: "u8 list \<Rightarrow> ne_reloc" where
  "decode_ne_reloc bs =
     \<lparr>nr_src_type = byte_at bs 0, nr_flags = byte_at bs 1, nr_src_chain = le16_at bs 2,
      nr_segment = byte_at bs 4, nr_offset = le16_at bs 6\<rparr>"

text \<open>The segment table as the code indexes it: \<open>os2segs[0 .. num_segments - 1]\<close>.\<close>

definition decode_segs :: "nat \<Rightarrow> u8 list \<Rightarrow> ne_segment list" where
  "decode_segs n bs = map (\<lambda>i. decode_ne_segment (drop (8 * i) bs)) [0..<n]"

subsection \<open>Sizing a segment\<close>

text \<open>
  Lines 192--194: the paragraphs of a segment from its minimum allocation, in 16-bit
  arithmetic, 0 standing for 64 KiB.
\<close>

definition os2_seg_paras :: "u16 \<Rightarrow> size_t" where
  "os2_seg_paras min_alloc =
     (let s = drop_bit 4 ((min_alloc + 15) AND NOT 15) in if s = 0 then 0x1000 else s)"

text \<open>
  Lines 195--209: the automatic data segment reserves the stack, the argument block
  and the heap (a heap of \<open>0xffff\<close> counts as one byte), all in 16-bit arithmetic;
  4096 paragraphs or more is \<open>-E2BIG\<close>; the \<open>0xffff\<close> heap then takes the segment to
  \<open>0x0FFF\<close> paragraphs.
\<close>

definition os2_auto_paras :: "os2_exec_hdr \<Rightarrow> size_t \<Rightarrow> size_t \<Rightarrow> size_t result" where
  "os2_auto_paras h slen s =
     (let heap = (if oh_heap_size h = 0xffff then 1 else oh_heap_size h);
          s = s + drop_bit 4 (oh_stack_size h + slen + 15) + drop_bit 4 (heap + 15)
      in if 0x1000 \<le> s then Inl E2BIG
         else if oh_heap_size h = 0xffff then Inr 0x0FFF else Inr s)"

text \<open>Lines 222--233: clear the BSS between the on-disk size and the minimum allocation.\<close>

definition os2_clear_bss :: "ne_segment \<Rightarrow> seg_t \<Rightarrow> memory \<Rightarrow> memory" where
  "os2_clear_bss sg b m =
     (if ns_min_alloc sg \<noteq> ns_size sg then fmemsetb (ns_size sg) b 0 (unat (ns_min_alloc sg - ns_size sg)) m
      else if ns_min_alloc sg = 0 then fmemsetb 0x8000 b 0 0x8000 (fmemsetb 0 b 0 0x8000 m)
      else m)"

subsection \<open>Allocation of the segments\<close>

type_synonym seg_table = "seg_id option list"

text \<open>
  Lines 187--234, the first loop, from segment \<open>i\<close> (0-based) on: size, allocate as
  code or data per the flags, remember the entry and automatic data segments, clear
  the BSS. \<open>s\<close> is the code's variable \<open>s\<close>: after the loop it holds the size of the
  last segment. An allocation failure stores \<open>NULL\<close> in \<open>seg_mem[i]\<close>; the size check
  leaves \<open>seg_mem[i]\<close> as it was.
\<close>

fun os2_alloc ::
  "os2_exec_hdr \<Rightarrow> size_t \<Rightarrow> nat \<Rightarrow> ne_segment list \<Rightarrow> seg_table \<Rightarrow> seg_id option \<Rightarrow> seg_id option \<Rightarrow>
     size_t \<Rightarrow> kstate \<Rightarrow>
     (errno \<times> seg_table \<times> kstate) + ((seg_table \<times> seg_id option \<times> seg_id option \<times> size_t) \<times> kstate)" where
  "os2_alloc h slen i [] sm sc sd s st = Inr ((sm, sc, sd, s), st)"
| "os2_alloc h slen i (sg # sgs) sm sc sd s st =
     (let s = os2_seg_paras (ns_min_alloc sg) in
      case (if Suc i = unat (oh_auto_data_segment h) then os2_auto_paras h slen s else Inr s) of
        Inl e \<Rightarrow> Inl (e, sm, st)
      | Inr s \<Rightarrow>
          (case seg_alloc s (if ns_flags sg AND NESEG_DATA \<noteq> 0 then SEG_FLAG_DSEG else SEG_FLAG_CSEG)
                  (ks_mm st) of
             None \<Rightarrow> Inl (ENOMEM, sm[i := None], st)
           | Some (hs, mm) \<Rightarrow>
               os2_alloc h slen (Suc i) sgs (sm[i := Some hs])
                 (if Suc i = unat (oh_reg_cs h) then Some hs else sc)
                 (if Suc i = unat (oh_auto_data_segment h) then Some hs else sd) s
                 (st\<lparr>ks_mm := mm, ks_mem := os2_clear_bss sg (seg_base mm hs) (ks_mem st)\<rparr>)))"

subsection \<open>Reading the segments and their fixups\<close>

text \<open>
  \<open>seg_mem[i]->base\<close>: undefined outside the table, for a \<open>NULL\<close> entry and for a
  segment that was freed.
\<close>

definition os2_seg_base :: "seg_table \<Rightarrow> mm_state \<Rightarrow> nat \<Rightarrow> seg_t option" where
  "os2_seg_base sm mm i =
     (if i < length sm then
        (case sm ! i of None \<Rightarrow> None | Some h \<Rightarrow> map_option base (map_of (mm_segs mm) h))
      else None)"

text \<open>
  Lines 269--301, one fixup record applied to the segment at \<open>b\<close>: an internal
  reference of the segment or far-address kind, its target segment numbered from 1
  (\<open>seg_mem[reloc.segment-1]\<close>, not range-checked). Other records fail the load with
  \<open>retval = sizeof(reloc)\<close>, which the exit reports as \<open>-EINVAL\<close>.
\<close>

definition os2_fixup :: "seg_table \<Rightarrow> mm_state \<Rightarrow> seg_t \<Rightarrow> ne_reloc \<Rightarrow> memory \<Rightarrow> (errno + memory) option" where
  "os2_fixup sm mm b r m =
     (if nr_flags r AND NEFIXFLG_TARGET_MASK \<noteq> NEFIXFLG_INTERNALREF \<or>
         (nr_src_type r \<noteq> NEFIXSRC_SEGMENT \<and> nr_src_type r \<noteq> NEFIXSRC_FARADDR) then Some (Inl EINVAL)
      else if nr_segment r = 0 then None
      else
        (case os2_seg_base sm mm (unat (nr_segment r) - 1) of
           None \<Rightarrow> None
         | Some tb \<Rightarrow>
             if nr_src_type r = NEFIXSRC_SEGMENT then Some (Inr (pokew (nr_src_chain r) b tb m))
             else
               (let v = (if nr_flags r AND NEFIXFLG_ADDITIVE \<noteq> 0 then peekw (nr_src_chain r) b m + nr_offset r
                         else nr_offset r)
                in Some (Inr (pokew (nr_src_chain r + 2) b tb (pokew (nr_src_chain r) b v m))))))"

text \<open>Lines 261--303: \<open>n\<close> fixup records read one by one from the file.\<close>

primrec os2_relocs :: "seg_table \<Rightarrow> seg_t \<Rightarrow> nat \<Rightarrow> file_s \<Rightarrow> kstate \<Rightarrow> file_s kres option" where
  "os2_relocs sm b 0 f st = Some (Inr (f, st))"
| "os2_relocs sm b (Suc n) f st =
     (let (bs, f) = file_read 8 f in
      if length bs \<noteq> 8 then Some (Inl (EINVAL, st))
      else
        (case os2_fixup sm (ks_mm st) b (decode_ne_reloc bs) (ks_mem st) of
           None \<Rightarrow> None
         | Some (Inl e) \<Rightarrow> Some (Inl (e, st))
         | Some (Inr m) \<Rightarrow> os2_relocs sm b n f (st\<lparr>ks_mem := m\<rparr>)))"

text \<open>
  Lines 240--305, the second loop, from segment \<open>i\<close> on: a segment of size 0 stops
  the load; otherwise its bytes are read at \<open>offset << file_alignment_shift_count\<close>
  into the segment, followed by its fixups when flagged. \<open>rv\<close> is the error the exit
  reports at that point: \<open>-ENOMEM\<close> (still in \<open>retval\<close> from the allocation loop)
  before the first read, \<open>-EINVAL\<close> (a non-negative byte count) after it.
\<close>

fun os2_read_segs ::
  "os2_exec_hdr \<Rightarrow> seg_table \<Rightarrow> nat \<Rightarrow> ne_segment list \<Rightarrow> errno \<Rightarrow> file_s \<Rightarrow> kstate \<Rightarrow> unit kres option" where
  "os2_read_segs h sm i [] rv f st = Some (Inr ((), st))"
| "os2_read_segs h sm i (sg # sgs) rv f st =
     (if ns_size sg = 0 then Some (Inl (rv, st))
      else if 32 \<le> unat (oh_file_alignment_shift_count h) then None
      else
        (case os2_seg_base sm (ks_mm st) i of
           None \<Rightarrow> None
         | Some b \<Rightarrow>
             (let f = f\<lparr>f_pos := unat (push_bit (unat (oh_file_alignment_shift_count h))
                                          (ucast (ns_offset sg) :: u32))\<rparr>;
                  (n, f, m) = file_read_far (unat (ns_size sg)) 0 b f (ks_mem st);
                  st = st\<lparr>ks_mem := m\<rparr>
              in if n \<noteq> unat (ns_size sg) then Some (Inl (EINVAL, st))
                 else if ns_flags sg AND NESEG_RELOCINFO = 0 then os2_read_segs h sm (Suc i) sgs EINVAL f st
                 else
                   (let (bs, f) = file_read 2 f in
                    if length bs \<noteq> 2 then Some (Inl (EINVAL, st))
                    else
                      (case os2_relocs sm b (unat (le16_at bs 0)) f st of
                         None \<Rightarrow> None
                       | Some (Inl e) \<Rightarrow> Some (Inl e)
                       | Some (Inr (f, st)) \<Rightarrow> os2_read_segs h sm (Suc i) sgs EINVAL f st)))))"

subsection \<open>Exits and commit\<close>

text \<open>
  Lines 327--332, \<open>errout2\<close>: \<open>seg_put\<close> every non-\<open>NULL\<close> entry of \<open>seg_mem\<close>, in
  index order, and clear it. Releasing a segment that is no longer allocated is
  undefined.
\<close>

fun os2_release :: "seg_table \<Rightarrow> mm_state \<Rightarrow> mm_state option" where
  "os2_release [] mm = Some mm"
| "os2_release (None # sm) mm = os2_release sm mm"
| "os2_release (Some h # sm) mm =
     (case map_of (mm_segs mm) h of None \<Rightarrow> None | Some _ \<Rightarrow> os2_release sm (seg_put h mm))"

text \<open>
  Lines 327--341: \<open>errout2\<close> then \<open>errout\<close> and the common exit: the status, the
  cleared table, and the inode reference dropped.
\<close>

definition os2_errout2 :: "inode_id \<Rightarrow> errno \<Rightarrow> seg_table \<Rightarrow> kstate \<Rightarrow> (unit result \<times> seg_table \<times> kstate) option" where
  "os2_errout2 inode e sm st =
     map_option (\<lambda>mm. (Inl e, replicate (length sm) None, iput inode (st\<lparr>ks_mm := mm\<rparr>)))
       (os2_release sm (ks_mm st))"

text \<open>
  Lines 309--322, past the point of no return: the limits of the data segment (from
  \<open>s\<close>, the size computed last), the argument block copied below its top, the
  minimum stack, then \<open>finalize_exec\<close> with the entry point \<open>reg_ip\<close>.
\<close>

definition os2_commit ::
  "os2_exec_hdr \<Rightarrow> ne_segment list \<Rightarrow> seg_table \<Rightarrow> size_t \<Rightarrow> u16 \<Rightarrow> size_t \<Rightarrow> seg_t \<Rightarrow> inode_id \<Rightarrow>
     seg_id \<Rightarrow> seg_id \<Rightarrow> kstate \<Rightarrow> kstate option" where
  "os2_commit h segs sm s sptr slen ds inode sc sd st =
     (let a = unat (oh_auto_data_segment h) - 1;
          t = current st;
          t = t\<lparr>t_endseg := push_bit 4 s, t_enddata := ns_min_alloc (segs ! a)\<rparr>;
          t = t\<lparr>t_begstack := (t_endseg t - slen) AND NOT 1, t_minstack := oh_stack_size h\<rparr>
      in case os2_seg_base sm (ks_mm st) a of
           None \<Rightarrow> None
         | Some db \<Rightarrow>
             (let m = fmemcpyb (t_begstack t) db sptr ds (unat slen) (ks_mem st);
                  t = t\<lparr>t_regs_ds := seg_base (ks_mm st) sd\<rparr>
              in finalize_exec inode sc sd (oh_reg_ip h) (set_current t (st\<lparr>ks_mem := m\<rparr>))))"

text \<open>Lines 158--165: the features the loader supports.\<close>

definition os2_hdr_supported :: "os2_exec_hdr \<Rightarrow> bool" where
  "os2_hdr_supported h \<longleftrightarrow>
     oh_magic h = NEMAGIC \<and> oh_target_os h = NETARGET_OS2 \<and>
     oh_program_flags h AND 0x1F = NEPRG_FLG_MULTIPLEDATA \<and>
     oh_auto_data_segment h \<noteq> 0 \<and> oh_auto_data_segment h \<le> oh_num_segments h \<and>
     oh_num_modules h = 0 \<and> oh_num_movable_entries h = 0 \<and> oh_num_resource_entries h = 0"

text \<open>Lines 171--174: a zero heap or stack takes the default.\<close>

definition os2_defaults :: "config \<Rightarrow> os2_exec_hdr \<Rightarrow> os2_exec_hdr" where
  "os2_defaults cfg h =
     h\<lparr>oh_heap_size := (if oh_heap_size h = 0 then INIT_HEAP cfg else oh_heap_size h),
       oh_stack_size := (if oh_stack_size h = 0 then INIT_STACK cfg else oh_stack_size h)\<rparr>"

subsection \<open>The loader\<close>

text \<open>
  Lines 187--342, from the allocation loop on, for the header \<open>h\<close> and the segment
  table \<open>segs\<close>; \<open>f\<close> is the file after the segment table, \<open>ds\<close> the caller's data
  segment. A missing entry or automatic data segment exits with the \<open>-ENOMEM\<close>
  still in \<open>retval\<close>.
\<close>

definition os2_run ::
  "os2_exec_hdr \<Rightarrow> ne_segment list \<Rightarrow> inode_id \<Rightarrow> file_s \<Rightarrow> u16 \<Rightarrow> size_t \<Rightarrow> seg_t \<Rightarrow> seg_table \<Rightarrow>
     kstate \<Rightarrow> (unit result \<times> seg_table \<times> kstate) option" where
  "os2_run h segs inode f sptr slen ds sm st =
     (case os2_alloc h slen 0 segs sm None None 0 st of
        Inl (e, sm, st) \<Rightarrow> os2_errout2 inode e sm st
      | Inr ((sm, sco, sdo, s), st) \<Rightarrow>
          (case (sco, sdo) of
             (Some sc, Some sd) \<Rightarrow>
               (case os2_read_segs h sm 0 segs ENOMEM f st of
                  None \<Rightarrow> None
                | Some (Inl (e, st)) \<Rightarrow> os2_errout2 inode e sm st
                | Some (Inr (_, st)) \<Rightarrow>
                    map_option (\<lambda>st. (Inr (), sm, st)) (os2_commit h segs sm s sptr slen ds inode sc sd st))
           | _ \<Rightarrow> os2_errout2 inode ENOMEM sm st))"

text \<open>
  Lines 140--186, then \<open>os2_run\<close>. The result is \<open>None\<close> on undefined behaviour or when the commit
  does not return; otherwise the status, the static table \<open>seg_mem\<close> as the call
  leaves it, and the state. Exits before the allocation loop (\<open>errout\<close>) leave
  \<open>seg_mem\<close> untouched; \<open>ds\<close> is the caller's data segment, the segment of
  \<open>sptr\<close>.
\<close>

definition execve_os2 ::
  "config \<Rightarrow> inode_id \<Rightarrow> file_s \<Rightarrow> u16 \<Rightarrow> size_t \<Rightarrow> seg_table \<Rightarrow> kstate \<Rightarrow>
     (unit result \<times> seg_table \<times> kstate) option" where
  "execve_os2 cfg inode f sptr slen sm st =
     (let ds = t_regs_ds (current st);
          (bs, f) = file_read 64 (f\<lparr>f_pos := 0\<rparr>)
      in if length bs \<noteq> 64 then Some (Inl EINVAL, sm, iput inode st)
      else
        (let dh = decode_dos_hdr bs;
             (bs, f) = file_read 64 (f\<lparr>f_pos := unat (ext_hdr_offset dh)\<rparr>)
         in if length bs \<noteq> 64 then Some (Inl EINVAL, sm, iput inode st)
         else if \<not> os2_hdr_supported (decode_os2_hdr bs) then Some (Inl EINVAL, sm, iput inode st)
         else
           (let h = os2_defaults cfg (decode_os2_hdr bs)
            in if length sm < unat (oh_num_segments h) then Some (Inl E2BIG, sm, iput inode st)
            else
              (let n = oh_num_segments h * 8;
                   (bs, f) = file_read (unat n)
                     (f\<lparr>f_pos := unat (ucast (oh_segment_table_offset h) + ext_hdr_offset dh)\<rparr>)
               in if length bs \<noteq> unat n then Some (Inl EINVAL, sm, iput inode st)
               else
                 os2_run h (decode_segs (unat (oh_num_segments h)) bs) inode f sptr slen ds sm st))))"

subsection \<open>Helpers of the proofs and examples\<close>

text \<open>
  \<open>somes\<close>: the non-\<open>NULL\<close> entries of a table in order. \<open>os2_grown st sm st' sm'\<close>:
  the allocation loop only appended fresh segments (one reference each) whose
  handles are the entries it added to the table, and kept everything else.
  \<open>kres_state\<close>: the state of a result. The byte encoders and the example images
  are the inputs of the concrete runs.
\<close>

primrec somes :: "'a option list \<Rightarrow> 'a list" where
  "somes [] = []"
| "somes (x # xs) = (case x of None \<Rightarrow> somes xs | Some h \<Rightarrow> h # somes xs)"

definition os2_grown :: "kstate \<Rightarrow> seg_table \<Rightarrow> kstate \<Rightarrow> seg_table \<Rightarrow> bool" where
  "os2_grown st sm st' sm' \<longleftrightarrow>
     (\<exists>new. mm_segs (ks_mm st') = mm_segs (ks_mm st) @ new \<and> somes sm' = somes sm @ map fst new \<and>
        distinct (map fst new) \<and> (\<forall>k \<in> set (map fst new). mm_next (ks_mm st) \<le> k) \<and>
        (\<forall>p \<in> set new. ref_count (snd p) = 1)) \<and>
     mm_ok (ks_mm st') \<and> mm_next (ks_mm st) \<le> mm_next (ks_mm st') \<and> ks_tasks st' = ks_tasks st \<and>
     ks_cur st' = ks_cur st \<and> ks_inodes st' = ks_inodes st \<and> length sm' = length sm"

definition kres_state :: "'a kres \<Rightarrow> kstate" where
  "kres_state r = (case r of Inl (e, st) \<Rightarrow> st | Inr (a, st) \<Rightarrow> st)"

definition dos_hdr_bytes :: "u32 \<Rightarrow> u8 list" where
  "dos_hdr_bytes off = replicate 60 0 @ u32_bytes off"

definition os2_hdr_bytes :: "os2_exec_hdr \<Rightarrow> u8 list" where
  "os2_hdr_bytes h =
     u16_bytes (oh_magic h) @ replicate 10 0 @ [oh_program_flags h, 0] @ u16_bytes (oh_auto_data_segment h) @
     u16_bytes (oh_heap_size h) @ u16_bytes (oh_stack_size h) @ u16_bytes (oh_reg_ip h) @
     u16_bytes (oh_reg_cs h) @ replicate 4 0 @ u16_bytes (oh_num_segments h) @ u16_bytes (oh_num_modules h) @
     replicate 2 0 @ u16_bytes (oh_segment_table_offset h) @ replicate 12 0 @
     u16_bytes (oh_num_movable_entries h) @ u16_bytes (oh_file_alignment_shift_count h) @
     u16_bytes (oh_num_resource_entries h) @ [oh_target_os h] @ replicate 9 0"

definition ne_segment_bytes :: "ne_segment \<Rightarrow> u8 list" where
  "ne_segment_bytes sg =
     u16_bytes (ns_offset sg) @ u16_bytes (ns_size sg) @ u16_bytes (ns_flags sg) @ u16_bytes (ns_min_alloc sg)"

definition ex_os2_cfg :: config where
  "ex_os2_cfg = elks_config\<lparr>CONFIG_EXEC_OS2 := True\<rparr>"

definition ex_os2_hdr :: os2_exec_hdr where
  "ex_os2_hdr =
     \<lparr>oh_magic = NEMAGIC, oh_program_flags = 2, oh_auto_data_segment = 1, oh_heap_size = 0x100,
      oh_stack_size = 0x8000, oh_reg_ip = 0, oh_reg_cs = 1, oh_num_segments = 1, oh_num_modules = 0,
      oh_segment_table_offset = 64, oh_num_movable_entries = 0, oh_file_alignment_shift_count = 0,
      oh_num_resource_entries = 0, oh_target_os = 1\<rparr>"

definition ex_os2_seg :: ne_segment where
  "ex_os2_seg = \<lparr>ns_offset = 0, ns_size = 0x10, ns_flags = 1, ns_min_alloc = 0x8000\<rparr>"

definition ex_os2_file :: "os2_exec_hdr \<Rightarrow> ne_segment list \<Rightarrow> u8 list \<Rightarrow> file_s" where
  "ex_os2_file h segs rest =
     \<lparr>f_data = dos_hdr_bytes 64 @ os2_hdr_bytes h @ concat (map ne_segment_bytes segs) @ rest, f_pos = 32\<rparr>"

definition ex_fit_hdr :: os2_exec_hdr where
  "ex_fit_hdr = ex_os2_hdr\<lparr>oh_stack_size := 0x100\<rparr>"

definition ex_far_reloc :: ne_reloc where
  "ex_far_reloc = \<lparr>nr_src_type = 3, nr_flags = 4, nr_src_chain = 0x10, nr_segment = 1, nr_offset = 5\<rparr>"

definition ex_two_segs :: "ne_segment list" where
  "ex_two_segs = [\<lparr>ns_offset = 1, ns_size = 0x100, ns_flags = 1, ns_min_alloc = 0x100\<rparr>,
                  \<lparr>ns_offset = 2, ns_size = 0x200, ns_flags = 0, ns_min_alloc = 0x200\<rparr>]"

definition ex_wrap_hdr :: os2_exec_hdr where
  "ex_wrap_hdr =
     \<lparr>oh_magic = NEMAGIC, oh_program_flags = 2, oh_auto_data_segment = 1, oh_heap_size = 0x10,
      oh_stack_size = 0xFFF0, oh_reg_ip = 0, oh_reg_cs = 1, oh_num_segments = 1, oh_num_modules = 0,
      oh_segment_table_offset = 64, oh_num_movable_entries = 0, oh_file_alignment_shift_count = 0,
      oh_num_resource_entries = 0, oh_target_os = 1\<rparr>"

subsection \<open>Lemmas\<close>

lemma somes_append [simp]: "somes (xs @ ys) = somes xs @ somes ys"
  by (induction xs) (auto split: option.splits)

lemma somes_replicate_None [simp]: "somes (replicate n None) = []"
  by (induction n) auto

lemma somes_None: "set xs \<subseteq> {None} \<Longrightarrow> somes xs = []"
  by (induction xs) auto

lemma somes_update_None: "set (drop i sm) \<subseteq> {None} \<Longrightarrow> somes (sm[i := None]) = somes sm"
proof (induction sm arbitrary: i)
  case (Cons x xs)
  then show ?case by (cases i) (auto split: option.splits)
qed simp

lemma somes_update_Some:
  "set (drop i sm) \<subseteq> {None} \<Longrightarrow> i < length sm \<Longrightarrow> somes (sm[i := Some h]) = somes sm @ [h]"
proof (induction sm arbitrary: i)
  case (Cons x xs)
  then show ?case by (cases i) (auto split: option.splits simp: somes_None)
qed simp

lemma update_fresh_append: "k \<notin> fst ` set al \<Longrightarrow> AList.update k v al = al @ [(k, v)]"
  by (induction al) auto

lemma os2_grown_refl: "mm_ok (ks_mm st) \<Longrightarrow> somes sm' = somes sm \<Longrightarrow> length sm' = length sm \<Longrightarrow>
    os2_grown st sm st sm'"
  unfolding os2_grown_def by (intro conjI exI [of _ "[]"]) auto

lemma os2_grown_trans:
  assumes a: "os2_grown st0 sm0 st1 sm1" and b: "os2_grown st1 sm1 st2 sm2"
  shows "os2_grown st0 sm0 st2 sm2"
proof -
  obtain n1 where n1: "mm_segs (ks_mm st1) = mm_segs (ks_mm st0) @ n1" "somes sm1 = somes sm0 @ map fst n1"
    "distinct (map fst n1)" "\<forall>k \<in> set (map fst n1). mm_next (ks_mm st0) \<le> k" "\<forall>p \<in> set n1. ref_count (snd p) = 1"
    using a unfolding os2_grown_def by blast
  obtain n2 where n2: "mm_segs (ks_mm st2) = mm_segs (ks_mm st1) @ n2" "somes sm2 = somes sm1 @ map fst n2"
    "distinct (map fst n2)" "\<forall>k \<in> set (map fst n2). mm_next (ks_mm st1) \<le> k" "\<forall>p \<in> set n2. ref_count (snd p) = 1"
    using b unfolding os2_grown_def by blast
  have "\<forall>k \<in> set (map fst n1). k < mm_next (ks_mm st1)"
    using a n1(1) by (auto simp: os2_grown_def mm_ok_def list_all_iff)
  then have "set (map fst n1) \<inter> set (map fst n2) = {}" using n2(4) by fastforce
  then show ?thesis using a b n1 n2 unfolding os2_grown_def
    by (intro conjI exI [of _ "n1 @ n2"]) auto
qed

lemma os2_alloc_grown:
  assumes "mm_ok (ks_mm st)" and "set (drop i sm) \<subseteq> {None}" and "i + length segs \<le> length sm"
  shows "case os2_alloc h slen i segs sm sc sd s st of
           Inl (e, sm', st') \<Rightarrow> os2_grown st sm st' sm'
         | Inr ((sm', _), st') \<Rightarrow> os2_grown st sm st' sm'"
  using assms
proof (induction segs arbitrary: i sm sc sd s st)
  case Nil
  then show ?case by (simp add: os2_grown_refl)
next
  case (Cons sg segs)
  let ?s = "os2_seg_paras (ns_min_alloc sg)"
  let ?fl = "if ns_flags sg AND NESEG_DATA \<noteq> 0 then SEG_FLAG_DSEG else SEG_FLAG_CSEG"
  have refl: "os2_grown st sm st sm" using Cons.prems(1) by (simp add: os2_grown_refl)
  show ?case
  proof (cases "if Suc i = unat (oh_auto_data_segment h) then os2_auto_paras h slen ?s else Inr ?s")
    case (Inl e)
    then show ?thesis using refl by (simp add: Let_def)
  next
    case (Inr s1)
    show ?thesis
    proof (cases "seg_alloc s1 ?fl (ks_mm st)")
      case None
      have "os2_grown st sm st (sm[i := None])"
        using Cons.prems by (simp add: os2_grown_refl somes_update_None)
      then show ?thesis using Inr None by (simp add: Let_def)
    next
      case (Some r)
      obtain hs mm where r: "r = (hs, mm)" by fastforce
      let ?st1 = "st\<lparr>ks_mm := mm, ks_mem := os2_clear_bss sg (seg_base mm hs) (ks_mem st)\<rparr>"
      let ?sm1 = "sm[i := Some hs]"
      have al: "seg_alloc s1 ?fl (ks_mm st) = Some (hs, mm)" using Some r by simp
      note A = seg_alloc_Some [OF al]
      have ok1: "mm_ok mm" by (rule seg_alloc_mm_ok [OF Cons.prems(1) al])
      have il: "i < length sm" using Cons.prems(3) by simp
      have g1: "os2_grown st sm ?st1 ?sm1"
        unfolding os2_grown_def
        using A ok1 Cons.prems somes_update_Some [OF Cons.prems(2) il, of hs]
          update_fresh_append [OF mm_ok_fresh [OF Cons.prems(1)]]
        by (intro conjI exI [of _ "[(hs, \<lparr>base = of_nat (mm_free (ks_mm st)), seg_size = s1, flags = ?fl,
              ref_count = 1\<rparr>)]"]) auto
      have d1: "set (drop (Suc i) ?sm1) \<subseteq> {None}"
        using Cons.prems(2) set_drop_subset_set_drop [of i "Suc i" sm] by (simp add: drop_update_cancel)
      have "case os2_alloc h slen (Suc i) segs ?sm1
                (if Suc i = unat (oh_reg_cs h) then Some hs else sc)
                (if Suc i = unat (oh_auto_data_segment h) then Some hs else sd) s1 ?st1 of
              Inl (e, sm', st') \<Rightarrow> os2_grown ?st1 ?sm1 st' sm'
            | Inr ((sm', _), st') \<Rightarrow> os2_grown ?st1 ?sm1 st' sm'"
        using Cons.IH [of ?st1 "Suc i" ?sm1] ok1 d1 Cons.prems(3) by simp
      then show ?thesis using Inr al g1
        by (auto simp: Let_def split: sum.splits prod.splits intro: os2_grown_trans)
    qed
  qed
qed

lemma kres_state_simps [simp]: "kres_state (Inl (e, st)) = st" "kres_state (Inr (a, st)) = st"
  by (simp_all add: kres_state_def)

lemma only_mem_upd_trans: "only_mem (st\<lparr>ks_mem := m\<rparr>) st' \<Longrightarrow> only_mem st st'"
  by (rule only_mem_trans [OF only_mem_upd])

lemma os2_relocs_only_mem: "os2_relocs sm b n f st = Some r \<Longrightarrow> only_mem st (kres_state r)"
proof (induction n arbitrary: f st)
  case (Suc n)
  obtain bs f1 where rd: "file_read 8 f = (bs, f1)" by fastforce
  show ?case
  proof (cases "length bs = 8")
    case True
    then show ?thesis using Suc rd
      by (auto split: option.splits sum.splits intro: only_mem_upd_trans)
  qed (use Suc rd in auto)
qed auto

lemma os2_read_segs_only_mem: "os2_read_segs h sm i segs rv f st = Some r \<Longrightarrow> only_mem st (kres_state r)"
proof (induction segs arbitrary: i rv f st)
  case (Cons sg segs)
  show ?case
  proof (cases "ns_size sg = 0 \<or> 32 \<le> unat (oh_file_alignment_shift_count h)")
    case False
    then obtain b where b: "os2_seg_base sm (ks_mm st) i = Some b"
      using Cons.prems by (cases "os2_seg_base sm (ks_mm st) i") simp_all
    obtain n f1 m where rd: "file_read_far (unat (ns_size sg)) 0 b
        (f\<lparr>f_pos := unat (push_bit (unat (oh_file_alignment_shift_count h)) (ucast (ns_offset sg) :: u32))\<rparr>)
        (ks_mem st) = (n, f1, m)" by (metis prod.exhaust)
    obtain bs f2 where rd2: "file_read 2 f1 = (bs, f2)" by fastforce
    let ?st1 = "st\<lparr>ks_mem := m\<rparr>"
    have pre: "ns_size sg \<noteq> 0" "\<not> 32 \<le> unat (oh_file_alignment_shift_count h)" using False by auto
    show ?thesis
    proof (cases "n = unat (ns_size sg)")
      case False
      then have "r = Inl (EINVAL, ?st1)" using Cons.prems pre b rd by (simp add: Let_def)
      then show ?thesis by simp
    next
      case n: True
      show ?thesis
      proof (cases "ns_flags sg AND NESEG_RELOCINFO = 0")
        case True
        then have "os2_read_segs h sm (Suc i) segs EINVAL f1 ?st1 = Some r"
          using Cons.prems pre b rd n by (simp add: Let_def)
        then have "only_mem ?st1 (kres_state r)" by (rule Cons.IH)
        then show ?thesis by (rule only_mem_upd_trans)
      next
        case fl: False
        show ?thesis
        proof (cases "length bs = 2")
          case False
          then have "r = Inl (EINVAL, ?st1)" using Cons.prems pre b rd rd2 n fl by (simp add: Let_def)
          then show ?thesis by simp
        next
          case True
          then have run: "(case os2_relocs sm b (unat (le16_at bs 0)) f2 ?st1 of
                None \<Rightarrow> None
              | Some (Inl e) \<Rightarrow> Some (Inl e)
              | Some (Inr (f, st)) \<Rightarrow> os2_read_segs h sm (Suc i) segs EINVAL f st) = Some r"
            using Cons.prems pre b rd rd2 n fl by (simp add: Let_def)
          then obtain x where rl: "os2_relocs sm b (unat (le16_at bs 0)) f2 ?st1 = Some x"
            by (auto split: option.splits)
          note R = os2_relocs_only_mem [OF rl]
          show ?thesis
          proof (cases x)
            case (Inl e)
            obtain e1 s1 where e: "e = (e1, s1)" by fastforce
            have "r = Inl (e1, s1)" using run rl Inl e by simp
            then show ?thesis using R Inl e by (simp add: only_mem_upd_trans)
          next
            case (Inr y)
            obtain f3 st2 where y: "y = (f3, st2)" by fastforce
            have "os2_read_segs h sm (Suc i) segs EINVAL f3 st2 = Some r" using run rl Inr y by simp
            then have "only_mem st2 (kres_state r)" by (rule Cons.IH)
            moreover have "only_mem st st2" using R Inr y by (simp add: only_mem_upd_trans)
            ultimately show ?thesis by (blast intro: only_mem_trans)
          qed
        qed
      qed
    qed
  next
    case True
    then show ?thesis using Cons.prems by (cases "ns_size sg = 0") auto
  qed
qed auto

lemma os2_release_filter:
  assumes "distinct (map fst (mm_segs mm))" and "distinct (somes sm)"
    and "\<forall>h \<in> set (somes sm). \<exists>s. map_of (mm_segs mm) h = Some s \<and> ref_count s \<le> 1"
  shows "\<exists>mm'. os2_release sm mm = Some mm' \<and> mm_segs mm' = filter (\<lambda>p. fst p \<notin> set (somes sm)) (mm_segs mm)"
  using assms
proof (induction sm arbitrary: mm)
  case Nil
  then show ?case by simp
next
  case (Cons x sm)
  show ?case
  proof (cases x)
    case None
    then show ?thesis using Cons by simp
  next
    case (Some h)
    obtain s where s: "map_of (mm_segs mm) h = Some s" "ref_count s \<le> 1" using Cons.prems(3) Some by auto
    let ?mm1 = "mm\<lparr>mm_segs := AList.delete h (mm_segs mm)\<rparr>"
    have put: "seg_put h mm = ?mm1" using s by (simp add: seg_put_def)
    have "\<exists>mm'. os2_release sm ?mm1 = Some mm' \<and>
        mm_segs mm' = filter (\<lambda>p. fst p \<notin> set (somes sm)) (mm_segs ?mm1)"
      using Cons.prems Some by (intro Cons.IH) (auto simp: distinct_delete delete_conv)
    then show ?thesis using Some s put by (auto simp: AList.delete_eq filter_filter split_beta intro!: filter_cong)
  qed
qed

lemma os2_errout2_clean:
  assumes ok: "mm_ok (ks_mm st)" and g: "os2_grown st sm st1 sm1" and c: "somes sm = []"
    and om: "only_mem st1 st2"
  shows "\<exists>st'. os2_errout2 ino e sm1 st2 = Some (Inl e, replicate (length sm) None, st') \<and>
           mm_segs (ks_mm st') = mm_segs (ks_mm st) \<and> ks_tasks st' = ks_tasks st \<and>
           ks_cur st' = ks_cur st \<and> ks_inodes st' = ks_inodes (iput ino st)"
proof -
  obtain new where n: "mm_segs (ks_mm st1) = mm_segs (ks_mm st) @ new" "somes sm1 = map fst new"
    "distinct (map fst new)" "\<forall>k \<in> set (map fst new). mm_next (ks_mm st) \<le> k"
    "\<forall>p \<in> set new. ref_count (snd p) = 1"
    using g c unfolding os2_grown_def by auto
  have ok1: "mm_ok (ks_mm st1)" and fr: "ks_tasks st1 = ks_tasks st \<and> ks_cur st1 = ks_cur st \<and>
      ks_inodes st1 = ks_inodes st \<and> length sm1 = length sm"
    using g unfolding os2_grown_def by auto
  have m2: "ks_mm st2 = ks_mm st1 \<and> ks_tasks st2 = ks_tasks st1 \<and> ks_cur st2 = ks_cur st1 \<and>
      ks_inodes st2 = ks_inodes st1" by (rule only_mem_D [OF om])
  have old: "\<forall>k \<in> fst ` set (mm_segs (ks_mm st)). k < mm_next (ks_mm st)"
    using ok by (auto simp: mm_ok_def list_all_iff)
  have live: "\<forall>h \<in> set (somes sm1). \<exists>s. map_of (mm_segs (ks_mm st1)) h = Some s \<and> ref_count s \<le> 1"
  proof
    fix h assume "h \<in> set (somes sm1)"
    then obtain s where hs: "(h, s) \<in> set new" using n(2) by auto
    have "h \<notin> fst ` set (mm_segs (ks_mm st))" using hs n(4) old by force
    then have "map_of (mm_segs (ks_mm st)) h = None" by (simp add: map_of_eq_None_iff)
    then have "map_of (mm_segs (ks_mm st1)) h = map_of new h"
      using n(1) by (simp add: map_of_append map_add_def split: option.splits)
    moreover have "map_of new h = Some s" using n(3) hs by (rule map_of_is_SomeI)
    ultimately show "\<exists>s. map_of (mm_segs (ks_mm st1)) h = Some s \<and> ref_count s \<le> 1"
      using hs n(5) by fastforce
  qed
  obtain mm' where r: "os2_release sm1 (ks_mm st1) = Some mm'"
    and f: "mm_segs mm' = filter (\<lambda>p. fst p \<notin> set (somes sm1)) (mm_segs (ks_mm st1))"
    using os2_release_filter [of "ks_mm st1" sm1] ok1 n(2,3) live by (auto simp: mm_ok_def)
  have "filter (\<lambda>p. fst p \<notin> set (map fst new)) (mm_segs (ks_mm st)) = mm_segs (ks_mm st)"
    using old n(4) by (force intro: filter_True)
  moreover have "filter (\<lambda>p. fst p \<notin> set (map fst new)) new = []" by (simp add: filter_empty_conv)
  ultimately have "mm_segs mm' = mm_segs (ks_mm st)" using f n(1,2) by simp
  then show ?thesis using r m2 fr by (simp add: os2_errout2_def iput_def)
qed

lemma length_decode_segs [simp]: "length (decode_segs n bs) = n"
  by (simp add: decode_segs_def)

lemma os2_run_failure_clean:
  assumes ok: "mm_ok (ks_mm st)" and clean: "set sm \<subseteq> {None}" and len: "length segs \<le> length sm"
    and run: "os2_run h segs ino f sptr slen ds sm st = Some (Inl e, sm', st')"
  shows "set sm' \<subseteq> {None} \<and> length sm' = length sm \<and> mm_segs (ks_mm st') = mm_segs (ks_mm st) \<and>
         ks_tasks st' = ks_tasks st \<and> ks_cur st' = ks_cur st \<and> ks_inodes st' = ks_inodes (iput ino st)"
proof -
  have c: "somes sm = []" using clean by (rule somes_None)
  have late: "?thesis" if "os2_grown st sm st1 sm1" and "only_mem st1 st2"
    and "os2_errout2 ino e' sm1 st2 = Some (Inl e, sm', st')" for e' sm1 st1 st2
    using os2_errout2_clean [OF ok that(1) c that(2), of ino e'] that(3) by auto
  have G: "case os2_alloc h slen 0 segs sm None None 0 st of
             Inl (e, sm1, st1) \<Rightarrow> os2_grown st sm st1 sm1
           | Inr ((sm1, _), st1) \<Rightarrow> os2_grown st sm st1 sm1"
    using len clean by (intro os2_alloc_grown [OF ok]) auto
  show ?thesis
  proof (cases "os2_alloc h slen 0 segs sm None None 0 st")
    case (Inl x)
    then obtain e1 sm1 st1 where x: "x = (e1, sm1, st1)" by (metis prod.exhaust)
    show ?thesis using late [of st1 sm1 st1 e1] G run Inl x by (simp add: os2_run_def)
  next
    case (Inr y)
    then obtain sm1 sco sdo s st1 where y: "y = ((sm1, sco, sdo, s), st1)" by (metis prod.exhaust)
    have g: "os2_grown st sm st1 sm1" using G Inr y by simp
    show ?thesis
    proof (cases "\<exists>sc sd. sco = Some sc \<and> sdo = Some sd")
      case False
      then have "os2_errout2 ino ENOMEM sm1 st1 = Some (Inl e, sm', st')"
        using run Inr y by (cases sco; cases sdo) (auto simp: os2_run_def)
      then show ?thesis using late [OF g only_mem_refl] by blast
    next
      case True
      then obtain sc sd where sc: "sco = Some sc" "sdo = Some sd" by blast
      obtain z where z: "os2_read_segs h sm1 0 segs ENOMEM f st1 = Some z"
        using run Inr y sc by (cases "os2_read_segs h sm1 0 segs ENOMEM f st1") (auto simp: os2_run_def)
      note OM = os2_read_segs_only_mem [OF z]
      show ?thesis
      proof (cases z)
        case (Inl w)
        then obtain e2 st2 where w: "w = (e2, st2)" by fastforce
        have "os2_errout2 ino e2 sm1 st2 = Some (Inl e, sm', st')"
          using run Inr y sc z Inl w by (simp add: os2_run_def)
        then show ?thesis using late [OF g] OM Inl w by simp
      next
        case (Inr w)
        then show ?thesis using run \<open>os2_alloc h slen 0 segs sm None None 0 st = Inr y\<close> y sc z
          by (auto simp: os2_run_def split: prod.splits)
      qed
    qed
  qed
qed

lemma length_dos_hdr_bytes [simp]: "length (dos_hdr_bytes off) = 64"
  by (simp add: dos_hdr_bytes_def)

lemma length_os2_hdr_bytes [simp]: "length (os2_hdr_bytes h) = 64"
  by (simp add: os2_hdr_bytes_def)

lemma length_ne_segment_bytes [simp]: "length (ne_segment_bytes sg) = 8"
  by (simp add: ne_segment_bytes_def)

lemma decode_dos_hdr_bytes: "decode_dos_hdr (dos_hdr_bytes off @ rest) = \<lparr>ext_hdr_offset = off\<rparr>"
  using le32_at_shift [of "replicate 60 0" "u32_bytes off @ rest" 0]
  by (simp add: decode_dos_hdr_def dos_hdr_bytes_def)

lemma decode_os2_hdr_bytes: "decode_os2_hdr (os2_hdr_bytes h @ rest) = h"
  by (simp add: decode_os2_hdr_def os2_hdr_bytes_def le16_at_def u16_bytes_def le16_u16_bytes)

lemma decode_ne_segment_bytes: "decode_ne_segment (ne_segment_bytes sg @ rest) = sg"
  by (simp add: decode_ne_segment_def ne_segment_bytes_def le16_at_def u16_bytes_def le16_u16_bytes)

lemma decode_dos_hdr_bytes': "decode_dos_hdr (dos_hdr_bytes off) = \<lparr>ext_hdr_offset = off\<rparr>"
  using decode_dos_hdr_bytes [of off "[]"] by simp

lemma decode_os2_hdr_bytes': "decode_os2_hdr (os2_hdr_bytes h) = h"
  using decode_os2_hdr_bytes [of h "[]"] by simp

lemma decode_ne_segment_bytes': "decode_ne_segment (ne_segment_bytes sg) = sg"
  using decode_ne_segment_bytes [of sg "[]"] by simp

text \<open>The definitions a concrete run of \<open>execve_os2\<close> unfolds, in three stages.\<close>

lemmas os2_hdr_eval = execve_os2_def ex_os2_file_def file_read_def decode_dos_hdr_bytes' decode_os2_hdr_bytes'
  decode_segs_def decode_ne_segment_bytes' Let_def

lemmas os2_cfg_eval = os2_hdr_supported_def ex_os2_hdr_def NEMAGIC_def NETARGET_OS2_def NEPRG_FLG_MULTIPLEDATA_def
  os2_defaults_def ex_os2_cfg_def elks_config_def

lemmas os2_run_eval = os2_run_def ex_os2_seg_def os2_seg_paras_def os2_auto_paras_def Let_def os2_errout2_def
  seg_put_def ex_st_def ex_mm_def current_def iput_def decode_ne_segment_bytes' ex_task_def NESEG_DATA_def

lemma ex_os2_big_clean:
  "\<exists>st'. execve_os2 ex_os2_cfg 7 (ex_os2_file ex_os2_hdr [ex_os2_seg] []) 0x100 0 [None, None] ex_st =
          Some (Inl E2BIG, [None, None], st')"
  by (simp add: os2_hdr_eval) (simp add: os2_cfg_eval, simp add: os2_run_eval)

end
