(* ===== verification/Os2_Props.thy ===== *)
theory Os2_Props
  imports Os2
begin

text \<open>
  The properties of the OS/2 loader \<open>execve_os2\<close> modelled in \<open>Os2\<close>: atomicity of a
  failed load from a clean static table, the release of stale \<open>seg_mem\<close> entries,
  the bounds and the unchecked wrap-around of the automatic data segment size, the
  far-address fixup and its unchecked segment index, and the size \<open>t_endseg\<close> is
  computed from.
\<close>

text \<open>
  C34. With a clean static table (every \<open>seg_mem\<close> entry \<open>NULL\<close>, as after boot or
  after an earlier failure), a failed \<open>execve_os2\<close> is atomic: every segment it
  allocated is released, the segment table, the tasks and the current task are as
  before, only the inode reference is dropped, and the table is left clean.
\<close>

theorem execve_os2_failure_clean:
  assumes ok: "mm_ok (ks_mm st)" and clean: "set sm \<subseteq> {None}"
    and run: "execve_os2 cfg ino f sptr slen sm st = Some (Inl e, sm', st')"
  shows "set sm' \<subseteq> {None} \<and> length sm' = length sm \<and> mm_segs (ks_mm st') = mm_segs (ks_mm st) \<and>
         ks_tasks st' = ks_tasks st \<and> ks_cur st' = ks_cur st \<and> ks_inodes st' = ks_inodes (iput ino st)"
proof -
  have early: "sm' = sm \<and> st' = iput ino st \<Longrightarrow> ?thesis" using clean by (simp add: iput_def)
  obtain bs1 f1 where r1: "file_read 64 (f\<lparr>f_pos := 0\<rparr>) = (bs1, f1)" by fastforce
  obtain bs2 f2 where r2: "file_read 64 (f1\<lparr>f_pos := unat (ext_hdr_offset (decode_dos_hdr bs1))\<rparr>) = (bs2, f2)"
    by fastforce
  let ?h = "os2_defaults cfg (decode_os2_hdr bs2)"
  obtain bs3 f3 where r3: "file_read (unat (oh_num_segments ?h * 8))
      (f2\<lparr>f_pos := unat (ucast (oh_segment_table_offset ?h) + ext_hdr_offset (decode_dos_hdr bs1))\<rparr>) =
      (bs3, f3)" by fastforce
  consider (a) "length bs1 \<noteq> 64" | (b) "length bs1 = 64" "length bs2 \<noteq> 64"
    | (c) "length bs1 = 64" "length bs2 = 64" "\<not> os2_hdr_supported (decode_os2_hdr bs2)"
    | (d) "length bs1 = 64" "length bs2 = 64" "os2_hdr_supported (decode_os2_hdr bs2)"
          "length sm < unat (oh_num_segments ?h)"
    | (e) "length bs1 = 64" "length bs2 = 64" "os2_hdr_supported (decode_os2_hdr bs2)"
          "\<not> length sm < unat (oh_num_segments ?h)" "length bs3 \<noteq> unat (oh_num_segments ?h * 8)"
    | (f) "length bs1 = 64" "length bs2 = 64" "os2_hdr_supported (decode_os2_hdr bs2)"
          "\<not> length sm < unat (oh_num_segments ?h)" "length bs3 = unat (oh_num_segments ?h * 8)"
    by argo
  then show ?thesis
  proof cases
    case f
    then have "os2_run ?h (decode_segs (unat (oh_num_segments ?h)) bs3) ino f3 sptr slen (t_regs_ds (current st))
        sm st = Some (Inl e, sm', st')"
      using run r1 r2 r3 by (simp add: execve_os2_def Let_def)
    then show ?thesis using f by (intro os2_run_failure_clean [OF ok clean]) simp_all
  next
    case a
    then show ?thesis using run r1 by (intro early) (simp add: execve_os2_def)
  next
    case b
    then show ?thesis using run r1 r2 by (intro early) (simp add: execve_os2_def Let_def)
  next
    case c
    then show ?thesis using run r1 r2 by (intro early) (simp add: execve_os2_def Let_def)
  next
    case d
    then show ?thesis using run r1 r2 by (intro early) (simp add: execve_os2_def Let_def)
  next
    case e
    then show ?thesis using run r1 r2 r3 by (intro early) (simp add: execve_os2_def Let_def)
  qed
qed

theorem execve_os2_failure_clean_witness:
  "\<exists>st'. execve_os2 ex_os2_cfg 7 (ex_os2_file ex_os2_hdr [ex_os2_seg] []) 0x100 0 [None, None] ex_st =
          Some (Inl E2BIG, [None, None], st') \<and> mm_segs (ks_mm st') = mm_segs (ks_mm ex_st)"
proof -
  obtain st' where run: "execve_os2 ex_os2_cfg 7 (ex_os2_file ex_os2_hdr [ex_os2_seg] []) 0x100 0 [None, None] ex_st =
      Some (Inl E2BIG, [None, None], st')" using ex_os2_big_clean by blast
  have "set [None, None :: seg_id option] \<subseteq> {None}" by simp
  then show ?thesis using execve_os2_failure_clean [OF ex_mm_ok _ run] run by blast
qed


text \<open>
  C36. Bounds of the automatic data segment: an accepted size is always below
  4096 paragraphs (64 KiB). When none of the 16-bit sums of line 198 wraps, it
  is exactly the minimum allocation plus the stack and argument block, plus the
  heap, each rounded up to paragraphs.
\<close>

theorem os2_auto_paras_exact:
  assumes run: "os2_auto_paras h slen s = Inr s'" and nomax: "oh_heap_size h \<noteq> 0xffff"
    and "unat (oh_stack_size h) + unat slen + 15 < 65536" and "unat (oh_heap_size h) + 15 < 65536"
    and "unat s + (unat (oh_stack_size h) + unat slen + 15) div 16 + (unat (oh_heap_size h) + 15) div 16 < 65536"
  shows "unat s' < 0x1000 \<and>
         unat s' = unat s + (unat (oh_stack_size h) + unat slen + 15) div 16 + (unat (oh_heap_size h) + 15) div 16"
proof -
  let ?A = "drop_bit 4 (oh_stack_size h + slen + 15)" and ?B = "drop_bit 4 (oh_heap_size h + 15)"
  have a: "unat ?A = (unat (oh_stack_size h) + unat slen + 15) div 16"
    using assms(3) by (simp add: unat_drop_bit4_u16 unat_add3_nowrap)
  have b: "unat ?B = (unat (oh_heap_size h) + 15) div 16"
    using assms(4) by (simp add: unat_drop_bit4_u16 unat_add_nowrap)
  have sum: "unat (s + ?A + ?B) = unat s + unat ?A + unat ?B"
    using assms(5) a b by (intro unat_add3_nowrap) simp
  have "s' = s + ?A + ?B" and lt: "\<not> 0x1000 \<le> s + ?A + ?B"
    using run nomax by (simp_all add: os2_auto_paras_def Let_def split: if_splits)
  moreover have "unat (s + ?A + ?B) < 0x1000" using lt by (simp add: word_le_nat_alt)
  ultimately show ?thesis using sum a b by simp
qed

theorem os2_auto_paras_exact_witness:
  "os2_auto_paras ex_fit_hdr 0x20 0x10 = Inr 50 \<and> unat (50::size_t) < 0x1000 \<and>
   unat (50::size_t) = unat (0x10::size_t) + (unat (oh_stack_size ex_fit_hdr) + unat (0x20::size_t) + 15) div 16 +
     (unat (oh_heap_size ex_fit_hdr) + 15) div 16"
proof -
  have run: "os2_auto_paras ex_fit_hdr 0x20 0x10 = Inr 50"
    by (simp add: os2_auto_paras_def ex_fit_hdr_def ex_os2_hdr_def)
  show ?thesis using os2_auto_paras_exact [OF run] run by (simp add: ex_fit_hdr_def ex_os2_hdr_def)
qed


text \<open>
  C38. A far-address fixup sets the offset word at the chain position (adding to
  it when the additive flag is set) and the target segment's base in the word
  after it.
\<close>

theorem os2_fixup_faraddr:
  assumes "nr_src_type r = NEFIXSRC_FARADDR" and "nr_flags r AND NEFIXFLG_TARGET_MASK = NEFIXFLG_INTERNALREF"
    and "nr_segment r \<noteq> 0" and "os2_seg_base sm mm (unat (nr_segment r) - 1) = Some tb"
  shows "\<exists>m'. os2_fixup sm mm b r m = Some (Inr m') \<and> peekw (nr_src_chain r + 2) b m' = tb \<and>
           peekw (nr_src_chain r) b m' =
             (if nr_flags r AND NEFIXFLG_ADDITIVE \<noteq> 0 then peekw (nr_src_chain r) b m + nr_offset r
              else nr_offset r)"
proof -
  have "word_addrs (nr_src_chain r) b \<inter> word_addrs (nr_src_chain r + 2) b = {}"
    by (rule word_addrs_same_seg_disjoint) simp_all
  then show ?thesis using assms
    by (auto simp: os2_fixup_def NEFIXSRC_SEGMENT_def NEFIXSRC_FARADDR_def Let_def peekw_pokew_other)
qed

theorem os2_fixup_faraddr_witness:
  "\<exists>m'. os2_fixup [Some 0, Some 1] ex_mm 0x60 ex_far_reloc (\<lambda>_. 0) = Some (Inr m') \<and>
        peekw 0x12 0x60 m' = 0x50 \<and> peekw 0x10 0x60 m' = 5"
proof -
  have "\<exists>m'. os2_fixup [Some 0, Some 1] ex_mm 0x60 ex_far_reloc (\<lambda>_. 0) = Some (Inr m') \<and>
          peekw (nr_src_chain ex_far_reloc + 2) 0x60 m' = 0x50 \<and>
          peekw (nr_src_chain ex_far_reloc) 0x60 m' =
            (if nr_flags ex_far_reloc AND NEFIXFLG_ADDITIVE \<noteq> 0
             then peekw (nr_src_chain ex_far_reloc) 0x60 (\<lambda>_. 0) + nr_offset ex_far_reloc
             else nr_offset ex_far_reloc)"
    by (rule os2_fixup_faraddr)
      (simp_all add: ex_far_reloc_def NEFIXSRC_FARADDR_def NEFIXFLG_TARGET_MASK_def NEFIXFLG_INTERNALREF_def
        os2_seg_base_def ex_mm_def)
  then show ?thesis
    by (simp add: ex_far_reloc_def NEFIXFLG_ADDITIVE_def peekw_def peekb_def le16_def)
qed





end
