(* ===== verification/Spec2Isabelle.thy ===== *)
theory Spec2Isabelle
  imports Execve Panic Os2_Props
begin

text \<open>
  \<^bold>\<open>A model of the ELKS executable loader and kernel printk.\<close>

  The program is two files: \<^verbatim>\<open>src/elks/fs/exec.c\<close>, the \<open>execve\<close> system call of
  the ELKS kernel for the 8086 (it reads a Minix a.out header, plans the sizes of
  the code and data segments in 16-bit arithmetic, allocates and fills the
  segments, applies relocations, copies the argument block and installs the new
  image in the current task), and \<^verbatim>\<open>src/elks/kernel/printk.c\<close>, the kernel's
  formatted console output. The loader calls the allocator, the file system and
  the scheduler's task table; those live outside \<^verbatim>\<open>src/\<close> and are modelled at the
  interface the loader relies on.

  \<^bold>\<open>Theories and the code they model.\<close>
  \<^item> \<open>Prelude\<close>: the machine integer types (\<open>u8\<close>, \<open>u16\<close>, \<open>u32\<close>, \<open>size_t\<close>,
    \<open>seg_t\<close> as \<open>n word\<close>), the error codes, the configuration flags
    (\<open>CONFIG_EXEC_MMODEL\<close>, \<open>CONFIG_EXEC_LOW_STACK\<close>, \<open>CONFIG_EXEC_COMPRESS\<close>,
    \<open>CONFIG_EXEC_OS2\<close>, \<open>INIT_HEAP\<close>, \<open>INIT_STACK\<close>) as a record, and the error
    result \<open>errno + 'a\<close> with its bind.
  \<^item> \<open>Arith\<close>: the macros \<open>add_overflow\<close> and \<open>bytes_to_paras\<close> of \<^verbatim>\<open>exec.c\<close>,
    each in both compiled forms (builtin or inline assembly, and the fallback).
  \<^item> \<open>Machine\<close>: far memory (one array of \<open>2 ^ 20\<close> bytes, \<open>seg:off\<close> at
    \<open>seg * 16 + off\<close>), byte and word access, little-endian decoding, and the
    sequential file read of \<open>filp->f_op->read\<close>.
  \<^item> \<open>Header\<close>: the header read and checks of \<open>sys_execve\<close> (lines 376--394) as
    \<open>exec_read_hdr\<close>, with the on-disk encodings of \<open>minix_exec_hdr\<close> and
    \<open>elks_supl_hdr\<close>.
  \<^item> \<open>Layout\<close>: the planner, lines 407--542: \<open>exec_min_len\<close>, \<open>exec_supl\<close> (the
    supplementary header switch), \<open>exec_chmem\<close> (the version policy),
    \<open>exec_round\<close> and their composition \<open>exec_layout\<close>; \<open>planned_len\<close> and
    \<open>para_round\<close> are the same policy in unbounded arithmetic.
  \<^item> \<open>Reloc\<close>: \<open>relocate\<close> (lines 77--126) as the loop \<open>relocate_loop\<close> over the file,
    with the abstract semantics \<open>reloc_records\<close> / \<open>apply_relocs\<close>.
  \<^item> \<open>Kernel\<close>: the collaborators, from their contracts: the segment table with
    reference counts (\<open>seg_alloc\<close>, \<open>seg_get\<close>, \<open>seg_put\<close>, invariant \<open>mm_ok\<close>), the
    task fields the loader uses, inodes and \<open>iput\<close>.
  \<^item> \<open>Loader\<close>: lines 545--662 and the cleanup labels \<open>error_exec4\<close>/\<open>error_exec5\<close>
    (lines 693--697) in a state-and-error monad \<open>kres\<close>: \<open>exec_find_code\<close> (the
    search for a resident text, 396--406), \<open>exec_get_code\<close>, \<open>exec_read_data\<close>,
    \<open>exec_relocate_all\<close>, composed as \<open>exec_load\<close>. The decompressor is a
    parameter.
  \<^item> \<open>Finalize\<close>: the commit of lines 664--691 (\<open>exec_commit\<close>) and
    \<open>finalize_exec\<close> (715--787) with the argv/envp fixup loop
    \<open>exec_fixup_args\<close>, the release of the old segments and close-on-exec.
  \<^item> \<open>Execve\<close>: \<open>sys_execve\<close> composed from the above, with the common exit
    \<open>exec_exit\<close> (\<open>error_exec3\<close> .. \<open>error_exec1\<close>).
  \<^item> \<open>Printk\<close>: \<open>con_write\<close>, \<open>numout\<close> and \<open>printk\<close> over a console record (the
    characters written and the static colour), with the reference definitions
    \<open>digits_of\<close>, \<open>digits_val\<close>, \<open>crlf\<close> and \<open>colour_ok\<close>.
  \<^item> \<open>Panic\<close>: the rest of \<^verbatim>\<open>printk.c\<close>. \<open>panic\<close> is a sequence of \<open>printk\<close>
    calls (\<open>printk_seq\<close>): the banner, then a walk of eight stack frames
    (\<open>panic_frame\<close>, \<open>panic_walk\<close>) through the saved frame pointers in stack
    memory, then an endless loop. \<open>kernel_restarted\<close> calls it. \<open>redirect_main\<close>
    patches code memory with \<open>pokeb\<close>/\<open>pokew\<close>.
  \<^item> \<open>Os2\<close>: the loader of segmented (OS/2 NE) executables, \<open>execve_os2\<close> (lines
    140--342): \<open>os2_hdr_supported\<close> and \<open>os2_defaults\<close> (the header checks and
    defaults), \<open>os2_alloc\<close> (the allocation loop, with \<open>os2_seg_paras\<close>,
    \<open>os2_auto_paras\<close> and \<open>os2_clear_bss\<close>), \<open>os2_read_segs\<close> (the read loop, with
    \<open>os2_relocs\<close> and \<open>os2_fixup\<close>), \<open>os2_commit\<close>, the exit \<open>os2_errout2\<close> /
    \<open>os2_release\<close>, composed as \<open>os2_run\<close> and \<open>execve_os2\<close>. The static table
    \<open>seg_mem[NEMAXSEGS]\<close> outlives a call; the model takes it as an input and
    returns it, as a list of optional segment handles. The NE layouts of
    \<^verbatim>\<open>linuxmt/os2.h\<close> are the standard ones. \<open>Os2_Props\<close> holds its properties.

  The state of the loader is \<open>kstate\<close>: segment table, memory, task table, current
  task and inodes. Each step returns either an error with the state reached or a
  result with the new state; every \<open>goto error_exec\<close> of the code is a branch of
  the model, and the cleanup steps run in the order the labels fall through.

  \<^bold>\<open>What is proved.\<close> The properties are numbered C1--C40 in the theories.
  \<^item> Planner (C1--C3, C7, C9, C10, C17): the length is a whole number of paragraphs and
    covers data, BSS and arguments. The 16-bit computation equals the unbounded
    policy or fails; it never wraps. Each version's defaults and error codes are
    stated. Two divergences are shown: the truncation of 32-bit \<open>dseg\<close>/\<open>bseg\<close>
    (C17), and the error code of an unknown version (C10).
  \<^item> Relocation (C4--C6, C11, C12): the streaming loop refines the abstract
    semantics. Fixups land where the records say. Nothing else in memory changes,
    and the only error is \<open>EINVAL\<close>.
  \<^item> Arithmetic (C13, C14): both forms of each macro agree.
  \<^item> Header (C15, C16): encode/decode round trip, and what an accepted header
    satisfies.
  \<^item> Loader (C18--C20): a failed load rolls back every segment it took. A
    successful one holds exactly one fresh data segment. A resident text is shared
    with one more reference.
  \<^item> Commit (C21, C22): the fixup loop returns on a well-formed argument block and
    rebases exactly its entries. \<open>finalize_exec\<close> installs the image and touches
    no other task.
  \<^item> \<open>sys_execve\<close> (C23--C25): failure leaves the state as it was, apart from the
    inode reference. Success installs a fresh data segment in the current task
    only. The legacy \<open>chmem\<close> check fails before any allocation.
  \<^item> \<open>printk\<close> (C26--C31): \<open>numout\<close> prints exactly the reference digits, and they
    read back to the value. \<open>%d\<close> is unsigned. A trailing \<open>%\<close> reads past the
    terminator. The colour stays in range. \<open>con_write\<close> translates newlines.
  \<^item> \<open>panic\<close> (C32) always reaches its final loop, having printed its banner and
    message, and all eight frames. \<open>redirect_main\<close> (C8) swaps offset and segment:
    the jump lands at \<open>0000:CS\<close> and \<open>CS:0000\<close> is left unchanged.
  \<^item> Sequences of calls (C33): every state reached by \<open>sys_execve\<close> calls from a
    well-formed state (rule induction on \<open>exec_reach\<close>) keeps a well-formed segment
    table and a current task inside the task table.
  \<^item> OS/2 loader (C34--C40): from a clean \<open>seg_mem\<close> a failed load releases all it
    allocated and leaves the table clean. But \<open>seg_mem\<close> is not cleared on success,
    so a later failure frees the running task's segments (C35). The automatic data
    segment stays below 4096 paragraphs and is exact when no 16-bit sum wraps
    (C36), yet a wrapped sum is accepted (C37). A far-address fixup writes offset
    and base (C38). The target segment index is never range-checked (C39).
    \<open>t_endseg\<close> is computed from the last segment's size (C40).

  \<^bold>\<open>Loops, fuel and termination.\<close> \<open>relocate_loop\<close> decreases the remaining
  \<open>rsize\<close>, \<open>reloc_records\<close> the stream length, \<open>numout_loop\<close> the buffer index,
  and \<open>digits_of\<close> the value; all are total. The fixup loop of \<open>finalize_exec\<close>
  runs until it has seen two zero words, which a corrupt argument block need not
  contain. It is therefore a \<open>partial_function (option)\<close>, whose \<open>None\<close> is
  non-termination. C21 proves that it returns on every well-formed block. The
  printk format loop consumes one character per step; reading past the NUL is
  \<open>None\<close>. The OS/2 loops recurse on the segment list (\<open>os2_alloc\<close>,
  \<open>os2_read_segs\<close>, \<open>os2_release\<close>) and on the record count (\<open>os2_relocs\<close>). No
  bound or fuel constant is needed.

  \<^bold>\<open>Not modelled.\<close>
  \<^item> \<open>open_namei\<close> and \<open>open_filp\<close> (lines 364--372) are file-system code outside
    \<^verbatim>\<open>src/\<close>. The model starts from the opened file, so their failures are absent.
  \<^item> In \<open>sys_execve\<close> the OS/2 loader is a parameter, since \<open>Os2\<close> threads the
    static \<open>seg_mem\<close>, which the Minix path does not touch. \<open>execve_os2\<close> is
    modelled on its own in \<open>Os2\<close>. Its debug \<open>printk\<close> calls are not state.
    The layouts of \<^verbatim>\<open>linuxmt/os2.h\<close> (outside \<^verbatim>\<open>src/\<close>) are taken as the
    standard NE format. Undefined behaviour (an index outside \<open>seg_mem\<close>, a freed
    or \<open>NULL\<close> segment used, a shift of 32 or more) is the result \<open>None\<close>.
  \<^item> The decompressor is a parameter of the loader.
  \<^item> The saving of \<open>current->t_regs.ds\<close> around the reads is not modelled, since it
    is restored on every path.
  \<^item> Debug output, and the \<open>ENTRY\<close> printk of \<open>finalize_exec\<close>, are not part of the
    state.
  \<^item> \<open>arch_setup_user_stack\<close>, \<open>get_ustack\<close>/\<open>put_ustack\<close> and \<open>sys_close\<close> are
    modelled from their contracts.
  \<^item> In \<^verbatim>\<open>printk.c\<close>, the final \<open>while (1);\<close> of \<open>panic\<close> has no state: the model
    stops at it and returns the console. \<open>get_cs()\<close> and the address of
    \<open>kernel_restarted\<close> are parameters of \<open>redirect_main\<close>.
\<close>

end
